theory Spec2Isabelle
  imports Main
begin

section \<open>Bytes, C strings and the I/O hook layer\<close>

text \<open>
  This theory embeds the attribute-table engine of \<^verbatim>\<open>dbfopen.c\<close>. A byte is a
  \<^typ>\<open>char\<close>, a buffer is a list of bytes, a C \<^verbatim>\<open>int\<close> is an \<^typ>\<open>int\<close>
  (the theorems say where a value has to stay inside the 32-bit range), and every function
  that changes the handle returns the changed handle next to its C result.
\<close>

type_synonym byte = char
type_synonym SAFile = nat

abbreviation NUL :: byte where "NUL \<equiv> CHR 0x00"

text \<open>
  A C string is the run of bytes before the first NUL of its buffer.
\<close>

definition cstr :: "byte list \<Rightarrow> string" where
  "cstr buf = takeWhile (\<lambda>c. c \<noteq> NUL) buf"

text \<open>
  \<^verbatim>\<open>memset(buf + off, c, n)\<close>, \<^verbatim>\<open>memcpy(buf + off, src, strlen(src))\<close> and the effect of a
  read that delivers \<open>dat\<close> into the front of a buffer. The C code is undefined when the
  range leaves the buffer; the theorems below keep every range inside it.
\<close>

definition memset_at :: "byte list \<Rightarrow> nat \<Rightarrow> byte \<Rightarrow> nat \<Rightarrow> byte list" where
  "memset_at buf off c n = take off buf @ replicate n c @ drop (off + n) buf"

definition memcpy_at :: "byte list \<Rightarrow> nat \<Rightarrow> byte list \<Rightarrow> byte list" where
  "memcpy_at buf off src = take off buf @ src @ drop (off + length src) buf"

definition overlay :: "byte list \<Rightarrow> byte list \<Rightarrow> byte list" where
  "overlay dat buf = take (length buf) (dat @ drop (length dat) buf)"

text \<open>
  The hook calls the engine makes are logged, in order, in a ghost field of the handle.
  An open is logged with the stream it returned and a read with the item count it
  returned. Allocations are logged under the name of the handle field that owns the
  block, or of the local variable when no field does.
\<close>

datatype event =
    EvOpen string string "SAFile option"
  | EvRead SAFile nat nat nat
  | EvWrite SAFile "byte list"
  | EvSeek SAFile int
  | EvTell SAFile
  | EvFlush SAFile
  | EvClose SAFile
  | EvError string
  | EvMalloc string
  | EvFree string

text \<open>
  The table of hooks (\<^verbatim>\<open>SAHooks\<close>) is a collaborator outside the engine, so it is a
  parameter: \<open>'w\<close> is the state of the byte streams behind the hooks and \<open>'d\<close> is the
  type \<^verbatim>\<open>double\<close>. \<open>FRead\<close> returns the item count and the bytes it delivered,
  \<open>FWrite\<close> the item count, \<open>FSeek\<close> its status (0 is success; the engine always seeks
  from the start of the file).
\<close>

record ('w, 'd) SAHooks =
  FOpen :: "'w \<Rightarrow> string \<Rightarrow> string \<Rightarrow> SAFile option \<times> 'w"
  FRead :: "'w \<Rightarrow> SAFile \<Rightarrow> nat \<Rightarrow> nat \<Rightarrow> (nat \<times> byte list) \<times> 'w"
  FWrite :: "'w \<Rightarrow> SAFile \<Rightarrow> byte list \<Rightarrow> nat \<Rightarrow> nat \<Rightarrow> nat \<times> 'w"
  FSeek :: "'w \<Rightarrow> SAFile \<Rightarrow> int \<Rightarrow> int \<times> 'w"
  FTell :: "'w \<Rightarrow> SAFile \<Rightarrow> int"
  FFlush :: "'w \<Rightarrow> SAFile \<Rightarrow> 'w"
  FClose :: "'w \<Rightarrow> SAFile \<Rightarrow> 'w"
  Error :: "'w \<Rightarrow> string \<Rightarrow> 'w"
  Atof :: "string \<Rightarrow> 'd"

text \<open>
  What the C library and the build configuration contribute: \<^verbatim>\<open>snprintf\<close> with the format
  \<^verbatim>\<open>"%<w>.<d>f"\<close> (the whole output, before the destination buffer cuts it), the comparison
  \<^verbatim>\<open>==\<close> on doubles, the conversion from \<^verbatim>\<open>int\<close>, and the build-time switch
  \<^verbatim>\<open>TRIM_DBF_WHITESPACE\<close>, whose definition is in a header outside the sources at hand.
\<close>

record 'd platform =
  snprintf_f :: "int \<Rightarrow> int \<Rightarrow> 'd \<Rightarrow> string"
  dbl_eq :: "'d \<Rightarrow> 'd \<Rightarrow> bool"
  dbl_of_int :: "int \<Rightarrow> 'd"
  TRIM_DBF_WHITESPACE :: bool

text \<open>
  Modelled from the spec: the macros \<^verbatim>\<open>XBASE_FLDHDR_SZ\<close>, \<^verbatim>\<open>XBASE_FLD_MAX_WIDTH\<close>,
  \<^verbatim>\<open>XBASE_FLDNAME_LEN_WRITE\<close> and \<^verbatim>\<open>XBASE_FLDNAME_LEN_READ\<close> are defined in a header that
  is not among the sources. The spec gives 32-byte field descriptors, a width clamped to
  255, and names of at most 10 bytes when written and 11 when read.
\<close>

definition XBASE_FLDHDR_SZ :: int where "XBASE_FLDHDR_SZ = 32"
definition XBASE_FLD_MAX_WIDTH :: int where "XBASE_FLD_MAX_WIDTH = 255"
definition XBASE_FLDNAME_LEN_WRITE :: nat where "XBASE_FLDNAME_LEN_WRITE = 10"
definition XBASE_FLDNAME_LEN_READ :: nat where "XBASE_FLDNAME_LEN_READ = 11"

definition XBASE_FILEHDR_SZ :: int where "XBASE_FILEHDR_SZ = 32"
definition HEADER_RECORD_TERMINATOR :: byte where "HEADER_RECORD_TERMINATOR = CHR 0x0D"
definition END_OF_FILE_CHARACTER :: byte where "END_OF_FILE_CHARACTER = CHR 0x1A"

section \<open>The table handle\<close>

text \<open>
  The fields of \<^verbatim>\<open>DBFInfo\<close> that the engine uses, under their C names. The ghost fields
  \<open>world\<close> and \<open>trace\<close> hold the state behind the hooks and the log of hook calls.
\<close>

record 'w DBFInfo =
  fp :: SAFile
  nRecords :: int
  nRecordLength :: int
  nHeaderLength :: int
  nFields :: int
  panFieldOffset :: "int list"
  panFieldSize :: "int list"
  panFieldDecimals :: "int list"
  pachFieldType :: "char list"
  pszHeader :: "byte list"
  nCurrentRecord :: int
  bCurrentRecordModified :: bool
  pszCurrentRecord :: "byte list"
  nWorkFieldLength :: int
  pszWorkField :: "byte list"
  bNoHeader :: bool
  bUpdated :: bool
  iLanguageDriver :: int
  pszCodePage :: "string option"
  nUpdateYearSince1900 :: int
  nUpdateMonth :: int
  nUpdateDay :: int
  bWriteEndOfFileChar :: bool
  bRequireNextWriteSeek :: bool
  world :: 'w
  trace :: "event list"

definition hk_seek :: "('w, 'd) SAHooks \<Rightarrow> 'w DBFInfo \<Rightarrow> int \<Rightarrow> int \<times> 'w DBFInfo" where
  "hk_seek hk h off =
     (fst (FSeek hk (world h) (fp h) off),
      h\<lparr>world := snd (FSeek hk (world h) (fp h) off),
        trace := trace h @ [EvSeek (fp h) off]\<rparr>)"

definition hk_tell :: "('w, 'd) SAHooks \<Rightarrow> 'w DBFInfo \<Rightarrow> int \<times> 'w DBFInfo" where
  "hk_tell hk h = (FTell hk (world h) (fp h), h\<lparr>trace := trace h @ [EvTell (fp h)]\<rparr>)"

definition hk_read ::
  "('w, 'd) SAHooks \<Rightarrow> 'w DBFInfo \<Rightarrow> nat \<Rightarrow> nat \<Rightarrow> (nat \<times> byte list) \<times> 'w DBFInfo" where
  "hk_read hk h sz n =
     (fst (FRead hk (world h) (fp h) sz n),
      h\<lparr>world := snd (FRead hk (world h) (fp h) sz n),
        trace := trace h @ [EvRead (fp h) sz n (fst (fst (FRead hk (world h) (fp h) sz n)))]\<rparr>)"

definition hk_write ::
  "('w, 'd) SAHooks \<Rightarrow> 'w DBFInfo \<Rightarrow> byte list \<Rightarrow> nat \<Rightarrow> nat \<Rightarrow> nat \<times> 'w DBFInfo" where
  "hk_write hk h dat sz n =
     (fst (FWrite hk (world h) (fp h) dat sz n),
      h\<lparr>world := snd (FWrite hk (world h) (fp h) dat sz n),
        trace := trace h @ [EvWrite (fp h) dat]\<rparr>)"

definition hk_flush :: "('w, 'd) SAHooks \<Rightarrow> 'w DBFInfo \<Rightarrow> 'w DBFInfo" where
  "hk_flush hk h = h\<lparr>world := FFlush hk (world h) (fp h), trace := trace h @ [EvFlush (fp h)]\<rparr>"

definition hk_error :: "('w, 'd) SAHooks \<Rightarrow> 'w DBFInfo \<Rightarrow> string \<Rightarrow> 'w DBFInfo" where
  "hk_error hk h msg = h\<lparr>world := Error hk (world h) msg, trace := trace h @ [EvError msg]\<rparr>"

text \<open>The \<^verbatim>\<open>%d\<close> of the error messages.\<close>

function dec_nat :: "nat \<Rightarrow> string" where
  "dec_nat n = (if n < 10 then [char_of (48 + n)]
                else dec_nat (n div 10) @ [char_of (48 + n mod 10)])"
  by pat_completeness auto
termination
  by (relation "measure id") auto

declare dec_nat.simps [simp del]

definition showd :: "int \<Rightarrow> string" where
  "showd i = (if i < 0 then CHR ''-'' # dec_nat (nat (- i)) else dec_nat (nat i))"

text \<open>
  The value an \<^verbatim>\<open>int\<close> holds after a step whose exact result is \<open>x\<close>: the 32 bits of
  the two's complement representation wrap around. The C standard leaves the overflow of
  a signed \<^verbatim>\<open>int\<close> undefined; the wrap-around is what the usual compilers produce. It is
  written out where a count that a file can supply reaches the end of the range.
\<close>

definition c_int :: "int \<Rightarrow> int" where
  "c_int x = (x + 2147483648) mod 4294967296 - 2147483648"

section \<open>Header and record cache\<close>

definition file_header_bytes :: "'w DBFInfo \<Rightarrow> byte list" where
  "file_header_bytes psDBF =
     [CHR 0x03,
      char_of (nUpdateYearSince1900 psDBF), char_of (nUpdateMonth psDBF),
      char_of (nUpdateDay psDBF)]
     @ replicate 4 NUL
     @ [char_of (nHeaderLength psDBF mod 256), char_of (nHeaderLength psDBF div 256),
        char_of (nRecordLength psDBF mod 256), char_of (nRecordLength psDBF div 256)]
     @ replicate 17 NUL
     @ [char_of (iLanguageDriver psDBF), NUL, NUL]"

definition DBFWriteHeader :: "('w, 'd) SAHooks \<Rightarrow> 'w DBFInfo \<Rightarrow> 'w DBFInfo" where
  "DBFWriteHeader hk psDBF =
     (if \<not> bNoHeader psDBF then psDBF
      else
        let h0 = psDBF\<lparr>bNoHeader := False\<rparr>;
            h1 = snd (hk_seek hk h0 0);
            h2 = snd (hk_write hk h1 (file_header_bytes h0) (nat XBASE_FILEHDR_SZ) 1);
            h3 = snd (hk_write hk h2
                   (take (nat (XBASE_FLDHDR_SZ * nFields h0)) (pszHeader h0))
                   (nat XBASE_FLDHDR_SZ) (nat (nFields h0)));
            h4 = (if nHeaderLength h0 > XBASE_FLDHDR_SZ * nFields h0 + XBASE_FLDHDR_SZ
                  then snd (hk_write hk h3 [HEADER_RECORD_TERMINATOR] 1 1) else h3)
        in if nRecords h0 = 0 \<and> bWriteEndOfFileChar h0
           then snd (hk_write hk h4 [END_OF_FILE_CHARACTER] 1 1) else h4)"

text \<open>
  \<^verbatim>\<open>DBFFlushRecord\<close>. The position is asked for (\<open>FTell\<close>) only when the flag
  \<open>bRequireNextWriteSeek\<close> is clear, as the C \<^verbatim>\<open>||\<close> does.
\<close>

definition flush_offset :: "'w DBFInfo \<Rightarrow> int" where
  "flush_offset psDBF = nRecordLength psDBF * nCurrentRecord psDBF + nHeaderLength psDBF"

definition flush_position :: "('w, 'd) SAHooks \<Rightarrow> 'w DBFInfo \<Rightarrow> bool \<times> 'w DBFInfo" where
  "flush_position hk h =
     (if bRequireNextWriteSeek h then (True, h)
      else (fst (hk_tell hk h) \<noteq> flush_offset h, snd (hk_tell hk h)))"

definition flush_write :: "('w, 'd) SAHooks \<Rightarrow> 'w DBFInfo \<Rightarrow> bool \<times> 'w DBFInfo" where
  "flush_write hk h =
     (let wr = hk_write hk h (take (nat (nRecordLength h)) (pszCurrentRecord h))
                 (nat (nRecordLength h)) 1
      in if fst wr \<noteq> 1
         then (False, hk_error hk (snd wr)
                 (''Failure writing DBF record '' @ showd (nCurrentRecord h) @ ''.''))
         else
           let h2 = (snd wr)\<lparr>bRequireNextWriteSeek := False\<rparr>
           in (True,
               if nCurrentRecord h2 = nRecords h2 - 1 \<and> bWriteEndOfFileChar h2
               then snd (hk_write hk h2 [END_OF_FILE_CHARACTER] 1 1) else h2))"

definition DBFFlushRecord :: "('w, 'd) SAHooks \<Rightarrow> 'w DBFInfo \<Rightarrow> bool \<times> 'w DBFInfo" where
  "DBFFlushRecord hk psDBF =
     (if bCurrentRecordModified psDBF \<and> nCurrentRecord psDBF > -1 then
        let h0 = psDBF\<lparr>bCurrentRecordModified := False\<rparr>;
            ps = flush_position hk h0
        in if fst ps then
             (let sk = hk_seek hk (snd ps) (flush_offset h0)
              in if fst sk \<noteq> 0
                 then (False, hk_error hk (snd sk)
                        (''Failure seeking to position before writing DBF record ''
                           @ showd (nCurrentRecord h0) @ ''.''))
                 else flush_write hk (snd sk))
           else flush_write hk (snd ps)
      else (True, psDBF))"

definition DBFLoadRecord :: "('w, 'd) SAHooks \<Rightarrow> 'w DBFInfo \<Rightarrow> int \<Rightarrow> bool \<times> 'w DBFInfo" where
  "DBFLoadRecord hk psDBF iRecord =
     (if nCurrentRecord psDBF \<noteq> iRecord then
        let fl = DBFFlushRecord hk psDBF
        in if \<not> fst fl then (False, snd fl)
           else
             let h0 = snd fl;
                 nRecordOffset = nRecordLength h0 * iRecord + nHeaderLength h0;
                 sk = hk_seek hk h0 nRecordOffset
             in if fst sk \<noteq> 0
                then (False, hk_error hk (snd sk)
                        (''fseek('' @ showd nRecordOffset @ '') failed on DBF file.''))
                else
                  let rd = hk_read hk (snd sk) (nat (nRecordLength h0)) 1;
                      h1 = (snd rd)\<lparr>pszCurrentRecord :=
                              overlay (snd (fst rd)) (pszCurrentRecord h0)\<rparr>
                  in if fst (fst rd) \<noteq> 1
                     then (False, hk_error hk h1
                             (''fread('' @ showd (nRecordLength h0) @ '') failed on DBF file.''))
                     else (True, h1\<lparr>nCurrentRecord := iRecord,
                                    bRequireNextWriteSeek := True\<rparr>)
      else (True, psDBF))"

definition DBFUpdateHeader :: "('w, 'd) SAHooks \<Rightarrow> 'w DBFInfo \<Rightarrow> 'w DBFInfo" where
  "DBFUpdateHeader hk psDBF =
     (let h0 = (if bNoHeader psDBF then DBFWriteHeader hk psDBF else psDBF);
          fl = DBFFlushRecord hk h0
      in if \<not> fst fl then snd fl
         else
           let h1 = snd (hk_seek hk (snd fl) 0);
               rd = hk_read hk h1 1 (nat XBASE_FILEHDR_SZ);
               abyFileHeader = overlay (snd (fst rd)) (replicate 32 NUL);
               upd = take 1 abyFileHeader
                     @ [char_of (nUpdateYearSince1900 psDBF), char_of (nUpdateMonth psDBF),
                        char_of (nUpdateDay psDBF),
                        char_of (nRecords psDBF mod 256),
                        char_of ((nRecords psDBF div 256) mod 256),
                        char_of ((nRecords psDBF div 65536) mod 256),
                        char_of ((nRecords psDBF div 16777216) mod 256)]
                     @ drop 8 abyFileHeader;
               h2 = snd (hk_seek hk (snd rd) 0);
               h3 = snd (hk_write hk h2 upd (nat XBASE_FILEHDR_SZ) 1)
           in hk_flush hk h3)"

definition DBFIsRecordDeleted :: "('w, 'd) SAHooks \<Rightarrow> 'w DBFInfo \<Rightarrow> int \<Rightarrow> bool \<times> 'w DBFInfo" where
  "DBFIsRecordDeleted hk psDBF iShape =
     (if iShape < 0 \<or> iShape \<ge> nRecords psDBF then (True, psDBF)
      else
        let ld = DBFLoadRecord hk psDBF iShape
        in if \<not> fst ld then (False, snd ld)
           else (pszCurrentRecord (snd ld) ! 0 = CHR ''*'', snd ld))"

section \<open>An in-memory provider of the hooks\<close>

text \<open>
  One provider of the hooks, used to run the engine on concrete tables: the files are
  byte lists under their names, an open stream is a file name with a position, and
  \<^typ>\<open>SAFile\<close> is the index of the stream. A read past the end delivers the bytes that
  are there; a write past the end pads with NUL.
\<close>

record mem_world =
  files :: "(string \<times> byte list) list"
  streams :: "(string \<times> nat) list"

definition file_content :: "mem_world \<Rightarrow> string \<Rightarrow> byte list" where
  "file_content w name = (case map_of (files w) name of Some b \<Rightarrow> b | None \<Rightarrow> [])"

fun put_file :: "string \<Rightarrow> byte list \<Rightarrow> (string \<times> byte list) list \<Rightarrow> (string \<times> byte list) list" where
  "put_file name b [] = [(name, b)]"
| "put_file name b ((k, v) # fs) =
     (if k = name then (k, b) # fs else (k, v) # put_file name b fs)"

definition mem_FOpen :: "mem_world \<Rightarrow> string \<Rightarrow> string \<Rightarrow> SAFile option \<times> mem_world" where
  "mem_FOpen w name mode =
     (if map_of (files w) name = None then (None, w)
      else (Some (length (streams w)), w\<lparr>streams := streams w @ [(name, 0)]\<rparr>))"

definition mem_FRead :: "mem_world \<Rightarrow> SAFile \<Rightarrow> nat \<Rightarrow> nat \<Rightarrow> (nat \<times> byte list) \<times> mem_world" where
  "mem_FRead w f sz n =
     (if f < length (streams w) then
        let name = fst (streams w ! f); pos = snd (streams w ! f);
            dat = take (sz * n) (drop pos (file_content w name))
        in ((if sz = 0 then 0 else length dat div sz, dat),
            w\<lparr>streams := (streams w)[f := (name, pos + length dat)]\<rparr>)
      else ((0, []), w))"

definition mem_FWrite :: "mem_world \<Rightarrow> SAFile \<Rightarrow> byte list \<Rightarrow> nat \<Rightarrow> nat \<Rightarrow> nat \<times> mem_world" where
  "mem_FWrite w f dat sz n =
     (if f < length (streams w) then
        let name = fst (streams w ! f); pos = snd (streams w ! f);
            old = file_content w name;
            new = take pos (old @ replicate (pos - length old) NUL) @ dat
                  @ drop (pos + length dat) old
        in (n, w\<lparr>files := put_file name new (files w),
                 streams := (streams w)[f := (name, pos + length dat)]\<rparr>)
      else (0, w))"

definition mem_FSeek :: "mem_world \<Rightarrow> SAFile \<Rightarrow> int \<Rightarrow> int \<times> mem_world" where
  "mem_FSeek w f off =
     (if f < length (streams w) \<and> 0 \<le> off
      then (0, w\<lparr>streams := (streams w)[f := (fst (streams w ! f), nat off)]\<rparr>)
      else (-1, w))"

definition mem_FTell :: "mem_world \<Rightarrow> SAFile \<Rightarrow> int" where
  "mem_FTell w f = (if f < length (streams w) then int (snd (streams w ! f)) else -1)"

text \<open>
  The \<open>Atof\<close> of this provider covers the doubles that are whole numbers, written as an
  \<^typ>\<open>int\<close>: it reads blanks, a sign and digits, and stops at anything else.
\<close>

fun digits_val :: "int \<Rightarrow> string \<Rightarrow> int" where
  "digits_val acc [] = acc"
| "digits_val acc (c # cs) =
     (if (48::nat) \<le> of_char c \<and> (of_char c :: nat) \<le> 57
      then digits_val (10 * acc + (of_char c - 48)) cs else acc)"

definition isspace :: "char \<Rightarrow> bool" where
  "isspace c = (c = CHR '' '' \<or> ((9::nat) \<le> of_char c \<and> (of_char c :: nat) \<le> 13))"

definition is_digit :: "char \<Rightarrow> bool" where
  "is_digit c = ((48::nat) \<le> of_char c \<and> (of_char c :: nat) \<le> 57)"

definition signed_digits :: "string \<Rightarrow> int" where
  "signed_digits s =
     (case dropWhile isspace s of
        [] \<Rightarrow> 0
      | c # cs \<Rightarrow> if c = CHR ''-'' then - digits_val 0 cs
                 else if c = CHR ''+'' then digits_val 0 cs
                 else digits_val 0 (c # cs))"

definition mem_hooks :: "(mem_world, int) SAHooks" where
  "mem_hooks = \<lparr>FOpen = mem_FOpen, FRead = mem_FRead, FWrite = mem_FWrite, FSeek = mem_FSeek,
                FTell = mem_FTell, FFlush = (\<lambda>w f. w), FClose = (\<lambda>w f. w),
                Error = (\<lambda>w msg. w), Atof = signed_digits\<rparr>"

section \<open>Value codec\<close>

definition DBFGetNullCharacter :: "char \<Rightarrow> char" where
  "DBFGetNullCharacter chType =
     (if chType = CHR ''N'' \<or> chType = CHR ''F'' then CHR ''*''
      else if chType = CHR ''D'' then CHR ''0''
      else if chType = CHR ''L'' then CHR ''?''
      else CHR '' '')"

text \<open>
  The C library's \<^verbatim>\<open>atoi\<close>: blanks, a sign, digits. Outside the range of \<^verbatim>\<open>int\<close> C leaves
  the result undefined; the model wraps the number the digits denote into the 32 bits, as
  the conversion of the \<^verbatim>\<open>long\<close> of \<^verbatim>\<open>strtol\<close> does.
\<close>

definition atoi :: "string \<Rightarrow> int" where
  "atoi s = c_int (signed_digits s)"

text \<open>
  The whitespace trimming of \<^verbatim>\<open>DBFReadAttribute\<close>: the leading blanks are skipped, the
  rest is moved to the front, and the trailing blanks are overwritten with NUL.
\<close>

definition trim_ws :: "string \<Rightarrow> string" where
  "trim_ws s =
     rev (dropWhile (\<lambda>c. c = CHR '' '') (rev (dropWhile (\<lambda>c. c = CHR '' '') s)))"

text \<open>
  The pointer \<^verbatim>\<open>DBFReadAttribute\<close> returns: to the \<^verbatim>\<open>int\<close> or the \<^verbatim>\<open>double\<close> it decoded,
  or to the work field, a C string. \<open>None\<close> is the null pointer.
\<close>

datatype 'd attr = AInt int | ADouble 'd | AString string

definition DBFReadAttribute ::
  "('w, 'd) SAHooks \<Rightarrow> 'd platform \<Rightarrow> 'w DBFInfo \<Rightarrow> int \<Rightarrow> int \<Rightarrow> char
     \<Rightarrow> 'd attr option \<times> 'w DBFInfo" where
  "DBFReadAttribute hk pf psDBF hEntity iField chReqType =
     (if hEntity < 0 \<or> hEntity \<ge> nRecords psDBF then (None, psDBF)
      else if iField < 0 \<or> iField \<ge> nFields psDBF then (None, psDBF)
      else
        let ld = DBFLoadRecord hk psDBF hEntity
        in if \<not> fst ld then (None, snd ld)
           else
             let h0 = snd ld;
                 sz = panFieldSize h0 ! nat iField;
                 h1 = (if sz \<ge> nWorkFieldLength h0
                       then h0\<lparr>nWorkFieldLength := sz + 100\<rparr> else h0);
                 fld = take (nat sz)
                         (drop (nat (panFieldOffset h0 ! nat iField)) (pszCurrentRecord h0));
                 h2 = h1\<lparr>pszWorkField := fld @ [NUL]\<rparr>
             in if chReqType = CHR ''I'' then (Some (AInt (atoi (cstr fld))), h2)
                else if chReqType = CHR ''N'' then (Some (ADouble (Atof hk (cstr fld))), h2)
                else if TRIM_DBF_WHITESPACE pf
                then (Some (AString (trim_ws (cstr fld))),
                      h2\<lparr>pszWorkField := trim_ws (cstr fld) @ [NUL]\<rparr>)
                else (Some (AString (cstr fld)), h2))"

definition DBFReadIntegerAttribute ::
  "('w, 'd) SAHooks \<Rightarrow> 'd platform \<Rightarrow> 'w DBFInfo \<Rightarrow> int \<Rightarrow> int \<Rightarrow> int \<times> 'w DBFInfo" where
  "DBFReadIntegerAttribute hk pf psDBF iRecord iField =
     (let r = DBFReadAttribute hk pf psDBF iRecord iField (CHR ''I'')
      in (case fst r of Some (AInt n) \<Rightarrow> n | _ \<Rightarrow> 0, snd r))"

definition DBFReadDoubleAttribute ::
  "('w, 'd) SAHooks \<Rightarrow> 'd platform \<Rightarrow> 'w DBFInfo \<Rightarrow> int \<Rightarrow> int \<Rightarrow> 'd \<times> 'w DBFInfo" where
  "DBFReadDoubleAttribute hk pf psDBF iRecord iField =
     (let r = DBFReadAttribute hk pf psDBF iRecord iField (CHR ''N'')
      in (case fst r of Some (ADouble d) \<Rightarrow> d | _ \<Rightarrow> dbl_of_int pf 0, snd r))"

definition DBFReadStringAttribute ::
  "('w, 'd) SAHooks \<Rightarrow> 'd platform \<Rightarrow> 'w DBFInfo \<Rightarrow> int \<Rightarrow> int
     \<Rightarrow> string option \<times> 'w DBFInfo" where
  "DBFReadStringAttribute hk pf psDBF iRecord iField =
     (let r = DBFReadAttribute hk pf psDBF iRecord iField (CHR ''C'')
      in (case fst r of Some (AString s) \<Rightarrow> Some s | _ \<Rightarrow> None, snd r))"

definition DBFReadLogicalAttribute ::
  "('w, 'd) SAHooks \<Rightarrow> 'd platform \<Rightarrow> 'w DBFInfo \<Rightarrow> int \<Rightarrow> int
     \<Rightarrow> string option \<times> 'w DBFInfo" where
  "DBFReadLogicalAttribute hk pf psDBF iRecord iField =
     (let r = DBFReadAttribute hk pf psDBF iRecord iField (CHR ''L'')
      in (case fst r of Some (AString s) \<Rightarrow> Some s | _ \<Rightarrow> None, snd r))"

text \<open>
  Modelled from the spec: \<^verbatim>\<open>SHPDate\<close> is declared in a header that is not among the
  sources; the code uses its members \<^verbatim>\<open>year\<close>, \<^verbatim>\<open>month\<close> and \<^verbatim>\<open>day\<close>, and the spec
  speaks of dates of eight digits.

  \<^verbatim>\<open>sscanf\<close> with \<^verbatim>\<open>"%4d%2d%2d"\<close>: each conversion skips white space, takes a sign
  and digits within its width, and fails when it meets no digit.
\<close>

record SHPDate =
  year :: int
  month :: int
  day :: int

definition scan_int :: "nat \<Rightarrow> string \<Rightarrow> (int \<times> string) option" where
  "scan_int w s =
     (let t = dropWhile isspace s;
          sg = (t \<noteq> [] \<and> (hd t = CHR ''-'' \<or> hd t = CHR ''+''));
          body = (if sg then tl t else t);
          ds = takeWhile is_digit (take (if sg then w - 1 else w) body)
      in if ds = [] then None
         else Some (if sg \<and> hd t = CHR ''-'' then - digits_val 0 ds else digits_val 0 ds,
                    drop (length ds) body))"

definition sscanf_date :: "string \<Rightarrow> SHPDate option" where
  "sscanf_date s =
     (case scan_int 4 s of
        None \<Rightarrow> None
      | Some (y, s1) \<Rightarrow>
          (case scan_int 2 s1 of
             None \<Rightarrow> None
           | Some (m, s2) \<Rightarrow>
               (case scan_int 2 s2 of
                  None \<Rightarrow> None
                | Some (d, s3) \<Rightarrow> Some \<lparr>year = y, month = m, day = d\<rparr>)))"

definition DBFReadDateAttribute ::
  "('w, 'd) SAHooks \<Rightarrow> 'd platform \<Rightarrow> 'w DBFInfo \<Rightarrow> int \<Rightarrow> int \<Rightarrow> SHPDate \<times> 'w DBFInfo" where
  "DBFReadDateAttribute hk pf psDBF iRecord iField =
     (let r = DBFReadAttribute hk pf psDBF iRecord iField (CHR ''D'')
      in (case fst r of
            Some (AString s) \<Rightarrow>
              (case sscanf_date s of
                 Some date \<Rightarrow> date
               | None \<Rightarrow> \<lparr>year = 0, month = 0, day = 0\<rparr>)
          | _ \<Rightarrow> \<lparr>year = 0, month = 0, day = 0\<rparr>,
          snd r))"

text \<open>
  \<^verbatim>\<open>DBFIsValueNULL\<close> on the C string \<open>s\<close>. The loop of the date case reads
  \<^verbatim>\<open>pszValue[i]\<close> for \<open>i < size\<close> and so meets the terminating NUL when the string is
  shorter than \<open>size\<close>.
\<close>

definition DBFIsValueNULL :: "char \<Rightarrow> string option \<Rightarrow> int \<Rightarrow> bool" where
  "DBFIsValueNULL chType pszValue sz =
     (case pszValue of
        None \<Rightarrow> True
      | Some s \<Rightarrow>
          if chType = CHR ''N'' \<or> chType = CHR ''F'' then
            (if take 1 s = ''*'' then True else list_all (\<lambda>c. c = CHR '' '') s)
          else if chType = CHR ''D'' then
            (if s = [] \<or> take 8 s = ''00000000'' \<or> s = '' '' \<or> s = ''0'' then True
             else list_all (\<lambda>c. c = CHR ''0'') (take (nat sz) (s @ [NUL])))
          else if chType = CHR ''L'' then take 1 s = ''?''
          else length s = 0)"

definition DBFIsAttributeNULL ::
  "('w, 'd) SAHooks \<Rightarrow> 'd platform \<Rightarrow> 'w DBFInfo \<Rightarrow> int \<Rightarrow> int \<Rightarrow> bool \<times> 'w DBFInfo" where
  "DBFIsAttributeNULL hk pf psDBF iRecord iField =
     (let r = DBFReadStringAttribute hk pf psDBF iRecord iField
      in case fst r of
           None \<Rightarrow> (True, snd r)
         | Some v \<Rightarrow>
             (DBFIsValueNULL (pachFieldType (snd r) ! nat iField) (Some v)
                (panFieldSize (snd r) ! nat iField), snd r))"

text \<open>
  The three write entry points start with the same block: the range check on the record
  index, the deferred header, the new all-blank record when the index is the record
  count, and the load of the record.
\<close>

definition prepare_record :: "('w, 'd) SAHooks \<Rightarrow> 'w DBFInfo \<Rightarrow> int \<Rightarrow> bool \<times> 'w DBFInfo" where
  "prepare_record hk psDBF hEntity =
     (if hEntity < 0 \<or> hEntity > nRecords psDBF then (False, psDBF)
      else
        let h0 = (if bNoHeader psDBF then DBFWriteHeader hk psDBF else psDBF)
        in if hEntity = nRecords h0 then
             (let fl = DBFFlushRecord hk h0
              in if \<not> fst fl then (False, snd fl)
                 else DBFLoadRecord hk
                        ((snd fl)\<lparr>nRecords := c_int (nRecords (snd fl) + 1),
                                  pszCurrentRecord :=
                                    memset_at (pszCurrentRecord (snd fl)) 0 (CHR '' '')
                                      (nat (nRecordLength (snd fl))),
                                  nCurrentRecord := hEntity\<rparr>) hEntity)
           else DBFLoadRecord hk h0 hEntity)"

text \<open>
  The value behind the \<^verbatim>\<open>void *\<close> of \<^verbatim>\<open>DBFWriteAttribute\<close>: null, or a pointer to a
  \<^verbatim>\<open>double\<close>, to one \<^verbatim>\<open>char\<close>, or to a C string. The C code reads it according to the
  type of the field. Where that read, or the index of the field, leaves the object it
  is given, C defines no behaviour and the model returns \<open>None\<close>.
\<close>

datatype 'd pvalue = PNull | PDouble 'd | PChar char | PString string

definition store_numeric ::
  "('w, 'd) SAHooks \<Rightarrow> 'd platform \<Rightarrow> 'w DBFInfo \<Rightarrow> nat \<Rightarrow> 'd \<Rightarrow> bool \<times> 'w DBFInfo" where
  "store_numeric hk pf h i v =
     (let sz = panFieldSize h ! i;
          nWidth = (if XBASE_FLD_MAX_WIDTH + 1 - 2 < sz then XBASE_FLD_MAX_WIDTH + 1 - 2 else sz);
          szSField = take (nat (XBASE_FLD_MAX_WIDTH + 1) - 1)
                       (snprintf_f pf nWidth (panFieldDecimals h ! i) v);
          cut = (int (length szSField) > sz);
          szOut = (if cut then take (nat sz) szSField else szSField)
      in (if cut then dbl_eq pf (Atof hk szOut) v else True,
          h\<lparr>pszCurrentRecord :=
              memcpy_at (pszCurrentRecord h) (nat (panFieldOffset h ! i)) szOut\<rparr>))"

definition store_string :: "'w DBFInfo \<Rightarrow> nat \<Rightarrow> string \<Rightarrow> bool \<times> 'w DBFInfo" where
  "store_string h i s =
     (let sz = panFieldSize h ! i; off = nat (panFieldOffset h ! i)
      in if int (length s) > sz
         then (False, h\<lparr>pszCurrentRecord :=
                          memcpy_at (pszCurrentRecord h) off (take (nat sz) s)\<rparr>)
         else (True, h\<lparr>pszCurrentRecord :=
                         memcpy_at (memset_at (pszCurrentRecord h) off (CHR '' '') (nat sz))
                           off s\<rparr>))"

definition store_logical :: "'w DBFInfo \<Rightarrow> nat \<Rightarrow> char \<Rightarrow> bool \<times> 'w DBFInfo" where
  "store_logical h i c =
     (if panFieldSize h ! i \<ge> 1 \<and> (c = CHR ''F'' \<or> c = CHR ''T'')
      then (True, h\<lparr>pszCurrentRecord :=
                      memcpy_at (pszCurrentRecord h) (nat (panFieldOffset h ! i)) [c]\<rparr>)
      else (False, h))"

definition store_value ::
  "('w, 'd) SAHooks \<Rightarrow> 'd platform \<Rightarrow> 'w DBFInfo \<Rightarrow> int \<Rightarrow> 'd pvalue
     \<Rightarrow> (bool \<times> 'w DBFInfo) option" where
  "store_value hk pf h iField pValue =
     (if iField < 0 \<or> iField \<ge> nFields h then None
      else
        let i = nat iField; ty = pachFieldType h ! i
        in case pValue of
             PNull \<Rightarrow>
               Some (True,
                     h\<lparr>pszCurrentRecord :=
                         memset_at (pszCurrentRecord h) (nat (panFieldOffset h ! i))
                           (DBFGetNullCharacter ty) (nat (panFieldSize h ! i))\<rparr>)
           | PDouble v \<Rightarrow>
               if ty = CHR ''D'' \<or> ty = CHR ''N'' \<or> ty = CHR ''F''
               then Some (store_numeric hk pf h i v) else None
           | PChar c \<Rightarrow>
               if ty = CHR ''L'' then Some (store_logical h i c) else None
           | PString s \<Rightarrow>
               if ty = CHR ''D'' \<or> ty = CHR ''N'' \<or> ty = CHR ''F'' then None
               else if ty = CHR ''L''
               then Some (store_logical h i (case s of [] \<Rightarrow> NUL | c # _ \<Rightarrow> c))
               else Some (store_string h i s))"

definition DBFWriteAttribute ::
  "('w, 'd) SAHooks \<Rightarrow> 'd platform \<Rightarrow> 'w DBFInfo \<Rightarrow> int \<Rightarrow> int \<Rightarrow> 'd pvalue
     \<Rightarrow> (bool \<times> 'w DBFInfo) option" where
  "DBFWriteAttribute hk pf psDBF hEntity iField pValue =
     (let pr = prepare_record hk psDBF hEntity
      in if \<not> fst pr then Some (False, snd pr)
         else store_value hk pf
                ((snd pr)\<lparr>bCurrentRecordModified := True, bUpdated := True\<rparr>) iField pValue)"

definition DBFWriteAttributeDirectly ::
  "('w, 'd) SAHooks \<Rightarrow> 'w DBFInfo \<Rightarrow> int \<Rightarrow> int \<Rightarrow> string \<Rightarrow> (bool \<times> 'w DBFInfo) option" where
  "DBFWriteAttributeDirectly hk psDBF hEntity iField pValue =
     (let pr = prepare_record hk psDBF hEntity
      in if \<not> fst pr then Some (False, snd pr)
         else if iField \<ge> 0 then
           (if iField \<ge> nFields (snd pr) then None
            else
              let h = snd pr; i = nat iField;
                  sz = panFieldSize h ! i; off = nat (panFieldOffset h ! i);
                  rec = (if int (length pValue) > sz
                         then memcpy_at (pszCurrentRecord h) off (take (nat sz) pValue)
                         else memcpy_at (memset_at (pszCurrentRecord h) off (CHR '' '') (nat sz))
                                off pValue)
              in Some (True, h\<lparr>pszCurrentRecord := rec, bCurrentRecordModified := True,
                                bUpdated := True\<rparr>))
         else Some (True, (snd pr)\<lparr>bCurrentRecordModified := True, bUpdated := True\<rparr>))"

definition DBFWriteDoubleAttribute ::
  "('w, 'd) SAHooks \<Rightarrow> 'd platform \<Rightarrow> 'w DBFInfo \<Rightarrow> int \<Rightarrow> int \<Rightarrow> 'd
     \<Rightarrow> (bool \<times> 'w DBFInfo) option" where
  "DBFWriteDoubleAttribute hk pf psDBF iRecord iField dValue =
     DBFWriteAttribute hk pf psDBF iRecord iField (PDouble dValue)"

definition DBFWriteIntegerAttribute ::
  "('w, 'd) SAHooks \<Rightarrow> 'd platform \<Rightarrow> 'w DBFInfo \<Rightarrow> int \<Rightarrow> int \<Rightarrow> int
     \<Rightarrow> (bool \<times> 'w DBFInfo) option" where
  "DBFWriteIntegerAttribute hk pf psDBF iRecord iField nValue =
     DBFWriteAttribute hk pf psDBF iRecord iField (PDouble (dbl_of_int pf nValue))"

definition DBFWriteStringAttribute ::
  "('w, 'd) SAHooks \<Rightarrow> 'd platform \<Rightarrow> 'w DBFInfo \<Rightarrow> int \<Rightarrow> int \<Rightarrow> string
     \<Rightarrow> (bool \<times> 'w DBFInfo) option" where
  "DBFWriteStringAttribute hk pf psDBF iRecord iField pszValue =
     DBFWriteAttribute hk pf psDBF iRecord iField (PString pszValue)"

definition DBFWriteNULLAttribute ::
  "('w, 'd) SAHooks \<Rightarrow> 'd platform \<Rightarrow> 'w DBFInfo \<Rightarrow> int \<Rightarrow> int
     \<Rightarrow> (bool \<times> 'w DBFInfo) option" where
  "DBFWriteNULLAttribute hk pf psDBF iRecord iField =
     DBFWriteAttribute hk pf psDBF iRecord iField PNull"

definition DBFWriteLogicalAttribute ::
  "('w, 'd) SAHooks \<Rightarrow> 'd platform \<Rightarrow> 'w DBFInfo \<Rightarrow> int \<Rightarrow> int \<Rightarrow> char
     \<Rightarrow> (bool \<times> 'w DBFInfo) option" where
  "DBFWriteLogicalAttribute hk pf psDBF iRecord iField lValue =
     DBFWriteAttribute hk pf psDBF iRecord iField (PChar lValue)"

text \<open>
  \<^verbatim>\<open>DBFWriteTuple\<close> copies \<open>nRecordLength\<close> bytes from the caller's buffer; a shorter
  buffer is read past its end, which the model reports as \<open>None\<close>.
\<close>

definition DBFWriteTuple ::
  "('w, 'd) SAHooks \<Rightarrow> 'w DBFInfo \<Rightarrow> int \<Rightarrow> byte list \<Rightarrow> (bool \<times> 'w DBFInfo) option" where
  "DBFWriteTuple hk psDBF hEntity pRawTuple =
     (let pr = prepare_record hk psDBF hEntity
      in if \<not> fst pr then Some (False, snd pr)
         else if length pRawTuple < nat (nRecordLength (snd pr)) then None
         else Some (True,
                    (snd pr)\<lparr>pszCurrentRecord :=
                               memcpy_at (pszCurrentRecord (snd pr)) 0
                                 (take (nat (nRecordLength (snd pr))) pRawTuple),
                             bCurrentRecordModified := True, bUpdated := True\<rparr>))"

text \<open>
  \<^verbatim>\<open>DBFWriteDateAttribute\<close>: the pointer to the date may be null; the digits are
  \<^verbatim>\<open>"%04d%02d%02d"\<close> in a buffer of nine bytes.
\<close>

definition zero_pad :: "nat \<Rightarrow> int \<Rightarrow> string" where
  "zero_pad w n = replicate (w - length (showd n)) (CHR ''0'') @ showd n"

definition DBFWriteDateAttribute ::
  "('w, 'd) SAHooks \<Rightarrow> 'w DBFInfo \<Rightarrow> int \<Rightarrow> int \<Rightarrow> SHPDate option
     \<Rightarrow> (bool \<times> 'w DBFInfo) option" where
  "DBFWriteDateAttribute hk psDBF iRecord iField lValue =
     (case lValue of
        None \<Rightarrow> Some (False, psDBF)
      | Some date \<Rightarrow>
          if year date < 0 \<or> year date > 9999 then Some (False, psDBF)
          else if month date < 0 \<or> month date > 99 then Some (False, psDBF)
          else if day date < 0 \<or> day date > 99 then Some (False, psDBF)
          else DBFWriteAttributeDirectly hk psDBF iRecord iField
                 (take 8 (zero_pad 4 (year date) @ zero_pad 2 (month date)
                          @ zero_pad 2 (day date))))"

text \<open>
  \<^verbatim>\<open>DBFReadTuple\<close> hands out the record buffer; \<^verbatim>\<open>DBFMarkRecordDeleted\<close> sets the
  deletion flag of the cached record and marks it dirty when the flag changes.
\<close>

definition DBFReadTuple ::
  "('w, 'd) SAHooks \<Rightarrow> 'w DBFInfo \<Rightarrow> int \<Rightarrow> byte list option \<times> 'w DBFInfo" where
  "DBFReadTuple hk psDBF hEntity =
     (if hEntity < 0 \<or> hEntity \<ge> nRecords psDBF then (None, psDBF)
      else
        let ld = DBFLoadRecord hk psDBF hEntity
        in if \<not> fst ld then (None, snd ld)
           else (Some (pszCurrentRecord (snd ld)), snd ld))"

definition DBFMarkRecordDeleted ::
  "('w, 'd) SAHooks \<Rightarrow> 'w DBFInfo \<Rightarrow> int \<Rightarrow> int \<Rightarrow> bool \<times> 'w DBFInfo" where
  "DBFMarkRecordDeleted hk psDBF iShape bIsDeleted =
     (if iShape < 0 \<or> iShape \<ge> nRecords psDBF then (False, psDBF)
      else
        let ld = DBFLoadRecord hk psDBF iShape
        in if \<not> fst ld then (False, snd ld)
           else
             let chNewFlag = (if bIsDeleted \<noteq> 0 then CHR ''*'' else CHR '' '')
             in if pszCurrentRecord (snd ld) ! 0 \<noteq> chNewFlag
                then (True,
                      (snd ld)\<lparr>bCurrentRecordModified := True, bUpdated := True,
                                pszCurrentRecord := (pszCurrentRecord (snd ld))[0 := chNewFlag]\<rparr>)
                else (True, snd ld))"

definition DBFSetLastModifiedDate :: "'w DBFInfo \<Rightarrow> int \<Rightarrow> int \<Rightarrow> int \<Rightarrow> 'w DBFInfo" where
  "DBFSetLastModifiedDate psDBF nYYSince1900 nMM nDD =
     psDBF\<lparr>nUpdateYearSince1900 := nYYSince1900, nUpdateMonth := nMM, nUpdateDay := nDD\<rparr>"

definition DBFSetWriteEndOfFileChar :: "'w DBFInfo \<Rightarrow> int \<Rightarrow> 'w DBFInfo" where
  "DBFSetWriteEndOfFileChar psDBF bWriteFlag = psDBF\<lparr>bWriteEndOfFileChar := (bWriteFlag \<noteq> 0)\<rparr>"

section \<open>Schema mutation\<close>

text \<open>
  \<^verbatim>\<open>realloc\<close> keeps the front of the block; the bytes it adds are indeterminate in C and
  are NUL (or the given filler) here. \<open>array_set\<close> is the assignment \<^verbatim>\<open>a[i] = v\<close> after
  the array has been reallocated to hold index \<open>i\<close>.
\<close>

definition resize :: "'a list \<Rightarrow> nat \<Rightarrow> 'a \<Rightarrow> 'a list" where
  "resize xs n d = take n (xs @ replicate n d)"

definition array_set :: "'a list \<Rightarrow> nat \<Rightarrow> 'a \<Rightarrow> 'a \<Rightarrow> 'a list" where
  "array_set xs i v d = (resize xs (Suc i) d)[i := v]"

text \<open>
  The rewriting loops seek and read one record into a scratch buffer (the result of the
  seek is not looked at), and seek and write one buffer.
\<close>

definition load_raw ::
  "('w, 'd) SAHooks \<Rightarrow> 'w DBFInfo \<Rightarrow> int \<Rightarrow> int \<Rightarrow> byte list
     \<Rightarrow> bool \<times> byte list \<times> 'w DBFInfo" where
  "load_raw hk h off len buf =
     (let rd = hk_read hk (snd (hk_seek hk h off)) (nat len) 1
      in (fst (fst rd) = 1, overlay (snd (fst rd)) buf, snd rd))"

definition store_raw :: "('w, 'd) SAHooks \<Rightarrow> 'w DBFInfo \<Rightarrow> int \<Rightarrow> byte list \<Rightarrow> 'w DBFInfo" where
  "store_raw hk h off dat = snd (hk_write hk (snd (hk_seek hk h off)) dat (length dat) 1)"

definition write_eof :: "('w, 'd) SAHooks \<Rightarrow> 'w DBFInfo \<Rightarrow> 'w DBFInfo" where
  "write_eof hk h =
     (if bWriteEndOfFileChar h
      then store_raw hk h (nRecordLength h * nRecords h + nHeaderLength h)
             [END_OF_FILE_CHARACTER]
      else h)"

text \<open>The 32 bytes of a field descriptor, as both add and alter fill them in.\<close>

definition field_descriptor :: "string \<Rightarrow> char \<Rightarrow> int \<Rightarrow> int \<Rightarrow> byte list" where
  "field_descriptor pszFieldName chType nWidth nDecimals =
     take XBASE_FLDNAME_LEN_WRITE pszFieldName
     @ replicate (11 - length (take XBASE_FLDNAME_LEN_WRITE pszFieldName)) NUL
     @ [chType] @ replicate 4 NUL
     @ (if chType = CHR ''C''
        then [char_of (nWidth mod 256), char_of (nWidth div 256)]
        else [char_of nWidth, char_of nDecimals])
     @ replicate 14 NUL"

text \<open>
  \<^verbatim>\<open>DBFAddNativeFieldType\<close>: the loop that moves the records of an existing file, from
  the last to the first, and the function.
\<close>

fun add_shift ::
  "('w, 'd) SAHooks \<Rightarrow> 'w DBFInfo \<Rightarrow> int \<Rightarrow> int \<Rightarrow> char \<Rightarrow> int \<Rightarrow> byte list \<Rightarrow> nat
     \<Rightarrow> bool \<times> 'w DBFInfo" where
  "add_shift hk h nOldRecordLength nOldHeaderLength chFieldFill nWidth pszRecord 0 = (True, h)"
| "add_shift hk h nOldRecordLength nOldHeaderLength chFieldFill nWidth pszRecord (Suc i) =
     (let ld = load_raw hk h (nOldRecordLength * int i + nOldHeaderLength) nOldRecordLength
                 pszRecord
      in if \<not> fst ld then (False, snd (snd ld))
         else
           let rec = memset_at (fst (snd ld)) (nat nOldRecordLength) chFieldFill (nat nWidth);
               h1 = snd (snd ld);
               h2 = store_raw hk h1 (nRecordLength h1 * int i + nHeaderLength h1)
                      (take (nat (nRecordLength h1)) rec)
           in add_shift hk h2 nOldRecordLength nOldHeaderLength chFieldFill nWidth rec i)"

definition DBFAddNativeFieldType ::
  "('w, 'd) SAHooks \<Rightarrow> 'w DBFInfo \<Rightarrow> string \<Rightarrow> char \<Rightarrow> int \<Rightarrow> int \<Rightarrow> int \<times> 'w DBFInfo" where
  "DBFAddNativeFieldType hk psDBF pszFieldName chType nWidthReq nDecimals =
     (let fl = DBFFlushRecord hk psDBF
      in if \<not> fst fl then (-1, snd fl)
         else
           let h = snd fl
           in if nHeaderLength h + XBASE_FLDHDR_SZ > 65535
              then (-1, hk_error hk h
                      (take 127 (''Cannot add field '' @ pszFieldName
                         @ ''. Header length limit reached (max 65535 bytes, 2046 fields).'')))
              else if nWidthReq < 1 then (-1, h)
              else
                let nWidth = (if nWidthReq > XBASE_FLD_MAX_WIDTH then XBASE_FLD_MAX_WIDTH
                              else nWidthReq)
                in if nRecordLength h + nWidth > 65535
                   then (-1, hk_error hk h
                           (take 127 (''Cannot add field '' @ pszFieldName
                              @ ''. Record length limit reached (max 65535 bytes).'')))
                   else
                     let nOldRecordLength = nRecordLength h;
                         nOldHeaderLength = nHeaderLength h;
                         n = nat (nFields h);
                         h1 = h\<lparr>pszCurrentRecord :=
                                  resize (pszCurrentRecord h) (nat (nRecordLength h + nWidth)) NUL,
                                nFields := nFields h + 1,
                                panFieldOffset := array_set (panFieldOffset h) n (nRecordLength h) 0,
                                nRecordLength := nRecordLength h + nWidth,
                                panFieldSize := array_set (panFieldSize h) n nWidth 0,
                                panFieldDecimals := array_set (panFieldDecimals h) n nDecimals 0,
                                pachFieldType := array_set (pachFieldType h) n chType NUL,
                                nHeaderLength := nHeaderLength h + XBASE_FLDHDR_SZ,
                                bUpdated := False,
                                pszHeader :=
                                  resize (pszHeader h) (nat XBASE_FLDHDR_SZ * n) NUL
                                  @ field_descriptor pszFieldName chType nWidth nDecimals\<rparr>
                     in if bNoHeader h1 then (nFields h1 - 1, h1)
                        else
                          let sh = add_shift hk h1 nOldRecordLength nOldHeaderLength
                                     (DBFGetNullCharacter chType) nWidth
                                     (replicate (nat (nOldRecordLength + nWidth)) NUL)
                                     (nat (nRecords h1))
                          in if \<not> fst sh then (-1, snd sh)
                             else
                               let h2 = DBFUpdateHeader hk
                                          ((write_eof hk (snd sh))\<lparr>bNoHeader := True\<rparr>)
                               in (nFields h2 - 1,
                                   h2\<lparr>nCurrentRecord := -1, bCurrentRecordModified := False,
                                      bUpdated := True\<rparr>))"

text \<open>
  Modelled from the spec: the enumeration \<^verbatim>\<open>DBFFieldType\<close> is declared in a header that
  is not among the sources; the code names these six members, and the spec lists string,
  integer, double, logical and date fields.
\<close>

datatype DBFFieldType = FTString | FTInteger | FTDouble | FTLogical | FTDate | FTInvalid

definition DBFAddField ::
  "('w, 'd) SAHooks \<Rightarrow> 'w DBFInfo \<Rightarrow> string \<Rightarrow> DBFFieldType \<Rightarrow> int \<Rightarrow> int \<Rightarrow> int \<times> 'w DBFInfo" where
  "DBFAddField hk psDBF pszFieldName eType nWidth nDecimals =
     DBFAddNativeFieldType hk psDBF pszFieldName
       (if eType = FTLogical then CHR ''L''
        else if eType = FTDate then CHR ''D''
        else if eType = FTString then CHR ''C''
        else CHR ''N'')
       nWidth nDecimals"

text \<open>
  \<^verbatim>\<open>DBFDeleteField\<close>. The loop over the fields moves the entries behind the deleted one
  down by one place; the arrays then shrink by one entry.
\<close>

definition array_del :: "'a list \<Rightarrow> nat \<Rightarrow> nat \<Rightarrow> 'a list" where
  "array_del xs i n = take i xs @ take (n - Suc i) (drop (Suc i) xs)"

fun del_shift ::
  "('w, 'd) SAHooks \<Rightarrow> 'w DBFInfo \<Rightarrow> int \<Rightarrow> int \<Rightarrow> int \<Rightarrow> int \<Rightarrow> byte list \<Rightarrow> int \<Rightarrow> nat
     \<Rightarrow> bool \<times> 'w DBFInfo" where
  "del_shift hk h nOldRecordLength nOldHeaderLength nDeletedFieldOffset nDeletedFieldSize
     pszRecord iRecord 0 = (True, h)"
| "del_shift hk h nOldRecordLength nOldHeaderLength nDeletedFieldOffset nDeletedFieldSize
     pszRecord iRecord (Suc k) =
     (let ld = load_raw hk h (nOldRecordLength * iRecord + nOldHeaderLength) nOldRecordLength
                 pszRecord
      in if \<not> fst ld then (False, snd (snd ld))
         else
           let rec = fst (snd ld);
               h1 = snd (snd ld);
               h2 = snd (hk_seek hk h1 (nRecordLength h1 * iRecord + nHeaderLength h1));
               h3 = snd (hk_write hk h2 (take (nat nDeletedFieldOffset) rec)
                           (nat nDeletedFieldOffset) 1);
               h4 = snd (hk_write hk h3
                           (take (nat (nOldRecordLength - nDeletedFieldOffset - nDeletedFieldSize))
                              (drop (nat (nDeletedFieldOffset + nDeletedFieldSize)) rec))
                           (nat (nOldRecordLength - nDeletedFieldOffset - nDeletedFieldSize)) 1)
           in del_shift hk h4 nOldRecordLength nOldHeaderLength nDeletedFieldOffset
                nDeletedFieldSize rec (iRecord + 1) k)"

definition DBFDeleteField :: "('w, 'd) SAHooks \<Rightarrow> 'w DBFInfo \<Rightarrow> int \<Rightarrow> bool \<times> 'w DBFInfo" where
  "DBFDeleteField hk psDBF iField =
     (if iField < 0 \<or> iField \<ge> nFields psDBF then (False, psDBF)
      else
        let fl = DBFFlushRecord hk psDBF
        in if \<not> fst fl then (False, snd fl)
           else
             let h = snd fl;
                 nOldRecordLength = nRecordLength h;
                 nOldHeaderLength = nHeaderLength h;
                 i = nat iField; n = nat (nFields h);
                 nDeletedFieldOffset = panFieldOffset h ! i;
                 nDeletedFieldSize = panFieldSize h ! i;
                 h1 = h\<lparr>panFieldOffset :=
                          take i (panFieldOffset h)
                          @ map (\<lambda>off. off - nDeletedFieldSize)
                              (take (n - Suc i) (drop (Suc i) (panFieldOffset h))),
                        panFieldSize := array_del (panFieldSize h) i n,
                        panFieldDecimals := array_del (panFieldDecimals h) i n,
                        pachFieldType := array_del (pachFieldType h) i n,
                        nFields := nFields h - 1,
                        nHeaderLength := nHeaderLength h - XBASE_FLDHDR_SZ,
                        nRecordLength := nRecordLength h - nDeletedFieldSize,
                        pszHeader :=
                          take (nat XBASE_FLDHDR_SZ * i) (pszHeader h)
                          @ take (nat XBASE_FLDHDR_SZ * (n - Suc i))
                              (drop (nat XBASE_FLDHDR_SZ * Suc i) (pszHeader h)),
                        pszCurrentRecord :=
                          resize (pszCurrentRecord h)
                            (nat (nRecordLength h - nDeletedFieldSize)) NUL\<rparr>
             in if bNoHeader h1 \<and> nRecords h1 = 0 then (True, h1)
                else
                  let h2 = DBFUpdateHeader hk (h1\<lparr>bNoHeader := True\<rparr>);
                      sh = del_shift hk h2 nOldRecordLength nOldHeaderLength nDeletedFieldOffset
                             nDeletedFieldSize (replicate (nat nOldRecordLength) NUL) 0
                             (nat (nRecords h2))
                  in if \<not> fst sh then (False, snd sh)
                     else (True,
                           (write_eof hk (snd sh))\<lparr>nCurrentRecord := -1,
                              bCurrentRecordModified := False, bUpdated := True\<rparr>))"

text \<open>
  \<^verbatim>\<open>DBFReorderFields\<close>. The new offsets start at 1 and add up the new widths. The
  caller's map is not checked, as the C comment says; an entry outside the fields reads
  past the arrays.
\<close>

fun offsets_from :: "int \<Rightarrow> int list \<Rightarrow> int list" where
  "offsets_from off [] = []"
| "offsets_from off (w # ws) = off # offsets_from (off + w) ws"

definition reorder_record ::
  "'w DBFInfo \<Rightarrow> int list \<Rightarrow> int list \<Rightarrow> byte list \<Rightarrow> byte list \<Rightarrow> byte list" where
  "reorder_record h panMap panFieldOffsetNew pszRecord pszRecordNew =
     foldl (\<lambda>new i.
              memcpy_at new (nat (panFieldOffsetNew ! i))
                (take (nat (panFieldSize h ! nat (panMap ! i)))
                   (drop (nat (panFieldOffset h ! nat (panMap ! i))) pszRecord)))
       (memcpy_at pszRecordNew 0 (take 1 pszRecord))
       [0 ..< nat (nFields h)]"

fun reorder_records ::
  "('w, 'd) SAHooks \<Rightarrow> 'w DBFInfo \<Rightarrow> int list \<Rightarrow> int list \<Rightarrow> byte list \<Rightarrow> byte list
     \<Rightarrow> int \<Rightarrow> nat \<Rightarrow> bool \<times> 'w DBFInfo" where
  "reorder_records hk h panMap panFieldOffsetNew pszRecord pszRecordNew iRecord 0 = (True, h)"
| "reorder_records hk h panMap panFieldOffsetNew pszRecord pszRecordNew iRecord (Suc k) =
     (let nRecordOffset = nRecordLength h * iRecord + nHeaderLength h;
          ld = load_raw hk h nRecordOffset (nRecordLength h) pszRecord
      in if \<not> fst ld then (False, snd (snd ld))
         else
           let new = reorder_record h panMap panFieldOffsetNew (fst (snd ld)) pszRecordNew;
               h1 = store_raw hk (snd (snd ld)) nRecordOffset (take (nat (nRecordLength h)) new)
           in reorder_records hk h1 panMap panFieldOffsetNew (fst (snd ld)) new
                (iRecord + 1) k)"

definition DBFReorderFields ::
  "('w, 'd) SAHooks \<Rightarrow> 'w DBFInfo \<Rightarrow> int list \<Rightarrow> bool \<times> 'w DBFInfo" where
  "DBFReorderFields hk psDBF panMap =
     (if nFields psDBF = 0 then (True, psDBF)
      else
        let fl = DBFFlushRecord hk psDBF
        in if \<not> fst fl then (False, snd fl)
           else
             let h = snd fl; n = nat (nFields h);
                 panFieldSizeNew = map (\<lambda>i. panFieldSize h ! nat (panMap ! i)) [0 ..< n];
                 panFieldDecimalsNew = map (\<lambda>i. panFieldDecimals h ! nat (panMap ! i)) [0 ..< n];
                 pachFieldTypeNew = map (\<lambda>i. pachFieldType h ! nat (panMap ! i)) [0 ..< n];
                 pszHeaderNew =
                   concat (map (\<lambda>i. take (nat XBASE_FLDHDR_SZ)
                                       (drop (nat (panMap ! i * XBASE_FLDHDR_SZ)) (pszHeader h)))
                             [0 ..< n]);
                 panFieldOffsetNew = offsets_from 1 panFieldSizeNew;
                 h1 = h\<lparr>pszHeader := pszHeaderNew\<rparr>
             in if \<not> (bNoHeader h1 \<and> nRecords h1 = 0) then
                  (let h2 = DBFUpdateHeader hk (h1\<lparr>bNoHeader := True\<rparr>);
                       sh = reorder_records hk h2 panMap panFieldOffsetNew
                              (replicate (nat (nRecordLength h2)) NUL)
                              (replicate (nat (nRecordLength h2)) NUL) 0 (nat (nRecords h2))
                   in if \<not> fst sh
                      then (False,
                            (snd sh)\<lparr>nCurrentRecord := -1, bCurrentRecordModified := False,
                               bUpdated := False\<rparr>)
                      else (True,
                            (snd sh)\<lparr>panFieldOffset := panFieldOffsetNew,
                               panFieldSize := panFieldSizeNew,
                               panFieldDecimals := panFieldDecimalsNew,
                               pachFieldType := pachFieldTypeNew,
                               nCurrentRecord := -1, bCurrentRecordModified := False,
                               bUpdated := True\<rparr>))
                else (True,
                      h1\<lparr>panFieldOffset := panFieldOffsetNew,
                         panFieldSize := panFieldSizeNew,
                         panFieldDecimals := panFieldDecimalsNew,
                         pachFieldType := pachFieldTypeNew,
                         nCurrentRecord := -1, bCurrentRecordModified := False,
                         bUpdated := True\<rparr>))"

text \<open>
  \<^verbatim>\<open>DBFAlterFieldDefn\<close>. The result is the C \<^verbatim>\<open>int\<close>: 1 for \<^verbatim>\<open>TRUE\<close>, 0 for
  \<^verbatim>\<open>FALSE\<close>, and -1 for a width below 1. One record is rewritten by
  \<open>alter_narrow\<close> when the field shrinks or only changes its type, and by
  \<open>alter_widen\<close> when it grows.
\<close>

definition alter_narrow ::
  "char \<Rightarrow> char \<Rightarrow> int \<Rightarrow> int \<Rightarrow> int \<Rightarrow> int \<Rightarrow> byte list \<Rightarrow> byte list" where
  "alter_narrow chOldType chFieldFill nOffset nOldWidth nWidth nOldRecordLength pszRecord =
     (let pszOldField = take (nat nOldWidth) (drop (nat nOffset) pszRecord) @ [NUL];
          bIsNULL = DBFIsValueNULL chOldType (Some (cstr pszOldField)) nOldWidth;
          r1 = (if nWidth \<noteq> nOldWidth \<and>
                   (chOldType = CHR ''N'' \<or> chOldType = CHR ''F'' \<or> chOldType = CHR ''D'') \<and>
                   pszOldField ! 0 = CHR '' ''
                then memcpy_at pszRecord (nat nOffset)
                       (take (nat nWidth) (drop (nat (nOffset + nOldWidth - nWidth)) pszRecord))
                else pszRecord);
          r2 = (if nWidth \<noteq> nOldWidth \<and> nOffset + nOldWidth < nOldRecordLength
                then memcpy_at r1 (nat (nOffset + nWidth))
                       (take (nat (nOldRecordLength - (nOffset + nOldWidth)))
                          (drop (nat (nOffset + nOldWidth)) r1))
                else r1)
      in if bIsNULL then memset_at r2 (nat nOffset) chFieldFill (nat nWidth) else r2)"

definition alter_widen ::
  "char \<Rightarrow> char \<Rightarrow> int \<Rightarrow> int \<Rightarrow> int \<Rightarrow> int \<Rightarrow> byte list \<Rightarrow> byte list" where
  "alter_widen chOldType chFieldFill nOffset nOldWidth nWidth nOldRecordLength pszRecord =
     (let pszOldField = take (nat nOldWidth) (drop (nat nOffset) pszRecord) @ [NUL];
          bIsNULL = DBFIsValueNULL chOldType (Some (cstr pszOldField)) nOldWidth;
          r1 = (if nOffset + nOldWidth < nOldRecordLength
                then memcpy_at pszRecord (nat (nOffset + nWidth))
                       (take (nat (nOldRecordLength - (nOffset + nOldWidth)))
                          (drop (nat (nOffset + nOldWidth)) pszRecord))
                else pszRecord)
      in if bIsNULL then memset_at r1 (nat nOffset) chFieldFill (nat nWidth)
         else if chOldType = CHR ''N'' \<or> chOldType = CHR ''F''
         then memset_at
                (memcpy_at r1 (nat (nOffset + nWidth - nOldWidth))
                   (take (nat nOldWidth) (drop (nat nOffset) r1)))
                (nat nOffset) (CHR '' '') (nat (nWidth - nOldWidth))
         else memset_at r1 (nat (nOffset + nOldWidth)) (CHR '' '') (nat (nWidth - nOldWidth)))"

fun alter_up ::
  "('w, 'd) SAHooks \<Rightarrow> 'w DBFInfo \<Rightarrow> (byte list \<Rightarrow> byte list) \<Rightarrow> int \<Rightarrow> byte list \<Rightarrow> int
     \<Rightarrow> nat \<Rightarrow> bool \<times> 'w DBFInfo" where
  "alter_up hk h rewrite nOldRecordLength pszRecord iRecord 0 = (True, h)"
| "alter_up hk h rewrite nOldRecordLength pszRecord iRecord (Suc k) =
     (let ld = load_raw hk h (nOldRecordLength * iRecord + nHeaderLength h) nOldRecordLength
                 pszRecord
      in if \<not> fst ld then (False, snd (snd ld))
         else
           let rec = rewrite (fst (snd ld));
               h1 = store_raw hk (snd (snd ld)) (nRecordLength h * iRecord + nHeaderLength h)
                      (take (nat (nRecordLength h)) rec)
           in alter_up hk h1 rewrite nOldRecordLength rec (iRecord + 1) k)"

fun alter_down ::
  "('w, 'd) SAHooks \<Rightarrow> 'w DBFInfo \<Rightarrow> (byte list \<Rightarrow> byte list) \<Rightarrow> int \<Rightarrow> byte list
     \<Rightarrow> nat \<Rightarrow> bool \<times> 'w DBFInfo" where
  "alter_down hk h rewrite nOldRecordLength pszRecord 0 = (True, h)"
| "alter_down hk h rewrite nOldRecordLength pszRecord (Suc i) =
     (let ld = load_raw hk h (nOldRecordLength * int i + nHeaderLength h) nOldRecordLength
                 pszRecord
      in if \<not> fst ld then (False, snd (snd ld))
         else
           let rec = rewrite (fst (snd ld));
               h1 = store_raw hk (snd (snd ld)) (nRecordLength h * int i + nHeaderLength h)
                      (take (nat (nRecordLength h)) rec)
           in alter_down hk h1 rewrite nOldRecordLength rec i)"

definition DBFAlterFieldDefn ::
  "('w, 'd) SAHooks \<Rightarrow> 'w DBFInfo \<Rightarrow> int \<Rightarrow> string \<Rightarrow> char \<Rightarrow> int \<Rightarrow> int
     \<Rightarrow> int \<times> 'w DBFInfo" where
  "DBFAlterFieldDefn hk psDBF iField pszFieldName chType nWidthReq nDecimals =
     (if iField < 0 \<or> iField \<ge> nFields psDBF then (0, psDBF)
      else
        let fl = DBFFlushRecord hk psDBF
        in if \<not> fst fl then (0, snd fl)
           else
             let h = snd fl; i = nat iField; n = nat (nFields h);
                 chFieldFill = DBFGetNullCharacter chType;
                 chOldType = pachFieldType h ! i;
                 nOffset = panFieldOffset h ! i;
                 nOldWidth = panFieldSize h ! i;
                 nOldRecordLength = nRecordLength h
             in if nWidthReq < 1 then (-1, h)
                else
                  let nWidth = (if nWidthReq > XBASE_FLD_MAX_WIDTH then XBASE_FLD_MAX_WIDTH
                                else nWidthReq);
                      pszRecord = replicate
                                    (nat (nOldRecordLength
                                          + (if nWidth > nOldWidth then nWidth - nOldWidth else 0)))
                                    NUL;
                      h1 = h\<lparr>pszCurrentRecord :=
                               (if nWidth \<noteq> nOldWidth
                                then resize (pszCurrentRecord h)
                                       (nat (nRecordLength h + nWidth - nOldWidth)) NUL
                                else pszCurrentRecord h),
                             panFieldSize := (panFieldSize h)[i := nWidth],
                             panFieldDecimals := (panFieldDecimals h)[i := nDecimals],
                             pachFieldType := (pachFieldType h)[i := chType],
                             pszHeader :=
                               memcpy_at (pszHeader h) (nat XBASE_FLDHDR_SZ * i)
                                 (field_descriptor pszFieldName chType nWidth nDecimals),
                             panFieldOffset :=
                               (if nWidth \<noteq> nOldWidth
                                then take (Suc i) (panFieldOffset h)
                                     @ map (\<lambda>off. off + (nWidth - nOldWidth))
                                         (take (n - Suc i) (drop (Suc i) (panFieldOffset h)))
                                     @ drop n (panFieldOffset h)
                                else panFieldOffset h),
                             nRecordLength :=
                               (if nWidth \<noteq> nOldWidth
                                then nRecordLength h + (nWidth - nOldWidth)
                                else nRecordLength h)\<rparr>
                  in if bNoHeader h1 \<and> nRecords h1 = 0 then (1, h1)
                     else
                       let h2 = DBFUpdateHeader hk (h1\<lparr>bNoHeader := True\<rparr>)
                       in if nWidth < nOldWidth \<or> (nWidth = nOldWidth \<and> chType \<noteq> chOldType) then
                            (let sh = alter_up hk h2
                                        (alter_narrow chOldType chFieldFill nOffset nOldWidth
                                           nWidth nOldRecordLength)
                                        nOldRecordLength pszRecord 0 (nat (nRecords h2))
                             in if \<not> fst sh
                                then (0, (snd sh)\<lparr>nCurrentRecord := -1,
                                            bCurrentRecordModified := True, bUpdated := False\<rparr>)
                                else (1, (write_eof hk (snd sh))\<lparr>nCurrentRecord := -1,
                                            bCurrentRecordModified := False, bUpdated := True\<rparr>))
                          else if nWidth > nOldWidth then
                            (let sh = alter_down hk h2
                                        (alter_widen chOldType chFieldFill nOffset nOldWidth
                                           nWidth nOldRecordLength)
                                        nOldRecordLength pszRecord (nat (nRecords h2))
                             in if \<not> fst sh
                                then (0, (snd sh)\<lparr>nCurrentRecord := -1,
                                            bCurrentRecordModified := True, bUpdated := False\<rparr>)
                                else (1, (write_eof hk (snd sh))\<lparr>nCurrentRecord := -1,
                                            bCurrentRecordModified := False, bUpdated := True\<rparr>))
                          else (1, h2\<lparr>nCurrentRecord := -1, bCurrentRecordModified := False,
                                       bUpdated := True\<rparr>))"

section \<open>Open and close\<close>

definition log_ev :: "'w DBFInfo \<Rightarrow> event \<Rightarrow> 'w DBFInfo" where
  "log_ev h e = h\<lparr>trace := trace h @ [e]\<rparr>"

definition hk_open ::
  "('w, 'd) SAHooks \<Rightarrow> 'w DBFInfo \<Rightarrow> string \<Rightarrow> string \<Rightarrow> SAFile option \<times> 'w DBFInfo" where
  "hk_open hk h name mode =
     (fst (FOpen hk (world h) name mode),
      h\<lparr>world := snd (FOpen hk (world h) name mode),
        trace := trace h @ [EvOpen name mode (fst (FOpen hk (world h) name mode))]\<rparr>)"

definition hk_close :: "('w, 'd) SAHooks \<Rightarrow> 'w DBFInfo \<Rightarrow> SAFile \<Rightarrow> 'w DBFInfo" where
  "hk_close hk h f = h\<lparr>world := FClose hk (world h) f, trace := trace h @ [EvClose f]\<rparr>"

definition hk_read_on ::
  "('w, 'd) SAHooks \<Rightarrow> 'w DBFInfo \<Rightarrow> SAFile \<Rightarrow> nat \<Rightarrow> nat \<Rightarrow> (nat \<times> byte list) \<times> 'w DBFInfo" where
  "hk_read_on hk h f sz n =
     (fst (FRead hk (world h) f sz n),
      h\<lparr>world := snd (FRead hk (world h) f sz n),
        trace := trace h @ [EvRead f sz n (fst (fst (FRead hk (world h) f sz n)))]\<rparr>)"

text \<open>
  The blocks that are allocated and not yet freed, and the streams that are opened and
  not yet closed, after a log of events.
\<close>

definition live_step :: "string list \<Rightarrow> event \<Rightarrow> string list" where
  "live_step acc e =
     (case e of EvMalloc name \<Rightarrow> name # acc | EvFree name \<Rightarrow> remove1 name acc | _ \<Rightarrow> acc)"

definition live_allocs :: "event list \<Rightarrow> string list" where
  "live_allocs tr = foldl live_step [] tr"

definition stream_step :: "SAFile list \<Rightarrow> event \<Rightarrow> SAFile list" where
  "stream_step acc e =
     (case e of EvOpen name mode (Some f) \<Rightarrow> f # acc | EvClose f \<Rightarrow> remove1 f acc | _ \<Rightarrow> acc)"

definition open_streams :: "event list \<Rightarrow> SAFile list" where
  "open_streams tr = foldl stream_step [] tr"

definition is_write :: "event \<Rightarrow> bool" where
  "is_write e = (case e of EvWrite f dat \<Rightarrow> True | _ \<Rightarrow> False)"

text \<open>
  \<^verbatim>\<open>free(p)\<close> releases the block when \<open>p\<close> is not null, that is, when the block is
  live.
\<close>

definition release :: "'w DBFInfo \<Rightarrow> string \<Rightarrow> 'w DBFInfo" where
  "release h name =
     (if name \<in> set (live_allocs (trace h)) then log_ev h (EvFree name) else h)"

definition DBFClose :: "('w, 'd) SAHooks \<Rightarrow> 'w DBFInfo \<Rightarrow> 'w DBFInfo" where
  "DBFClose hk psDBF =
     (let h0 = (if bNoHeader psDBF then DBFWriteHeader hk psDBF else psDBF);
          h1 = snd (DBFFlushRecord hk h0);
          h2 = (if bUpdated h1 then DBFUpdateHeader hk h1 else h1);
          h3 = hk_close hk h2 (fp h2);
          h4 = release (release (release (release h3 ''panFieldOffset'') ''panFieldSize'')
                 ''panFieldDecimals'') ''pachFieldType'';
          h5 = release h4 ''pszWorkField''
      in release (release (release (release h5 ''pszHeader'') ''pszCurrentRecord'')
           ''pszCodePage'') ''psDBF'')"

fun DBFGetLenWithoutExtension_scan :: "string \<Rightarrow> nat \<Rightarrow> nat" where
  "DBFGetLenWithoutExtension_scan s 0 = length s"
| "DBFGetLenWithoutExtension_scan s (Suc j) =
     (if s ! Suc j \<noteq> CHR ''/'' \<and> s ! Suc j \<noteq> CHR 0x5C
      then (if s ! Suc j = CHR ''.'' then Suc j else DBFGetLenWithoutExtension_scan s j)
      else length s)"

definition DBFGetLenWithoutExtension :: "string \<Rightarrow> nat" where
  "DBFGetLenWithoutExtension pszBasename =
     DBFGetLenWithoutExtension_scan pszBasename (length pszBasename - 1)"

text \<open>
  The handle \<^verbatim>\<open>calloc\<close> returns: every field zero. The log so far and the state behind
  the hooks travel in its ghost fields.
\<close>

definition DBFInfo_calloc :: "'w \<Rightarrow> event list \<Rightarrow> 'w DBFInfo" where
  "DBFInfo_calloc w tr =
     \<lparr>fp = 0, nRecords = 0, nRecordLength = 0, nHeaderLength = 0, nFields = 0,
      panFieldOffset = [], panFieldSize = [], panFieldDecimals = [], pachFieldType = [],
      pszHeader = [], nCurrentRecord = 0, bCurrentRecordModified = False,
      pszCurrentRecord = [], nWorkFieldLength = 0, pszWorkField = [], bNoHeader = False,
      bUpdated = False, iLanguageDriver = 0, pszCodePage = None,
      nUpdateYearSince1900 = 0, nUpdateMonth = 0, nUpdateDay = 0,
      bWriteEndOfFileChar = False, bRequireNextWriteSeek = False,
      world = w, trace = tr\<rparr>"

definition open_fail :: "'w DBFInfo \<Rightarrow> 'w DBFInfo option \<times> 'w \<times> event list" where
  "open_fail h = (None, world h, trace h)"

definition close_cpg :: "('w, 'd) SAHooks \<Rightarrow> 'w DBFInfo \<Rightarrow> SAFile option \<Rightarrow> 'w DBFInfo" where
  "close_cpg hk h pfCPG = (case pfCPG of None \<Rightarrow> h | Some c \<Rightarrow> hk_close hk h c)"

text \<open>
  The loop over the field descriptors: it stops at a descriptor whose first byte is the
  header terminator, and the number of entries it has filled is the field count.
\<close>

fun read_fields ::
  "byte list \<Rightarrow> nat \<Rightarrow> nat \<Rightarrow> int list \<Rightarrow> int list \<Rightarrow> int list \<Rightarrow> char list
     \<Rightarrow> int list \<times> int list \<times> int list \<times> char list" where
  "read_fields pabyBuf iField 0 offs sizes decs types = (offs, sizes, decs, types)"
| "read_fields pabyBuf iField (Suc k) offs sizes decs types =
     (let pabyFInfo = drop (iField * nat XBASE_FLDHDR_SZ) pabyBuf
      in if pabyFInfo ! 0 = HEADER_RECORD_TERMINATOR then (offs, sizes, decs, types)
         else
           read_fields pabyBuf (Suc iField) k
             (offs @ [if iField = 0 then 1 else offs ! (iField - 1) + sizes ! (iField - 1)])
             (sizes @ [of_char (pabyFInfo ! 16)])
             (decs @ [if pabyFInfo ! 11 = CHR ''N'' \<or> pabyFInfo ! 11 = CHR ''F''
                      then of_char (pabyFInfo ! 17) else 0])
             (types @ [pabyFInfo ! 11]))"

definition open_fields ::
  "('w, 'd) SAHooks \<Rightarrow> 'w DBFInfo \<Rightarrow> byte list \<Rightarrow> 'w DBFInfo option \<times> 'w \<times> event list" where
  "open_fields hk h pabyBuf =
     (let nHeadLen = nHeaderLength h;
          h1 = log_ev (log_ev h (EvFree ''pabyBuf'')) (EvMalloc ''pszHeader'');
          h2 = snd (hk_seek hk h1 XBASE_FILEHDR_SZ);
          rd = hk_read hk h2 (nat (nHeadLen - XBASE_FILEHDR_SZ)) 1;
          buf = overlay (snd (fst rd)) (resize pabyBuf (nat nHeadLen) NUL)
      in if fst (fst rd) \<noteq> 1
         then open_fail
                (release (release (release (release (hk_close hk (snd rd) (fp h))
                   ''pszHeader'') ''pszCurrentRecord'') ''pszCodePage'') ''psDBF'')
         else
           let h3 = log_ev (log_ev (log_ev (log_ev (snd rd) (EvMalloc ''panFieldOffset''))
                      (EvMalloc ''panFieldSize'')) (EvMalloc ''panFieldDecimals''))
                      (EvMalloc ''pachFieldType'');
               fs = read_fields buf 0 (nat (nFields h)) [] [] [] [];
               h4 = h3\<lparr>pszHeader := buf,
                       nFields := int (length (fst fs)),
                       panFieldOffset := fst fs,
                       panFieldSize := fst (snd fs),
                       panFieldDecimals := fst (snd (snd fs)),
                       pachFieldType := snd (snd (snd fs))\<rparr>
           in if nFields h4 > 0 \<and>
                 panFieldOffset h4 ! nat (nFields h4 - 1) + panFieldSize h4 ! nat (nFields h4 - 1)
                   > nRecordLength h4
              then open_fail (DBFClose hk h4)
              else
                let h5 = h4\<lparr>bWriteEndOfFileChar := True, bRequireNextWriteSeek := True\<rparr>
                in (Some h5, world h5, trace h5))"

definition open_codepage ::
  "('w, 'd) SAHooks \<Rightarrow> 'w DBFInfo \<Rightarrow> SAFile option \<Rightarrow> byte list \<Rightarrow> 'w DBFInfo \<times> byte list" where
  "open_codepage hk h pfCPG pabyBuf =
     (let r1 = (case pfCPG of
                  None \<Rightarrow> (h, pabyBuf)
                | Some c \<Rightarrow>
                    let rd = hk_read_on hk h c 1 499;
                        buf = overlay (snd (fst rd)) (replicate 500 NUL);
                        n = length (takeWhile
                              (\<lambda>c. c \<noteq> NUL \<and> c \<noteq> CHR 0x0A \<and> c \<noteq> CHR 0x0D) buf);
                        ha = (if n > 0
                              then (log_ev (snd rd) (EvMalloc ''pszCodePage''))
                                     \<lparr>pszCodePage := Some (take n buf)\<rparr>
                              else snd rd)
                    in (hk_close hk ha c, if n > 0 then buf[n := NUL] else buf))
      in if pszCodePage (fst r1) = None \<and> snd r1 ! 29 \<noteq> NUL
         then ((log_ev (fst r1) (EvMalloc ''pszCodePage''))
                 \<lparr>pszCodePage := Some (''LDID/'' @ showd (iLanguageDriver (fst r1)))\<rparr>,
               memcpy_at (snd r1) 0 (''LDID/'' @ showd (iLanguageDriver (fst r1)) @ [NUL]))
         else r1)"

definition open_header ::
  "('w, 'd) SAHooks \<Rightarrow> 'w DBFInfo \<Rightarrow> SAFile option \<Rightarrow> 'w DBFInfo option \<times> 'w \<times> event list" where
  "open_header hk h pfCPG =
     (let rd = hk_read hk (log_ev h (EvMalloc ''pabyBuf'')) (nat XBASE_FILEHDR_SZ) 1;
          pabyBuf = overlay (snd (fst rd)) (replicate 500 NUL)
      in if fst (fst rd) \<noteq> 1
         then open_fail
                (release (release (close_cpg hk (hk_close hk (snd rd) (fp h)) pfCPG)
                   ''pabyBuf'') ''psDBF'')
         else
           let nHeadLen = of_char (pabyBuf ! 8) + 256 * of_char (pabyBuf ! 9);
               h1 = (snd rd)\<lparr>nUpdateYearSince1900 := of_char (pabyBuf ! 1),
                       nUpdateMonth := of_char (pabyBuf ! 2),
                       nUpdateDay := of_char (pabyBuf ! 3),
                       nRecords := of_char (pabyBuf ! 4) + 256 * of_char (pabyBuf ! 5)
                                   + 65536 * of_char (pabyBuf ! 6)
                                   + 16777216 * (of_char (pabyBuf ! 7) mod 128),
                       nHeaderLength := nHeadLen,
                       nRecordLength := of_char (pabyBuf ! 10) + 256 * of_char (pabyBuf ! 11),
                       iLanguageDriver := of_char (pabyBuf ! 29)\<rparr>
           in if nRecordLength h1 = 0 \<or> nHeadLen < XBASE_FILEHDR_SZ
              then open_fail
                     (release (release (close_cpg hk (hk_close hk h1 (fp h)) pfCPG)
                        ''pabyBuf'') ''psDBF'')
              else
                let h2 = (log_ev h1 (EvMalloc ''pszCurrentRecord''))
                           \<lparr>nFields := (nHeadLen - XBASE_FILEHDR_SZ) div XBASE_FLDHDR_SZ,
                            pszCurrentRecord := replicate (nat (nRecordLength h1)) NUL,
                            pszCodePage := None\<rparr>;
                    cp = open_codepage hk h2 pfCPG pabyBuf
                in open_fields hk (fst cp) (snd cp))"

definition DBFOpenLL ::
  "('w, 'd) SAHooks \<Rightarrow> 'w \<Rightarrow> string \<Rightarrow> string \<Rightarrow> 'w DBFInfo option \<times> 'w \<times> event list" where
  "DBFOpenLL hk w pszFilename pszAccess =
     (if pszAccess \<noteq> ''r'' \<and> pszAccess \<noteq> ''r+'' \<and> pszAccess \<noteq> ''rb'' \<and>
         pszAccess \<noteq> ''rb+'' \<and> pszAccess \<noteq> ''r+b''
      then (None, w, [])
      else
        let acc = (if pszAccess = ''r'' then ''rb''
                   else if pszAccess = ''r+'' then ''rb+'' else pszAccess);
            base = take (DBFGetLenWithoutExtension pszFilename) pszFilename;
            h0 = DBFInfo_calloc w [EvMalloc ''pszFullname'', EvMalloc ''psDBF''];
            o1 = hk_open hk h0 (base @ ''.dbf'') acc;
            o2 = (if fst o1 = None then hk_open hk (snd o1) (base @ ''.DBF'') acc else o1);
            c1 = hk_open hk (snd o2) (base @ ''.cpg'') ''r'';
            c2 = (if fst c1 = None then hk_open hk (snd c1) (base @ ''.CPG'') ''r'' else c1);
            h1 = log_ev (snd c2) (EvFree ''pszFullname'')
        in case fst o2 of
             None \<Rightarrow> open_fail (close_cpg hk (release h1 ''psDBF'') (fst c2))
           | Some f \<Rightarrow>
               open_header hk
                 (h1\<lparr>fp := f, bNoHeader := False, nCurrentRecord := -1,
                     bCurrentRecordModified := False\<rparr>)
                 (fst c2))"

section \<open>Notions used by the theorems\<close>

text \<open>
  The schema of a handle, and the part of the rest that the hooks never touch.
\<close>

definition schema_of ::
  "'w DBFInfo \<Rightarrow> SAFile \<times> int \<times> int \<times> int \<times> int list \<times> int list \<times> int list \<times> char list
     \<times> byte list \<times> bool \<times> int \<times> string option \<times> int \<times> int \<times> int" where
  "schema_of h =
     (fp h, nRecordLength h, nHeaderLength h, nFields h, panFieldOffset h, panFieldSize h,
      panFieldDecimals h, pachFieldType h, pszHeader h, bWriteEndOfFileChar h,
      iLanguageDriver h, pszCodePage h, nUpdateYearSince1900 h, nUpdateMonth h, nUpdateDay h)"

definition cache_of ::
  "'w DBFInfo \<Rightarrow> int \<times> int \<times> byte list \<times> bool \<times> bool \<times> int \<times> byte list" where
  "cache_of h =
     (nRecords h, nCurrentRecord h, pszCurrentRecord h, bNoHeader h, bUpdated h,
      nWorkFieldLength h, pszWorkField h)"

definition new_events :: "'w DBFInfo \<Rightarrow> 'w DBFInfo \<Rightarrow> event list" where
  "new_events h h' = drop (length (trace h)) (trace h')"

text \<open>
  The seek discipline on a log: \<open>pending_read p tr\<close> says that, after \<open>tr\<close>, the last
  positioning of the stream was followed by a read that returned all its items, and
  \<open>seek_kept p tr\<close> says that no write of \<open>tr\<close> happens in such a moment.
\<close>

fun pending_read :: "bool \<Rightarrow> event list \<Rightarrow> bool" where
  "pending_read p [] = p"
| "pending_read p (EvRead f sz n cnt # es) = pending_read (p \<or> cnt = n) es"
| "pending_read p (EvSeek f off # es) = pending_read False es"
| "pending_read p (e # es) = pending_read p es"

fun seek_kept :: "bool \<Rightarrow> event list \<Rightarrow> bool" where
  "seek_kept p [] = True"
| "seek_kept p (EvRead f sz n cnt # es) = seek_kept (p \<or> cnt = n) es"
| "seek_kept p (EvSeek f off # es) = seek_kept False es"
| "seek_kept p (EvWrite f dat # es) = (\<not> p \<and> seek_kept p es)"
| "seek_kept p (e # es) = seek_kept p es"

definition seek_inv :: "'w DBFInfo \<Rightarrow> bool" where
  "seek_inv h =
     (seek_kept False (trace h) \<and>
      (pending_read False (trace h) \<longrightarrow> bRequireNextWriteSeek h))"

text \<open>
  Sequences of operations on one handle: every function of the interface that changes the
  handle or calls a hook on it, \<^verbatim>\<open>DBFClose\<close> apart, which ends the life of the handle.
  The accessors (\<^verbatim>\<open>DBFGetFieldCount\<close>, \<^verbatim>\<open>DBFGetRecordCount\<close>, \<^verbatim>\<open>DBFGetFieldInfo\<close>,
  \<^verbatim>\<open>DBFGetNativeFieldType\<close>, \<^verbatim>\<open>DBFGetFieldIndex\<close>, \<^verbatim>\<open>DBFGetCodePage\<close>) only read the
  handle, and \<^verbatim>\<open>DBFCloneEmpty\<close> reads it and works on a handle of its own. A write that
  C leaves undefined leaves the handle as it was.
\<close>

datatype 'd dbf_op =
    OpReadInteger int int
  | OpReadDouble int int
  | OpReadString int int
  | OpReadLogical int int
  | OpReadDate int int
  | OpIsNull int int
  | OpReadTuple int
  | OpIsDeleted int
  | OpMarkDeleted int int
  | OpWriteDouble int int 'd
  | OpWriteInteger int int int
  | OpWriteString int int string
  | OpWriteNULL int int
  | OpWriteLogical int int char
  | OpWriteDate int int "SHPDate option"
  | OpWriteDirectly int int string
  | OpWriteTuple int "byte list"
  | OpUpdateHeader
  | OpSetLastModifiedDate int int int
  | OpSetWriteEndOfFileChar int
  | OpAddField string DBFFieldType int int
  | OpAddNativeFieldType string char int int
  | OpDeleteField int
  | OpReorderFields "int list"
  | OpAlterFieldDefn int string char int int

definition after_write :: "'w DBFInfo \<Rightarrow> (bool \<times> 'w DBFInfo) option \<Rightarrow> 'w DBFInfo" where
  "after_write h r = (case r of None \<Rightarrow> h | Some x \<Rightarrow> snd x)"

fun apply_op :: "('w, 'd) SAHooks \<Rightarrow> 'd platform \<Rightarrow> 'w DBFInfo \<Rightarrow> 'd dbf_op \<Rightarrow> 'w DBFInfo" where
  "apply_op hk pf h (OpReadInteger r f) = snd (DBFReadIntegerAttribute hk pf h r f)"
| "apply_op hk pf h (OpReadDouble r f) = snd (DBFReadDoubleAttribute hk pf h r f)"
| "apply_op hk pf h (OpReadString r f) = snd (DBFReadStringAttribute hk pf h r f)"
| "apply_op hk pf h (OpReadLogical r f) = snd (DBFReadLogicalAttribute hk pf h r f)"
| "apply_op hk pf h (OpReadDate r f) = snd (DBFReadDateAttribute hk pf h r f)"
| "apply_op hk pf h (OpIsNull r f) = snd (DBFIsAttributeNULL hk pf h r f)"
| "apply_op hk pf h (OpReadTuple r) = snd (DBFReadTuple hk h r)"
| "apply_op hk pf h (OpIsDeleted r) = snd (DBFIsRecordDeleted hk h r)"
| "apply_op hk pf h (OpMarkDeleted r b) = snd (DBFMarkRecordDeleted hk h r b)"
| "apply_op hk pf h (OpWriteDouble r f v) = after_write h (DBFWriteDoubleAttribute hk pf h r f v)"
| "apply_op hk pf h (OpWriteInteger r f n) = after_write h (DBFWriteIntegerAttribute hk pf h r f n)"
| "apply_op hk pf h (OpWriteString r f s) = after_write h (DBFWriteStringAttribute hk pf h r f s)"
| "apply_op hk pf h (OpWriteNULL r f) = after_write h (DBFWriteNULLAttribute hk pf h r f)"
| "apply_op hk pf h (OpWriteLogical r f c) = after_write h (DBFWriteLogicalAttribute hk pf h r f c)"
| "apply_op hk pf h (OpWriteDate r f d) = after_write h (DBFWriteDateAttribute hk h r f d)"
| "apply_op hk pf h (OpWriteDirectly r f s) = after_write h (DBFWriteAttributeDirectly hk h r f s)"
| "apply_op hk pf h (OpWriteTuple r t) = after_write h (DBFWriteTuple hk h r t)"
| "apply_op hk pf h OpUpdateHeader = DBFUpdateHeader hk h"
| "apply_op hk pf h (OpSetLastModifiedDate y m d) = DBFSetLastModifiedDate h y m d"
| "apply_op hk pf h (OpSetWriteEndOfFileChar b) = DBFSetWriteEndOfFileChar h b"
| "apply_op hk pf h (OpAddField name ty w d) = snd (DBFAddField hk h name ty w d)"
| "apply_op hk pf h (OpAddNativeFieldType name ty w d) =
     snd (DBFAddNativeFieldType hk h name ty w d)"
| "apply_op hk pf h (OpDeleteField f) = snd (DBFDeleteField hk h f)"
| "apply_op hk pf h (OpReorderFields m) = snd (DBFReorderFields hk h m)"
| "apply_op hk pf h (OpAlterFieldDefn f name ty w d) =
     snd (DBFAlterFieldDefn hk h f name ty w d)"

fun run_ops :: "('w, 'd) SAHooks \<Rightarrow> 'd platform \<Rightarrow> 'w DBFInfo \<Rightarrow> 'd dbf_op list \<Rightarrow> 'w DBFInfo" where
  "run_ops hk pf h [] = h"
| "run_ops hk pf h (op # ops) = run_ops hk pf (apply_op hk pf h op) ops"

text \<open>
  A handle is \<open>settled\<close> when its log keeps the discipline and ends in a moment in which
  a write needs no seek.
\<close>

definition settled :: "'w DBFInfo \<Rightarrow> bool" where
  "settled h = (seek_kept False (trace h) \<and> \<not> pending_read False (trace h))"

text \<open>
  What the data model promises about one field of a handle: its index is valid, it
  starts behind the deletion flag, it lies inside the record, and the record buffer has
  the length of a record.
\<close>

definition field_in_record :: "'w DBFInfo \<Rightarrow> int \<Rightarrow> bool" where
  "field_in_record h iField =
     (0 \<le> iField \<and> iField < nFields h \<and>
      1 \<le> panFieldOffset h ! nat iField \<and> 0 \<le> panFieldSize h ! nat iField \<and>
      panFieldOffset h ! nat iField + panFieldSize h ! nat iField \<le> nRecordLength h \<and>
      length (pszCurrentRecord h) = nat (nRecordLength h))"

text \<open>The bytes of a field in a record buffer.\<close>

definition field_bytes :: "'w DBFInfo \<Rightarrow> int \<Rightarrow> byte list" where
  "field_bytes h iField =
     take (nat (panFieldSize h ! nat iField))
       (drop (nat (panFieldOffset h ! nat iField)) (pszCurrentRecord h))"

text \<open>
  The values a field of a given type can take from \<^verbatim>\<open>DBFWriteAttribute\<close> without
  leaving the object behind the pointer; the text \<^verbatim>\<open>snprintf\<close> produces for a numeric
  write, with the width the code puts in the format; the text that is stored, after the
  cut of the 256-byte buffer and the cut to the width of the field; and two buffers that
  agree outside one range.
\<close>

definition value_fits :: "char \<Rightarrow> 'd pvalue \<Rightarrow> bool" where
  "value_fits ty v =
     (case v of
        PNull \<Rightarrow> True
      | PDouble d \<Rightarrow> ty = CHR ''D'' \<or> ty = CHR ''N'' \<or> ty = CHR ''F''
      | PChar c \<Rightarrow> ty = CHR ''L''
      | PString s \<Rightarrow> ty \<noteq> CHR ''D'' \<and> ty \<noteq> CHR ''N'' \<and> ty \<noteq> CHR ''F'')"

definition formatted :: "'d platform \<Rightarrow> int \<Rightarrow> int \<Rightarrow> 'd \<Rightarrow> string" where
  "formatted pf sz dec v =
     snprintf_f pf (if XBASE_FLD_MAX_WIDTH + 1 - 2 < sz then XBASE_FLD_MAX_WIDTH + 1 - 2 else sz)
       dec v"

definition numeric_text :: "'d platform \<Rightarrow> int \<Rightarrow> int \<Rightarrow> 'd \<Rightarrow> string" where
  "numeric_text pf sz dec v =
     (let szSField = take (nat (XBASE_FLD_MAX_WIDTH + 1) - 1) (formatted pf sz dec v)
      in if int (length szSField) > sz then take (nat sz) szSField else szSField)"

definition same_outside :: "byte list \<Rightarrow> byte list \<Rightarrow> nat \<Rightarrow> nat \<Rightarrow> bool" where
  "same_outside new old off n =
     (length new = length old \<and>
      (\<forall>j < length old. j < off \<or> off + n \<le> j \<longrightarrow> new ! j = old ! j))"

text \<open>
  The C string a string read hands out for the bytes of a field; the texts without a
  NUL whose first character other than a blank exists and is not an asterisk
  (\<open>number_text\<close>) or not the digit zero (\<open>date_text\<close>); the handle after
  \<^verbatim>\<open>DBFWriteNULLAttribute\<close> has found its record and filled the field.
\<close>

definition read_text :: "'d platform \<Rightarrow> byte list \<Rightarrow> string" where
  "read_text pf fld = (if TRIM_DBF_WHITESPACE pf then trim_ws (cstr fld) else cstr fld)"

definition number_text :: "string \<Rightarrow> bool" where
  "number_text t =
     (NUL \<notin> set t \<and> dropWhile (\<lambda>c. c = CHR '' '') t \<noteq> [] \<and>
      hd (dropWhile (\<lambda>c. c = CHR '' '') t) \<noteq> CHR ''*'')"

definition date_text :: "string \<Rightarrow> bool" where
  "date_text t =
     (NUL \<notin> set t \<and> dropWhile (\<lambda>c. c = CHR '' '') t \<noteq> [] \<and>
      hd (dropWhile (\<lambda>c. c = CHR '' '') t) \<noteq> CHR ''0'')"

definition nulled :: "('w, 'd) SAHooks \<Rightarrow> 'w DBFInfo \<Rightarrow> int \<Rightarrow> int \<Rightarrow> 'w DBFInfo" where
  "nulled hk h r f =
     (snd (prepare_record hk h r))
       \<lparr>bCurrentRecordModified := True, bUpdated := True,
        pszCurrentRecord :=
          memset_at (pszCurrentRecord (snd (prepare_record hk h r)))
            (nat (panFieldOffset h ! nat f))
            (DBFGetNullCharacter (pachFieldType h ! nat f))
            (nat (panFieldSize h ! nat f))\<rparr>"

text \<open>
  What a write that appends leaves behind, given the handle before the write and the field
  written: one record more, the new record cached, and blanks in every byte of its
  buffer outside the field, the deletion flag among them.
\<close>

definition appended :: "'w DBFInfo \<Rightarrow> int \<Rightarrow> (bool \<times> 'w DBFInfo) option \<Rightarrow> bool" where
  "appended h iField res =
     (case res of
        None \<Rightarrow> False
      | Some x \<Rightarrow>
          nRecords (snd x) = nRecords h + 1 \<and> nCurrentRecord (snd x) = nRecords h \<and>
          length (pszCurrentRecord (snd x)) = nat (nRecordLength h) \<and>
          pszCurrentRecord (snd x) ! 0 = CHR '' '' \<and>
          (\<forall>j \<in> {0 ..< nat (nRecordLength h)}.
             j < nat (panFieldOffset h ! nat iField) \<or>
             nat (panFieldOffset h ! nat iField) + nat (panFieldSize h ! nat iField) \<le> j \<longrightarrow>
             pszCurrentRecord (snd x) ! j = CHR '' ''))"

section \<open>A concrete platform and a concrete table\<close>

text \<open>
  The doubles that are whole numbers, as \<^typ>\<open>int\<close>: \<^verbatim>\<open>"%<w>.<d>f"\<close> prints the sign, the
  digits, a point and \<open>d\<close> zeros when \<open>d\<close> is positive, and pads with blanks on the
  left up to the width \<open>w\<close>.
\<close>

definition fmt_whole :: "int \<Rightarrow> int \<Rightarrow> int \<Rightarrow> string" where
  "fmt_whole w d v =
     (let s = showd v @ (if d > 0 then CHR ''.'' # replicate (nat d) (CHR ''0'') else [])
      in replicate (nat w - length s) (CHR '' '') @ s)"

definition whole_platform :: "bool \<Rightarrow> int platform" where
  "whole_platform trim =
     \<lparr>snprintf_f = fmt_whole, dbl_eq = (=), dbl_of_int = (\<lambda>i. i),
      TRIM_DBF_WHITESPACE = trim\<rparr>"

text \<open>
  A table of two records over the fields \<open>N(5,0)\<close>, \<open>C(3)\<close>, \<open>L(1)\<close> and \<open>D(8)\<close>, as
  it stands after it has been opened: the header takes 161 bytes, a record 18, and the
  second record is marked deleted.
\<close>

definition ex_file :: "byte list" where
  "ex_file = replicate 161 NUL @ ''    12abcT20240307'' @ ''*    0   ?00000000''"

definition ex_world :: mem_world where
  "ex_world = \<lparr>files = [(''t.dbf'', ex_file)], streams = [(''t.dbf'', 0)]\<rparr>"

definition ex_table :: "mem_world DBFInfo" where
  "ex_table =
     \<lparr>fp = 0, nRecords = 2, nRecordLength = 18, nHeaderLength = 161, nFields = 4,
      panFieldOffset = [1, 6, 9, 10], panFieldSize = [5, 3, 1, 8],
      panFieldDecimals = [0, 0, 0, 0], pachFieldType = ''NCLD'',
      pszHeader = replicate 129 NUL, nCurrentRecord = -1, bCurrentRecordModified = False,
      pszCurrentRecord = replicate 18 NUL, nWorkFieldLength = 0, pszWorkField = [],
      bNoHeader = False, bUpdated = False, iLanguageDriver = 0, pszCodePage = None,
      nUpdateYearSince1900 = 95, nUpdateMonth = 7, nUpdateDay = 26,
      bWriteEndOfFileChar = True, bRequireNextWriteSeek = True,
      world = ex_world, trace = []\<rparr>"

text \<open>
  The example table after a read of record 0 and a write of 7 into its numeric field:
  record 0 is cached and dirty.
\<close>

definition ex_dirty :: "mem_world DBFInfo" where
  "ex_dirty =
     run_ops mem_hooks (whole_platform True) ex_table
       [OpReadInteger 0 0, OpWriteDouble 0 0 7]"

text \<open>
  A table without records whose one field is numeric and has the greatest width, 255.
\<close>

definition ex_wide_world :: mem_world where
  "ex_wide_world = \<lparr>files = [(''w.dbf'', replicate 65 NUL)], streams = [(''w.dbf'', 0)]\<rparr>"

definition ex_wide :: "mem_world DBFInfo" where
  "ex_wide =
     \<lparr>fp = 0, nRecords = 0, nRecordLength = 256, nHeaderLength = 65, nFields = 1,
      panFieldOffset = [1], panFieldSize = [255], panFieldDecimals = [0],
      pachFieldType = ''N'', pszHeader = replicate 33 NUL, nCurrentRecord = -1,
      bCurrentRecordModified = False, pszCurrentRecord = replicate 256 NUL,
      nWorkFieldLength = 0, pszWorkField = [], bNoHeader = False, bUpdated = False,
      iLanguageDriver = 0, pszCodePage = None, nUpdateYearSince1900 = 95,
      nUpdateMonth = 7, nUpdateDay = 26, bWriteEndOfFileChar = True,
      bRequireNextWriteSeek = True, world = ex_wide_world, trace = []\<rparr>"

text \<open>
  A table of one record over the fields \<open>C(3)\<close> and \<open>L(0)\<close>: a descriptor of width 0
  is what \<^verbatim>\<open>DBFOpenLL\<close> takes over from a file that holds one.
\<close>

definition ex_flag_world :: mem_world where
  "ex_flag_world = \<lparr>files = [(''f.dbf'', replicate 97 NUL @ '' abc'')], streams = [(''f.dbf'', 0)]\<rparr>"

definition ex_flag :: "mem_world DBFInfo" where
  "ex_flag =
     \<lparr>fp = 0, nRecords = 1, nRecordLength = 4, nHeaderLength = 97, nFields = 2,
      panFieldOffset = [1, 4], panFieldSize = [3, 0], panFieldDecimals = [0, 0],
      pachFieldType = ''CL'', pszHeader = replicate 65 NUL, nCurrentRecord = -1,
      bCurrentRecordModified = False, pszCurrentRecord = replicate 4 NUL,
      nWorkFieldLength = 0, pszWorkField = [], bNoHeader = False, bUpdated = False,
      iLanguageDriver = 0, pszCodePage = None, nUpdateYearSince1900 = 95,
      nUpdateMonth = 7, nUpdateDay = 26, bWriteEndOfFileChar = True,
      bRequireNextWriteSeek = True, world = ex_flag_world, trace = []\<rparr>"

text \<open>
  The handle \<^verbatim>\<open>DBFCreate\<close> returns: no field, no record, the header not yet written, the
  code page \<^verbatim>\<open>LDID/87\<close>.
\<close>

definition ex_new_world :: mem_world where
  "ex_new_world = \<lparr>files = [(''n.dbf'', [])], streams = [(''n.dbf'', 0)]\<rparr>"

definition ex_new :: "mem_world DBFInfo" where
  "ex_new =
     \<lparr>fp = 0, nRecords = 0, nRecordLength = 1, nHeaderLength = 33, nFields = 0,
      panFieldOffset = [], panFieldSize = [], panFieldDecimals = [], pachFieldType = [],
      pszHeader = [], nCurrentRecord = -1, bCurrentRecordModified = False,
      pszCurrentRecord = [], nWorkFieldLength = 0, pszWorkField = [], bNoHeader = True,
      bUpdated = False, iLanguageDriver = 87, pszCodePage = Some ''LDID/87'',
      nUpdateYearSince1900 = 95, nUpdateMonth = 7, nUpdateDay = 26,
      bWriteEndOfFileChar = True, bRequireNextWriteSeek = True, world = ex_new_world,
      trace = []\<rparr>"

text \<open>
  The example table over a file that ends in the middle of its second record, and the
  example table with the greatest record count a header can give.
\<close>

definition ex_short_world :: mem_world where
  "ex_short_world =
     \<lparr>files = [(''t.dbf'', replicate 161 NUL @ ''    12abcT20240307'' @ ''*9999'')],
      streams = [(''t.dbf'', 0)]\<rparr>"

definition ex_short :: "mem_world DBFInfo" where
  "ex_short = ex_table\<lparr>world := ex_short_world\<rparr>"

definition ex_full :: "mem_world DBFInfo" where
  "ex_full = ex_table\<lparr>nRecords := 2147483647\<rparr>"

section \<open>What the hook calls leave alone\<close>

lemma schema_fields:
  assumes "schema_of a = schema_of b"
  shows "fp a = fp b" "nRecordLength a = nRecordLength b" "nHeaderLength a = nHeaderLength b"
    "nFields a = nFields b" "panFieldOffset a = panFieldOffset b"
    "panFieldSize a = panFieldSize b" "panFieldDecimals a = panFieldDecimals b"
    "pachFieldType a = pachFieldType b" "pszHeader a = pszHeader b"
    "bWriteEndOfFileChar a = bWriteEndOfFileChar b"
    "iLanguageDriver a = iLanguageDriver b" "pszCodePage a = pszCodePage b"
    "nUpdateYearSince1900 a = nUpdateYearSince1900 b" "nUpdateMonth a = nUpdateMonth b"
    "nUpdateDay a = nUpdateDay b"
  using assms by (simp_all add: schema_of_def)

lemma cache_fields:
  assumes "cache_of a = cache_of b"
  shows "nRecords a = nRecords b" "nCurrentRecord a = nCurrentRecord b"
    "pszCurrentRecord a = pszCurrentRecord b" "bNoHeader a = bNoHeader b"
    "bUpdated a = bUpdated b" "nWorkFieldLength a = nWorkFieldLength b"
    "pszWorkField a = pszWorkField b"
  using assms by (simp_all add: cache_of_def)

lemma schema_of_upd [simp]:
  "schema_of (h\<lparr>world := w\<rparr>) = schema_of h"
  "schema_of (h\<lparr>trace := t\<rparr>) = schema_of h"
  "schema_of (h\<lparr>bCurrentRecordModified := m\<rparr>) = schema_of h"
  "schema_of (h\<lparr>bRequireNextWriteSeek := s\<rparr>) = schema_of h"
  "schema_of (h\<lparr>nRecords := n\<rparr>) = schema_of h"
  "schema_of (h\<lparr>nCurrentRecord := c\<rparr>) = schema_of h"
  "schema_of (h\<lparr>pszCurrentRecord := r\<rparr>) = schema_of h"
  "schema_of (h\<lparr>bNoHeader := b\<rparr>) = schema_of h"
  "schema_of (h\<lparr>bUpdated := u\<rparr>) = schema_of h"
  "schema_of (h\<lparr>nWorkFieldLength := l\<rparr>) = schema_of h"
  "schema_of (h\<lparr>pszWorkField := f\<rparr>) = schema_of h"
  by (simp_all add: schema_of_def)

lemma cache_of_upd [simp]:
  "cache_of (h\<lparr>world := w\<rparr>) = cache_of h"
  "cache_of (h\<lparr>trace := t\<rparr>) = cache_of h"
  "cache_of (h\<lparr>bCurrentRecordModified := m\<rparr>) = cache_of h"
  "cache_of (h\<lparr>bRequireNextWriteSeek := s\<rparr>) = cache_of h"
  by (simp_all add: cache_of_def)

lemmas hk_defs = hk_seek_def hk_tell_def hk_read_def hk_write_def hk_flush_def hk_error_def

lemma hk_schema [simp]:
  "schema_of (snd (hk_seek hk h off)) = schema_of h"
  "schema_of (snd (hk_tell hk h)) = schema_of h"
  "schema_of (snd (hk_read hk h sz n)) = schema_of h"
  "schema_of (snd (hk_write hk h dat sz n)) = schema_of h"
  "schema_of (hk_flush hk h) = schema_of h"
  "schema_of (hk_error hk h msg) = schema_of h"
  by (simp_all add: hk_defs)

lemma hk_cache [simp]:
  "cache_of (snd (hk_seek hk h off)) = cache_of h"
  "cache_of (snd (hk_tell hk h)) = cache_of h"
  "cache_of (snd (hk_read hk h sz n)) = cache_of h"
  "cache_of (snd (hk_write hk h dat sz n)) = cache_of h"
  "cache_of (hk_flush hk h) = cache_of h"
  "cache_of (hk_error hk h msg) = cache_of h"
  by (simp_all add: hk_defs)

lemma hk_flags [simp]:
  "bCurrentRecordModified (snd (hk_seek hk h off)) = bCurrentRecordModified h"
  "bCurrentRecordModified (snd (hk_tell hk h)) = bCurrentRecordModified h"
  "bCurrentRecordModified (snd (hk_read hk h sz n)) = bCurrentRecordModified h"
  "bCurrentRecordModified (snd (hk_write hk h dat sz n)) = bCurrentRecordModified h"
  "bCurrentRecordModified (hk_flush hk h) = bCurrentRecordModified h"
  "bCurrentRecordModified (hk_error hk h msg) = bCurrentRecordModified h"
  "bRequireNextWriteSeek (snd (hk_seek hk h off)) = bRequireNextWriteSeek h"
  "bRequireNextWriteSeek (snd (hk_tell hk h)) = bRequireNextWriteSeek h"
  "bRequireNextWriteSeek (snd (hk_read hk h sz n)) = bRequireNextWriteSeek h"
  "bRequireNextWriteSeek (snd (hk_write hk h dat sz n)) = bRequireNextWriteSeek h"
  "bRequireNextWriteSeek (hk_flush hk h) = bRequireNextWriteSeek h"
  "bRequireNextWriteSeek (hk_error hk h msg) = bRequireNextWriteSeek h"
  by (simp_all add: hk_defs)

lemma hk_trace [simp]:
  "trace (snd (hk_seek hk h off)) = trace h @ [EvSeek (fp h) off]"
  "trace (snd (hk_tell hk h)) = trace h @ [EvTell (fp h)]"
  "trace (snd (hk_read hk h sz n)) =
     trace h @ [EvRead (fp h) sz n (fst (fst (hk_read hk h sz n)))]"
  "trace (snd (hk_write hk h dat sz n)) = trace h @ [EvWrite (fp h) dat]"
  "trace (hk_flush hk h) = trace h @ [EvFlush (fp h)]"
  "trace (hk_error hk h msg) = trace h @ [EvError msg]"
  by (simp_all add: hk_defs)

lemmas hk_seek_fields [simp] = schema_fields[OF hk_schema(1)] cache_fields[OF hk_cache(1)]
lemmas hk_tell_fields [simp] = schema_fields[OF hk_schema(2)] cache_fields[OF hk_cache(2)]
lemmas hk_read_fields [simp] = schema_fields[OF hk_schema(3)] cache_fields[OF hk_cache(3)]
lemmas hk_write_fields [simp] = schema_fields[OF hk_schema(4)] cache_fields[OF hk_cache(4)]
lemmas hk_flush_fields [simp] = schema_fields[OF hk_schema(5)] cache_fields[OF hk_cache(5)]
lemmas hk_error_fields [simp] = schema_fields[OF hk_schema(6)] cache_fields[OF hk_cache(6)]

lemma write_header_schema [simp]: "schema_of (DBFWriteHeader hk h) = schema_of h"
  by (simp add: DBFWriteHeader_def Let_def)

lemma write_header_other [simp]:
  "nRecords (DBFWriteHeader hk h) = nRecords h"
  "nCurrentRecord (DBFWriteHeader hk h) = nCurrentRecord h"
  "pszCurrentRecord (DBFWriteHeader hk h) = pszCurrentRecord h"
  "bUpdated (DBFWriteHeader hk h) = bUpdated h"
  "nWorkFieldLength (DBFWriteHeader hk h) = nWorkFieldLength h"
  "pszWorkField (DBFWriteHeader hk h) = pszWorkField h"
  "bCurrentRecordModified (DBFWriteHeader hk h) = bCurrentRecordModified h"
  "bRequireNextWriteSeek (DBFWriteHeader hk h) = bRequireNextWriteSeek h"
  "bNoHeader (DBFWriteHeader hk h) = False"
  by (simp_all add: DBFWriteHeader_def Let_def)

lemmas write_header_fields [simp] = schema_fields[OF write_header_schema]

lemma write_header_noop [simp]: "\<not> bNoHeader h \<Longrightarrow> DBFWriteHeader hk h = h"
  by (simp add: DBFWriteHeader_def)

lemma flush_write_schema [simp]: "schema_of (snd (flush_write hk h)) = schema_of h"
  and flush_write_cache [simp]: "cache_of (snd (flush_write hk h)) = cache_of h"
  and flush_write_modified [simp]:
    "bCurrentRecordModified (snd (flush_write hk h)) = bCurrentRecordModified h"
  by (simp_all add: flush_write_def Let_def)

lemma flush_position_schema [simp]: "schema_of (snd (flush_position hk h)) = schema_of h"
  and flush_position_cache [simp]: "cache_of (snd (flush_position hk h)) = cache_of h"
  and flush_position_flags [simp]:
    "bCurrentRecordModified (snd (flush_position hk h)) = bCurrentRecordModified h"
    "bRequireNextWriteSeek (snd (flush_position hk h)) = bRequireNextWriteSeek h"
  by (simp_all add: flush_position_def)

lemmas flush_write_fields [simp] =
  schema_fields[OF flush_write_schema] cache_fields[OF flush_write_cache]
lemmas flush_position_fields [simp] =
  schema_fields[OF flush_position_schema] cache_fields[OF flush_position_cache]

lemma flush_schema [simp]: "schema_of (snd (DBFFlushRecord hk h)) = schema_of h"
  and flush_cache [simp]: "cache_of (snd (DBFFlushRecord hk h)) = cache_of h"
  by (simp_all add: DBFFlushRecord_def Let_def)

lemmas flush_fields [simp] = schema_fields[OF flush_schema] cache_fields[OF flush_cache]

lemma flush_noop [simp]:
  "\<not> bCurrentRecordModified h \<Longrightarrow> DBFFlushRecord hk h = (True, h)"
  by (simp add: DBFFlushRecord_def)

lemma flush_clean [simp]:
  "fst (DBFFlushRecord hk h) \<Longrightarrow> nCurrentRecord h > -1 \<Longrightarrow>
     bCurrentRecordModified (snd (DBFFlushRecord hk h)) = False"
  by (simp add: DBFFlushRecord_def Let_def split: if_splits)

lemma load_schema [simp]: "schema_of (snd (DBFLoadRecord hk h i)) = schema_of h"
  by (simp add: DBFLoadRecord_def Let_def)

lemma load_other [simp]:
  "nRecords (snd (DBFLoadRecord hk h i)) = nRecords h"
  "bNoHeader (snd (DBFLoadRecord hk h i)) = bNoHeader h"
  "bUpdated (snd (DBFLoadRecord hk h i)) = bUpdated h"
  "nWorkFieldLength (snd (DBFLoadRecord hk h i)) = nWorkFieldLength h"
  "pszWorkField (snd (DBFLoadRecord hk h i)) = pszWorkField h"
  by (simp_all add: DBFLoadRecord_def Let_def)

lemmas load_fields [simp] = schema_fields[OF load_schema]

lemma load_same [simp]: "nCurrentRecord h = i \<Longrightarrow> DBFLoadRecord hk h i = (True, h)"
  by (simp add: DBFLoadRecord_def)

lemma load_current [simp]:
  "fst (DBFLoadRecord hk h i) \<Longrightarrow> nCurrentRecord (snd (DBFLoadRecord hk h i)) = i"
  by (simp add: DBFLoadRecord_def Let_def split: if_splits)

lemma load_sets_flag:
  "nCurrentRecord h \<noteq> i \<Longrightarrow> fst (DBFLoadRecord hk h i) \<Longrightarrow>
     bRequireNextWriteSeek (snd (DBFLoadRecord hk h i))"
  by (simp add: DBFLoadRecord_def Let_def split: if_splits)

lemma length_overlay [simp]: "length (overlay dat buf) = length buf"
  by (simp add: overlay_def min_def)

lemma length_memset_at [simp]:
  "off + n \<le> length buf \<Longrightarrow> length (memset_at buf off c n) = length buf"
  by (simp add: memset_at_def)

lemma length_memcpy_at [simp]:
  "off + length src \<le> length buf \<Longrightarrow> length (memcpy_at buf off src) = length buf"
  by (simp add: memcpy_at_def)

lemma load_length [simp]:
  "length (pszCurrentRecord (snd (DBFLoadRecord hk h i))) = length (pszCurrentRecord h)"
  by (simp add: DBFLoadRecord_def Let_def)

lemma update_header_schema [simp]: "schema_of (DBFUpdateHeader hk h) = schema_of h"
  by (simp add: DBFUpdateHeader_def Let_def)

lemma update_header_other [simp]:
  "nRecords (DBFUpdateHeader hk h) = nRecords h"
  "nCurrentRecord (DBFUpdateHeader hk h) = nCurrentRecord h"
  "pszCurrentRecord (DBFUpdateHeader hk h) = pszCurrentRecord h"
  "bUpdated (DBFUpdateHeader hk h) = bUpdated h"
  by (simp_all add: DBFUpdateHeader_def Let_def)

lemmas update_header_fields [simp] = schema_fields[OF update_header_schema]

section \<open>Reads outside the table\<close>

text \<open>
  Claim C9. \<^verbatim>\<open>DBFReadIntegerAttribute\<close> returns 0 and \<^verbatim>\<open>DBFReadDoubleAttribute\<close> returns
  0.0 when the record index is outside \<open>[0, nRecords)\<close> or the field index is outside
  \<open>[0, nFields)\<close>, and the handle is left as it is. A stored zero reads the same: in the
  example table the numeric field of record 1 holds \<open>0\<close>, and the read of it and the
  read of record 2, which does not exist, both return 0.
\<close>

theorem read_out_of_range_is_zero:
  "(iRecord < 0 \<or> nRecords h \<le> iRecord \<or> iField < 0 \<or> nFields h \<le> iField \<longrightarrow>
      DBFReadIntegerAttribute hk pf h iRecord iField = (0, h) \<and>
      DBFReadDoubleAttribute hk pf h iRecord iField = (dbl_of_int pf 0, h)) \<and>
   fst (DBFReadIntegerAttribute mem_hooks (whole_platform True) ex_table 1 0)
     = fst (DBFReadIntegerAttribute mem_hooks (whole_platform True) ex_table 2 0) \<and>
   fst (DBFReadDoubleAttribute mem_hooks (whole_platform True) ex_table 1 0)
     = fst (DBFReadDoubleAttribute mem_hooks (whole_platform True) ex_table 2 0)"
proof -
  have "iRecord < 0 \<or> nRecords h \<le> iRecord \<or> iField < 0 \<or> nFields h \<le> iField \<longrightarrow>
      DBFReadIntegerAttribute hk pf h iRecord iField = (0, h) \<and>
      DBFReadDoubleAttribute hk pf h iRecord iField = (dbl_of_int pf 0, h)"
    by (auto simp add: DBFReadIntegerAttribute_def DBFReadDoubleAttribute_def
          DBFReadAttribute_def)
  moreover have "fst (DBFReadIntegerAttribute mem_hooks (whole_platform True) ex_table 1 0)
     = fst (DBFReadIntegerAttribute mem_hooks (whole_platform True) ex_table 2 0)"
    by code_simp
  moreover have "fst (DBFReadDoubleAttribute mem_hooks (whole_platform True) ex_table 1 0)
     = fst (DBFReadDoubleAttribute mem_hooks (whole_platform True) ex_table 2 0)"
    by code_simp
  ultimately show ?thesis by blast
qed

theorem read_out_of_range_is_zero_witness:
  "((2::int) < 0 \<or> nRecords ex_table \<le> 2 \<or> (0::int) < 0 \<or> nFields ex_table \<le> 0) \<and>
   DBFReadIntegerAttribute mem_hooks (whole_platform True) ex_table 2 0 = (0, ex_table) \<and>
   DBFReadDoubleAttribute mem_hooks (whole_platform True) ex_table 2 0 = (0, ex_table) \<and>
   fst (DBFReadIntegerAttribute mem_hooks (whole_platform True) ex_table 1 0) = 0"
proof -
  have range: "(2::int) < 0 \<or> nRecords ex_table \<le> 2 \<or> (0::int) < 0 \<or> nFields ex_table \<le> 0"
    by (simp add: ex_table_def)
  have zero: "dbl_of_int (whole_platform True) 0 = 0"
    by (simp add: whole_platform_def)
  have stored: "fst (DBFReadIntegerAttribute mem_hooks (whole_platform True) ex_table 1 0) = 0"
    by code_simp
  show ?thesis
    using range zero stored
      read_out_of_range_is_zero [of 2 ex_table 0 mem_hooks "whole_platform True"]
    by simp
qed

lemma is_record_deleted_cases:
  "(iShape < 0 \<or> nRecords h \<le> iShape \<longrightarrow> DBFIsRecordDeleted hk h iShape = (True, h)) \<and>
   (0 \<le> iShape \<and> iShape < nRecords h \<and> fst (DBFLoadRecord hk h iShape) \<longrightarrow>
      fst (DBFIsRecordDeleted hk h iShape)
        = (pszCurrentRecord (snd (DBFLoadRecord hk h iShape)) ! 0 = CHR ''*'')) \<and>
   (0 \<le> iShape \<and> iShape < nRecords h \<and> \<not> fst (DBFLoadRecord hk h iShape) \<longrightarrow>
      \<not> fst (DBFIsRecordDeleted hk h iShape)) \<and>
   (0 \<le> iShape \<and> iShape < nRecords h \<and> nCurrentRecord h = iShape \<longrightarrow>
      DBFIsRecordDeleted hk h iShape = (pszCurrentRecord h ! 0 = CHR ''*'', h))"
  by (simp add: DBFIsRecordDeleted_def Let_def)

text \<open>
  Claim C10 on a table whose file ends inside record 1. Record 0 is live and is the
  cached record. The read of record 1 fails, but \<^verbatim>\<open>DBFLoadRecord\<close> has already read the
  five bytes that are there into the record buffer and leaves \<open>nCurrentRecord\<close> at 0. So
  \<^verbatim>\<open>DBFIsRecordDeleted\<close> for record 0 finds record 0 cached, looks at the first byte of
  the buffer, which now is the asterisk of record 1, and answers \<^verbatim>\<open>TRUE\<close>, while the
  first byte of record 0 in the file is still a blank.
\<close>

theorem deleted_answer_after_failed_read:
  "nRecords ex_short = 2 \<and>
   file_content (world ex_short) ''t.dbf'' ! (161 + 18 * 0) = CHR '' '' \<and>
   \<not> fst (DBFIsRecordDeleted mem_hooks ex_short 0) \<and>
   fst (DBFReadTuple mem_hooks (snd (DBFIsRecordDeleted mem_hooks ex_short 0)) 1) = None \<and>
   (let h = snd (DBFReadTuple mem_hooks (snd (DBFIsRecordDeleted mem_hooks ex_short 0)) 1)
    in nCurrentRecord h = 0 \<and> pszCurrentRecord h = ''*99992abcT20240307'' \<and>
       fst (DBFIsRecordDeleted mem_hooks h 0) \<and>
       file_content (world h) ''t.dbf'' ! (161 + 18 * 0) = CHR '' '')"
  by code_simp

section \<open>The seek before a write that follows a read\<close>

lemma pending_read_append:
  "pending_read p (xs @ ys) = pending_read (pending_read p xs) ys"
  by (induction p xs rule: pending_read.induct) simp_all

lemma seek_kept_append:
  "seek_kept p (xs @ ys) = (seek_kept p xs \<and> seek_kept (pending_read p xs) ys)"
  by (induction p xs rule: seek_kept.induct) simp_all

lemma settled_inv: "settled h \<Longrightarrow> seek_inv h"
  by (simp add: settled_def seek_inv_def)

lemma settled_hk [simp]:
  "seek_kept False (trace h) \<Longrightarrow> settled (snd (hk_seek hk h off))"
  "settled h \<Longrightarrow> settled (snd (hk_tell hk h))"
  "settled h \<Longrightarrow> settled (snd (hk_write hk h dat sz n))"
  "settled h \<Longrightarrow> settled (hk_flush hk h)"
  "settled h \<Longrightarrow> settled (hk_error hk h msg)"
  by (simp_all add: settled_def pending_read_append seek_kept_append)

lemma settled_upd [simp]:
  "settled (h\<lparr>bRequireNextWriteSeek := s\<rparr>) = settled h"
  "settled (h\<lparr>bCurrentRecordModified := m\<rparr>) = settled h"
  "settled (h\<lparr>bNoHeader := b\<rparr>) = settled h"
  "settled (h\<lparr>bUpdated := u\<rparr>) = settled h"
  "settled (h\<lparr>nRecords := n\<rparr>) = settled h"
  "settled (h\<lparr>nCurrentRecord := c\<rparr>) = settled h"
  "settled (h\<lparr>pszCurrentRecord := r\<rparr>) = settled h"
  "settled (h\<lparr>nWorkFieldLength := l\<rparr>) = settled h"
  "settled (h\<lparr>pszWorkField := f\<rparr>) = settled h"
  by (simp_all add: settled_def)

lemma seek_inv_upd [simp]:
  "seek_inv (h\<lparr>bCurrentRecordModified := m\<rparr>) = seek_inv h"
  "seek_inv (h\<lparr>bNoHeader := b\<rparr>) = seek_inv h"
  "seek_inv (h\<lparr>bUpdated := u\<rparr>) = seek_inv h"
  "seek_inv (h\<lparr>nRecords := n\<rparr>) = seek_inv h"
  "seek_inv (h\<lparr>nCurrentRecord := c\<rparr>) = seek_inv h"
  "seek_inv (h\<lparr>pszCurrentRecord := r\<rparr>) = seek_inv h"
  "seek_inv (h\<lparr>nWorkFieldLength := l\<rparr>) = seek_inv h"
  "seek_inv (h\<lparr>pszWorkField := f\<rparr>) = seek_inv h"
  by (simp_all add: seek_inv_def)

lemma seek_inv_tell [simp]: "seek_inv (snd (hk_tell hk h)) = seek_inv h"
  by (simp add: seek_inv_def pending_read_append seek_kept_append)

lemma seek_inv_error [simp]: "seek_inv (hk_error hk h msg) = seek_inv h"
  by (simp add: seek_inv_def pending_read_append seek_kept_append)

lemma flush_write_settled: "settled h \<Longrightarrow> settled (snd (flush_write hk h))"
  by (simp add: flush_write_def Let_def)

lemma flush_position_settled: "settled h \<Longrightarrow> settled (snd (flush_position hk h))"
  by (simp add: flush_position_def)

lemma flush_position_inv: "seek_inv (snd (flush_position hk h)) = seek_inv h"
  by (simp add: flush_position_def)

lemma flush_position_kept:
  "seek_kept False (trace h) \<Longrightarrow> seek_kept False (trace (snd (flush_position hk h)))"
  by (simp add: flush_position_def seek_kept_append)

lemma flush_position_skip:
  "seek_inv h \<Longrightarrow> \<not> fst (flush_position hk h) \<Longrightarrow> settled (snd (flush_position hk h))"
  by (auto simp add: flush_position_def seek_inv_def settled_def pending_read_append
        seek_kept_append split: if_splits)

lemma flush_dirty_settled:
  assumes "seek_inv h" "bCurrentRecordModified h" "nCurrentRecord h > -1"
  shows "settled (snd (DBFFlushRecord hk h))"
proof -
  let ?h0 = "h\<lparr>bCurrentRecordModified := False\<rparr>"
  have inv0: "seek_inv ?h0" using assms(1) by simp
  show ?thesis
  proof (cases "fst (flush_position hk ?h0)")
    case True
    have "seek_kept False (trace (snd (flush_position hk ?h0)))"
      using inv0 by (simp add: flush_position_kept seek_inv_def)
    then have "settled (snd (hk_seek hk (snd (flush_position hk ?h0)) (flush_offset ?h0)))"
      by simp
    then show ?thesis
      using assms(2,3) True by (simp add: DBFFlushRecord_def Let_def flush_write_settled)
  next
    case False
    then have "settled (snd (flush_position hk ?h0))"
      using inv0 by (rule flush_position_skip[rotated])
    then show ?thesis
      using assms(2,3) False by (simp add: DBFFlushRecord_def Let_def flush_write_settled)
  qed
qed

lemma flush_inv: "seek_inv h \<Longrightarrow> seek_inv (snd (DBFFlushRecord hk h))"
proof (cases "bCurrentRecordModified h \<and> nCurrentRecord h > -1")
  case True
  assume "seek_inv h"
  then show ?thesis using True by (simp add: flush_dirty_settled settled_inv)
next
  case False
  assume "seek_inv h"
  then show ?thesis using False by (auto simp add: DBFFlushRecord_def)
qed

lemma read_after_seek_inv:
  "seek_kept False (trace h) \<Longrightarrow>
   seek_inv ((snd (hk_read hk (snd (hk_seek hk h off)) sz n))\<lparr>bRequireNextWriteSeek := True\<rparr>)"
  by (simp add: seek_inv_def pending_read_append seek_kept_append)

lemma failed_read_settled:
  "seek_kept False (trace h) \<Longrightarrow> fst (fst (hk_read hk (snd (hk_seek hk h off)) sz n)) \<noteq> n \<Longrightarrow>
   settled (snd (hk_read hk (snd (hk_seek hk h off)) sz n))"
  by (simp add: settled_def pending_read_append seek_kept_append)

lemma load_inv: "seek_inv h \<Longrightarrow> seek_inv (snd (DBFLoadRecord hk h i))"
proof -
  assume inv: "seek_inv h"
  let ?f = "snd (DBFFlushRecord hk h)"
  have fl: "seek_inv ?f" using inv by (rule flush_inv)
  then have kept: "seek_kept False (trace ?f)"
    by (simp add: seek_inv_def)
  show ?thesis
  proof (cases "nCurrentRecord h = i")
    case True
    then show ?thesis using inv by simp
  next
    case False
    then show ?thesis
      using fl kept
      by (simp add: DBFLoadRecord_def Let_def seek_inv_def pending_read_append
            seek_kept_append)
  qed
qed

lemma write_header_inv: "seek_inv h \<Longrightarrow> seek_inv (DBFWriteHeader hk h)"
  by (simp add: DBFWriteHeader_def Let_def seek_inv_def pending_read_append seek_kept_append)

lemma update_header_inv: "seek_inv h \<Longrightarrow> seek_inv (DBFUpdateHeader hk h)"
proof -
  assume inv: "seek_inv h"
  let ?w = "if bNoHeader h then DBFWriteHeader hk h else h"
  have "seek_inv ?w" using inv by (simp add: write_header_inv)
  then have fl: "seek_inv (snd (DBFFlushRecord hk ?w))" by (rule flush_inv)
  then have kept: "seek_kept False (trace (snd (DBFFlushRecord hk ?w)))"
    by (simp add: seek_inv_def)
  show ?thesis
    using fl kept
    by (simp add: DBFUpdateHeader_def Let_def seek_inv_def pending_read_append
          seek_kept_append)
qed

lemma prepare_record_inv: "seek_inv h \<Longrightarrow> seek_inv (snd (prepare_record hk h hEntity))"
  by (simp add: prepare_record_def Let_def write_header_inv flush_inv load_inv)

lemma read_attribute_inv:
  "seek_inv h \<Longrightarrow> seek_inv (snd (DBFReadAttribute hk pf h r f ty))"
  by (simp add: DBFReadAttribute_def Let_def load_inv)

lemma store_value_inv:
  "seek_inv h \<Longrightarrow> store_value hk pf h f v = Some x \<Longrightarrow> seek_inv (snd x)"
  by (auto simp add: store_value_def store_numeric_def store_logical_def store_string_def
        Let_def split: if_splits pvalue.splits)

lemma write_attribute_inv:
  "seek_inv h \<Longrightarrow> seek_inv (after_write h (DBFWriteAttribute hk pf h r f v))"
proof -
  assume inv: "seek_inv h"
  then have pr: "seek_inv (snd (prepare_record hk h r))" by (rule prepare_record_inv)
  then have pr2: "seek_inv ((snd (prepare_record hk h r))
                    \<lparr>bCurrentRecordModified := True, bUpdated := True\<rparr>)"
    by simp
  show ?thesis
    using inv pr store_value_inv[OF pr2, of hk pf f v]
    by (auto simp add: after_write_def DBFWriteAttribute_def Let_def split: option.splits)
qed

lemma write_directly_inv:
  "seek_inv h \<Longrightarrow> seek_inv (after_write h (DBFWriteAttributeDirectly hk h r f s))"
proof -
  assume inv: "seek_inv h"
  then have pr: "seek_inv (snd (prepare_record hk h r))" by (rule prepare_record_inv)
  show ?thesis
    using inv pr
    by (auto simp add: after_write_def DBFWriteAttributeDirectly_def Let_def seek_inv_def
          split: option.splits if_splits)
qed

lemma write_tuple_inv:
  "seek_inv h \<Longrightarrow> seek_inv (after_write h (DBFWriteTuple hk h r t))"
proof -
  assume inv: "seek_inv h"
  then have pr: "seek_inv (snd (prepare_record hk h r))" by (rule prepare_record_inv)
  show ?thesis
    using inv pr
    by (auto simp add: after_write_def DBFWriteTuple_def Let_def seek_inv_def
          split: option.splits if_splits)
qed

lemma is_deleted_inv: "seek_inv h \<Longrightarrow> seek_inv (snd (DBFIsRecordDeleted hk h r))"
  by (simp add: DBFIsRecordDeleted_def Let_def load_inv)

lemma is_null_inv: "seek_inv h \<Longrightarrow> seek_inv (snd (DBFIsAttributeNULL hk pf h r f))"
  by (simp add: DBFIsAttributeNULL_def DBFReadStringAttribute_def Let_def read_attribute_inv
        split: option.splits)

lemma flush_write_events:
  "\<exists>es. trace (snd (flush_write hk h)) = trace h @ es \<and> (\<forall>f off. EvSeek f off \<notin> set es)"
  by (simp add: flush_write_def Let_def)

lemma flush_seek_iff:
  assumes "bCurrentRecordModified h" "nCurrentRecord h > -1"
  shows "(EvSeek (fp h) (flush_offset h) \<in> set (new_events h (snd (DBFFlushRecord hk h))))
           = (bRequireNextWriteSeek h \<or> FTell hk (world h) (fp h) \<noteq> flush_offset h)"
proof -
  let ?h0 = "h\<lparr>bCurrentRecordModified := False\<rparr>"
  let ?off = "flush_offset h"
  have off0: "flush_offset ?h0 = ?off" by (simp add: flush_offset_def)
  show ?thesis
  proof (cases "bRequireNextWriteSeek h \<or> FTell hk (world h) (fp h) \<noteq> ?off")
    case True
    let ?p = "snd (flush_position hk ?h0)"
    have pos: "fst (flush_position hk ?h0)"
      using True off0 by (auto simp add: flush_position_def hk_tell_def)
    have "\<exists>ts. trace ?p = trace h @ ts"
      by (cases "bRequireNextWriteSeek h") (simp_all add: flush_position_def)
    then obtain ts where ts: "trace ?p = trace h @ ts" ..
    obtain es where es: "trace (snd (flush_write hk (snd (hk_seek hk ?p ?off))))
                          = trace (snd (hk_seek hk ?p ?off)) @ es"
      using flush_write_events by blast
    have "EvSeek (fp h) ?off \<in> set (new_events h (snd (DBFFlushRecord hk h)))"
      using assms pos ts es off0
      by (simp add: DBFFlushRecord_def Let_def new_events_def)
    then show ?thesis using True by simp
  next
    case False
    let ?p = "snd (flush_position hk ?h0)"
    have pos: "\<not> fst (flush_position hk ?h0)"
      using False off0 by (auto simp add: flush_position_def hk_tell_def)
    have ts: "trace ?p = trace h @ [EvTell (fp h)]"
      using False by (simp add: flush_position_def)
    obtain es where es: "trace (snd (flush_write hk ?p)) = trace ?p @ es"
        and none: "\<forall>f off. EvSeek f off \<notin> set es"
      using flush_write_events by blast
    have "EvSeek (fp h) ?off \<notin> set (new_events h (snd (DBFFlushRecord hk h)))"
      using assms pos ts es none
      by (simp add: DBFFlushRecord_def Let_def new_events_def)
    then show ?thesis using False by simp
  qed
qed

section \<open>The seek discipline over every operation\<close>

lemma load_raw_schema [simp]: "schema_of (snd (snd (load_raw hk h off len buf))) = schema_of h"
  and load_raw_cache [simp]: "cache_of (snd (snd (load_raw hk h off len buf))) = cache_of h"
  and load_raw_flags [simp]:
    "bRequireNextWriteSeek (snd (snd (load_raw hk h off len buf))) = bRequireNextWriteSeek h"
    "bCurrentRecordModified (snd (snd (load_raw hk h off len buf))) = bCurrentRecordModified h"
  by (simp_all add: load_raw_def Let_def)

lemma store_raw_schema [simp]: "schema_of (store_raw hk h off dat) = schema_of h"
  and store_raw_cache [simp]: "cache_of (store_raw hk h off dat) = cache_of h"
  and store_raw_flags [simp]:
    "bRequireNextWriteSeek (store_raw hk h off dat) = bRequireNextWriteSeek h"
    "bCurrentRecordModified (store_raw hk h off dat) = bCurrentRecordModified h"
  by (simp_all add: store_raw_def)

lemma write_eof_schema [simp]: "schema_of (write_eof hk h) = schema_of h"
  and write_eof_cache [simp]: "cache_of (write_eof hk h) = cache_of h"
  and write_eof_flags [simp]:
    "bRequireNextWriteSeek (write_eof hk h) = bRequireNextWriteSeek h"
    "bCurrentRecordModified (write_eof hk h) = bCurrentRecordModified h"
  by (simp_all add: write_eof_def)

lemmas load_raw_fields [simp] =
  schema_fields[OF load_raw_schema] cache_fields[OF load_raw_cache]
lemmas store_raw_fields [simp] =
  schema_fields[OF store_raw_schema] cache_fields[OF store_raw_cache]
lemmas write_eof_fields [simp] =
  schema_fields[OF write_eof_schema] cache_fields[OF write_eof_cache]

lemma seek_inv_cong:
  "trace a = trace b \<Longrightarrow> bRequireNextWriteSeek a = bRequireNextWriteSeek b \<Longrightarrow>
     seek_inv a = seek_inv b"
  by (simp add: seek_inv_def)

lemma settled_cong: "trace a = trace b \<Longrightarrow> settled a = settled b"
  by (simp add: settled_def)

lemma settled_kept: "settled h \<Longrightarrow> seek_kept False (trace h)"
  by (simp add: settled_def)

lemma seek_inv_kept: "seek_inv h \<Longrightarrow> seek_kept False (trace h)"
  by (simp add: seek_inv_def)

lemma store_raw_settled:
  "seek_kept False (trace h) \<Longrightarrow> settled (store_raw hk h off dat)"
  by (simp add: store_raw_def)

lemma load_raw_kept:
  "seek_kept False (trace h) \<Longrightarrow> seek_kept False (trace (snd (snd (load_raw hk h off len buf))))"
  by (simp add: load_raw_def Let_def hk_defs seek_kept_append)

lemma load_raw_failed:
  "seek_kept False (trace h) \<Longrightarrow> \<not> fst (load_raw hk h off len buf) \<Longrightarrow>
     settled (snd (snd (load_raw hk h off len buf)))"
  using failed_read_settled[of h hk off "nat len" 1] by (simp add: load_raw_def Let_def)

lemma write_eof_settled: "settled h \<Longrightarrow> settled (write_eof hk h)"
  by (simp add: write_eof_def store_raw_settled settled_kept)

lemma write_eof_inv: "seek_inv h \<Longrightarrow> seek_inv (write_eof hk h)"
  by (simp add: write_eof_def store_raw_settled seek_inv_kept settled_inv)


lemma add_shift_trace:
  "seek_kept False (trace h) \<Longrightarrow>
     settled (snd (add_shift hk h orl ohl fill w rec k)) \<or>
     snd (add_shift hk h orl ohl fill w rec k) = h"
proof (induction k arbitrary: h rec)
  case 0
  show ?case by simp
next
  case (Suc k)
  let ?ld = "load_raw hk h (orl * int k + ohl) orl rec"
  let ?h1 = "snd (snd ?ld)"
  let ?rec = "memset_at (fst (snd ?ld)) (nat orl) fill (nat w)"
  let ?h2 = "store_raw hk ?h1 (nRecordLength ?h1 * int k + nHeaderLength ?h1)
               (take (nat (nRecordLength ?h1)) ?rec)"
  show ?case
  proof (cases "fst ?ld")
    case False
    then show ?thesis using load_raw_failed[OF Suc.prems False] by (simp add: Let_def)
  next
    case True
    have s2: "settled ?h2" using load_raw_kept[OF Suc.prems] by (rule store_raw_settled)
    have "settled (snd (add_shift hk ?h2 orl ohl fill w ?rec k)) \<or>
          snd (add_shift hk ?h2 orl ohl fill w ?rec k) = ?h2"
      using settled_kept[OF s2] by (rule Suc.IH)
    then have "settled (snd (add_shift hk ?h2 orl ohl fill w ?rec k))" using s2 by auto
    then show ?thesis using True by (simp add: Let_def)
  qed
qed

lemma add_shift_inv: "seek_inv h \<Longrightarrow> seek_inv (snd (add_shift hk h orl ohl fill w rec k))"
  using add_shift_trace[OF seek_inv_kept, of h hk orl ohl fill w rec k] settled_inv by auto

lemma del_shift_trace:
  "seek_kept False (trace h) \<Longrightarrow>
     settled (snd (del_shift hk h orl ohl doff dsz rec i k)) \<or>
     snd (del_shift hk h orl ohl doff dsz rec i k) = h"
proof (induction k arbitrary: h rec i)
  case 0
  show ?case by simp
next
  case (Suc k)
  let ?ld = "load_raw hk h (orl * i + ohl) orl rec"
  let ?h1 = "snd (snd ?ld)"
  let ?rec = "fst (snd ?ld)"
  let ?h2 = "snd (hk_seek hk ?h1 (nRecordLength ?h1 * i + nHeaderLength ?h1))"
  let ?h3 = "snd (hk_write hk ?h2 (take (nat doff) ?rec) (nat doff) 1)"
  let ?h4 = "snd (hk_write hk ?h3
                   (take (nat (orl - doff - dsz)) (drop (nat (doff + dsz)) ?rec))
                   (nat (orl - doff - dsz)) 1)"
  show ?case
  proof (cases "fst ?ld")
    case False
    then show ?thesis using load_raw_failed[OF Suc.prems False] by (simp add: Let_def)
  next
    case True
    have "seek_kept False (trace ?h1)" using Suc.prems by (rule load_raw_kept)
    then have "settled ?h2" by (rule settled_hk(1))
    then have "settled ?h3" by (rule settled_hk(3))
    then have s4: "settled ?h4" by (rule settled_hk(3))
    have "settled (snd (del_shift hk ?h4 orl ohl doff dsz ?rec (i + 1) k)) \<or>
          snd (del_shift hk ?h4 orl ohl doff dsz ?rec (i + 1) k) = ?h4"
      using settled_kept[OF s4] by (rule Suc.IH)
    then have "settled (snd (del_shift hk ?h4 orl ohl doff dsz ?rec (i + 1) k))" using s4 by auto
    then show ?thesis using True by (simp add: Let_def)
  qed
qed

lemma del_shift_inv: "seek_inv h \<Longrightarrow> seek_inv (snd (del_shift hk h orl ohl doff dsz rec i k))"
  using del_shift_trace[OF seek_inv_kept, of h hk orl ohl doff dsz rec i k] settled_inv by auto

lemma reorder_records_trace:
  "seek_kept False (trace h) \<Longrightarrow>
     settled (snd (reorder_records hk h pm offs rec new i k)) \<or>
     snd (reorder_records hk h pm offs rec new i k) = h"
proof (induction k arbitrary: h rec new i)
  case 0
  show ?case by simp
next
  case (Suc k)
  let ?off = "nRecordLength h * i + nHeaderLength h"
  let ?ld = "load_raw hk h ?off (nRecordLength h) rec"
  let ?new = "reorder_record h pm offs (fst (snd ?ld)) new"
  let ?h1 = "store_raw hk (snd (snd ?ld)) ?off (take (nat (nRecordLength h)) ?new)"
  show ?case
  proof (cases "fst ?ld")
    case False
    then show ?thesis using load_raw_failed[OF Suc.prems False] by (simp add: Let_def)
  next
    case True
    have s1: "settled ?h1" using load_raw_kept[OF Suc.prems] by (rule store_raw_settled)
    have "settled (snd (reorder_records hk ?h1 pm offs (fst (snd ?ld)) ?new (i + 1) k)) \<or>
          snd (reorder_records hk ?h1 pm offs (fst (snd ?ld)) ?new (i + 1) k) = ?h1"
      using settled_kept[OF s1] by (rule Suc.IH)
    then have "settled (snd (reorder_records hk ?h1 pm offs (fst (snd ?ld)) ?new (i + 1) k))"
      using s1 by auto
    then show ?thesis using True by (simp add: Let_def)
  qed
qed

lemma reorder_records_inv:
  "seek_inv h \<Longrightarrow> seek_inv (snd (reorder_records hk h pm offs rec new i k))"
  using reorder_records_trace[OF seek_inv_kept, of h hk pm offs rec new i k] settled_inv by auto

lemma alter_up_trace:
  "seek_kept False (trace h) \<Longrightarrow>
     settled (snd (alter_up hk h rw orl rec i k)) \<or> snd (alter_up hk h rw orl rec i k) = h"
proof (induction k arbitrary: h rec i)
  case 0
  show ?case by simp
next
  case (Suc k)
  let ?ld = "load_raw hk h (orl * i + nHeaderLength h) orl rec"
  let ?rec = "rw (fst (snd ?ld))"
  let ?h1 = "store_raw hk (snd (snd ?ld)) (nRecordLength h * i + nHeaderLength h)
               (take (nat (nRecordLength h)) ?rec)"
  show ?case
  proof (cases "fst ?ld")
    case False
    then show ?thesis using load_raw_failed[OF Suc.prems False] by (simp add: Let_def)
  next
    case True
    have s1: "settled ?h1" using load_raw_kept[OF Suc.prems] by (rule store_raw_settled)
    have "settled (snd (alter_up hk ?h1 rw orl ?rec (i + 1) k)) \<or>
          snd (alter_up hk ?h1 rw orl ?rec (i + 1) k) = ?h1"
      using settled_kept[OF s1] by (rule Suc.IH)
    then have "settled (snd (alter_up hk ?h1 rw orl ?rec (i + 1) k))" using s1 by auto
    then show ?thesis using True by (simp add: Let_def)
  qed
qed

lemma alter_up_inv: "seek_inv h \<Longrightarrow> seek_inv (snd (alter_up hk h rw orl rec i k))"
  using alter_up_trace[OF seek_inv_kept, of h hk rw orl rec i k] settled_inv by auto

lemma alter_down_trace:
  "seek_kept False (trace h) \<Longrightarrow>
     settled (snd (alter_down hk h rw orl rec k)) \<or> snd (alter_down hk h rw orl rec k) = h"
proof (induction k arbitrary: h rec)
  case 0
  show ?case by simp
next
  case (Suc k)
  let ?ld = "load_raw hk h (orl * int k + nHeaderLength h) orl rec"
  let ?rec = "rw (fst (snd ?ld))"
  let ?h1 = "store_raw hk (snd (snd ?ld)) (nRecordLength h * int k + nHeaderLength h)
               (take (nat (nRecordLength h)) ?rec)"
  show ?case
  proof (cases "fst ?ld")
    case False
    then show ?thesis using load_raw_failed[OF Suc.prems False] by (simp add: Let_def)
  next
    case True
    have s1: "settled ?h1" using load_raw_kept[OF Suc.prems] by (rule store_raw_settled)
    have "settled (snd (alter_down hk ?h1 rw orl ?rec k)) \<or>
          snd (alter_down hk ?h1 rw orl ?rec k) = ?h1"
      using settled_kept[OF s1] by (rule Suc.IH)
    then have "settled (snd (alter_down hk ?h1 rw orl ?rec k))" using s1 by auto
    then show ?thesis using True by (simp add: Let_def)
  qed
qed

lemma alter_down_inv: "seek_inv h \<Longrightarrow> seek_inv (snd (alter_down hk h rw orl rec k))"
  using alter_down_trace[OF seek_inv_kept, of h hk rw orl rec k] settled_inv by auto


lemma seek_inv_schema_upd [simp]:
  "seek_inv (h\<lparr>nFields := a\<rparr>) = seek_inv h"
  "seek_inv (h\<lparr>nRecordLength := b\<rparr>) = seek_inv h"
  "seek_inv (h\<lparr>nHeaderLength := c\<rparr>) = seek_inv h"
  "seek_inv (h\<lparr>panFieldOffset := d\<rparr>) = seek_inv h"
  "seek_inv (h\<lparr>panFieldSize := e\<rparr>) = seek_inv h"
  "seek_inv (h\<lparr>panFieldDecimals := f\<rparr>) = seek_inv h"
  "seek_inv (h\<lparr>pachFieldType := g\<rparr>) = seek_inv h"
  "seek_inv (h\<lparr>pszHeader := i\<rparr>) = seek_inv h"
  "seek_inv (h\<lparr>bWriteEndOfFileChar := j\<rparr>) = seek_inv h"
  "seek_inv (h\<lparr>nUpdateYearSince1900 := k\<rparr>) = seek_inv h"
  "seek_inv (h\<lparr>nUpdateMonth := l\<rparr>) = seek_inv h"
  "seek_inv (h\<lparr>nUpdateDay := m\<rparr>) = seek_inv h"
  by (simp_all add: seek_inv_def)

lemma add_field_inv:
  assumes "seek_inv h"
  shows "seek_inv (snd (DBFAddNativeFieldType hk h name ty w d))"
proof -
  have fl: "seek_inv (snd (DBFFlushRecord hk h))" using assms by (rule flush_inv)
  show ?thesis
    using fl
    by (simp add: DBFAddNativeFieldType_def Let_def add_shift_inv write_eof_inv
          update_header_inv)
qed

lemma delete_field_inv:
  assumes "seek_inv h"
  shows "seek_inv (snd (DBFDeleteField hk h f))"
proof -
  have fl: "seek_inv (snd (DBFFlushRecord hk h))" using assms by (rule flush_inv)
  show ?thesis
    using fl assms
    by (simp add: DBFDeleteField_def Let_def del_shift_inv write_eof_inv update_header_inv)
qed

lemma reorder_fields_inv:
  assumes "seek_inv h"
  shows "seek_inv (snd (DBFReorderFields hk h pm))"
proof -
  have fl: "seek_inv (snd (DBFFlushRecord hk h))" using assms by (rule flush_inv)
  show ?thesis
    using fl assms
    by (simp add: DBFReorderFields_def Let_def reorder_records_inv update_header_inv)
qed

lemma alter_field_inv:
  assumes "seek_inv h"
  shows "seek_inv (snd (DBFAlterFieldDefn hk h f name ty w d))"
proof -
  have fl: "seek_inv (snd (DBFFlushRecord hk h))" using assms by (rule flush_inv)
  show ?thesis
    using fl assms
    by (simp add: DBFAlterFieldDefn_def Let_def alter_up_inv alter_down_inv write_eof_inv
          update_header_inv)
qed

lemma read_tuple_inv: "seek_inv h \<Longrightarrow> seek_inv (snd (DBFReadTuple hk h r))"
  by (simp add: DBFReadTuple_def Let_def load_inv)

lemma mark_deleted_inv: "seek_inv h \<Longrightarrow> seek_inv (snd (DBFMarkRecordDeleted hk h r b))"
  by (simp add: DBFMarkRecordDeleted_def Let_def load_inv)

lemma write_date_inv:
  assumes inv: "seek_inv h"
  shows "seek_inv (after_write h (DBFWriteDateAttribute hk h r f d))"
proof (cases "DBFWriteDateAttribute hk h r f d = Some (False, h)")
  case True
  then show ?thesis using inv by (simp add: after_write_def)
next
  case False
  then obtain s where "DBFWriteDateAttribute hk h r f d = DBFWriteAttributeDirectly hk h r f s"
    by (auto simp add: DBFWriteDateAttribute_def split: option.splits if_splits)
  then show ?thesis using write_directly_inv[OF inv, of hk r f s] by simp
qed

lemma apply_op_inv: "seek_inv h \<Longrightarrow> seek_inv (apply_op hk pf h op)"
  by (cases op)
     (simp_all add: DBFReadIntegerAttribute_def DBFReadDoubleAttribute_def
        DBFReadStringAttribute_def DBFReadLogicalAttribute_def DBFReadDateAttribute_def
        DBFWriteDoubleAttribute_def DBFWriteIntegerAttribute_def DBFWriteStringAttribute_def
        DBFWriteNULLAttribute_def DBFWriteLogicalAttribute_def
        DBFSetLastModifiedDate_def DBFSetWriteEndOfFileChar_def DBFAddField_def
        Let_def read_attribute_inv is_null_inv is_deleted_inv read_tuple_inv mark_deleted_inv
        write_attribute_inv write_directly_inv write_tuple_inv write_date_inv
        update_header_inv add_field_inv delete_field_inv reorder_fields_inv alter_field_inv)

lemma run_ops_inv: "seek_inv h \<Longrightarrow> seek_inv (run_ops hk pf h ops)"
  by (induction ops arbitrary: h) (simp_all add: apply_op_inv)

lemma release_kept [simp]:
  "seek_kept False (trace (release h name)) = seek_kept False (trace h)"
  by (simp add: release_def log_ev_def seek_kept_append)

lemma close_kept: "seek_inv h \<Longrightarrow> seek_kept False (trace (DBFClose hk h))"
proof -
  assume inv: "seek_inv h"
  let ?h0 = "if bNoHeader h then DBFWriteHeader hk h else h"
  let ?h1 = "snd (DBFFlushRecord hk ?h0)"
  let ?h2 = "if bUpdated ?h1 then DBFUpdateHeader hk ?h1 else ?h1"
  have "seek_inv ?h0" using inv by (simp add: write_header_inv)
  then have "seek_inv ?h1" by (rule flush_inv)
  then have "seek_inv ?h2" by (simp add: update_header_inv)
  then have "seek_kept False (trace ?h2)" by (rule seek_inv_kept)
  then show ?thesis
    by (simp add: DBFClose_def Let_def hk_close_def seek_kept_append)
qed



section \<open>Writing values\<close>

lemma prepare_schema [simp]: "schema_of (snd (prepare_record hk h r)) = schema_of h"
  by (simp add: prepare_record_def Let_def)

lemmas prepare_fields [simp] = schema_fields[OF prepare_schema]

lemma prepare_out_of_range:
  "r < 0 \<or> r > nRecords h \<Longrightarrow> prepare_record hk h r = (False, h)"
  by (auto simp add: prepare_record_def)

lemma prepare_in_range: "fst (prepare_record hk h r) \<Longrightarrow> 0 \<le> r \<and> r \<le> nRecords h"
  by (auto simp add: prepare_record_def split: if_splits)

lemma prepare_current [simp]:
  "fst (prepare_record hk h r) \<Longrightarrow> nCurrentRecord (snd (prepare_record hk h r)) = r"
  by (auto simp add: prepare_record_def Let_def split: if_splits)

lemma prepare_header [simp]:
  "fst (prepare_record hk h r) \<Longrightarrow> bNoHeader (snd (prepare_record hk h r)) = False"
  by (auto simp add: prepare_record_def Let_def split: if_splits)

lemma c_int_id: "- 2147483648 \<le> x \<Longrightarrow> x \<le> 2147483647 \<Longrightarrow> c_int x = x"
  by (simp add: c_int_def)

lemma prepare_count:
  "fst (prepare_record hk h r) \<Longrightarrow>
     nRecords (snd (prepare_record hk h r))
       = (if r = nRecords h then c_int (nRecords h + 1) else nRecords h)"
  by (auto simp add: prepare_record_def Let_def split: if_splits)

lemma prepare_length [simp]:
  "length (pszCurrentRecord h) = nat (nRecordLength h) \<Longrightarrow>
     length (pszCurrentRecord (snd (prepare_record hk h r))) = nat (nRecordLength h)"
  by (auto simp add: prepare_record_def Let_def)

lemma memset_all:
  "length buf = n \<Longrightarrow> memset_at buf 0 c n = replicate n c"
  by (simp add: memset_at_def)

lemma prepare_append:
  assumes "r = nRecords h" and "0 \<le> nRecords h"
      and "fst (DBFFlushRecord hk (if bNoHeader h then DBFWriteHeader hk h else h))"
      and "length (pszCurrentRecord h) = nat (nRecordLength h)"
  shows "fst (prepare_record hk h r)"
    and "pszCurrentRecord (snd (prepare_record hk h r))
           = replicate (nat (nRecordLength h)) (CHR '' '')"
  using assms by (auto simp add: prepare_record_def Let_def memset_all)

lemma prepare_again:
  "\<not> bNoHeader h \<Longrightarrow> nCurrentRecord h = r \<Longrightarrow> 0 \<le> r \<Longrightarrow> r < nRecords h \<Longrightarrow>
     prepare_record hk h r = (True, h)"
  by (simp add: prepare_record_def)

lemma field_in_record_prepare [simp]:
  "field_in_record h f \<Longrightarrow> field_in_record (snd (prepare_record hk h r)) f"
  by (simp add: field_in_record_def)

lemma field_in_record_flags [simp]:
  "field_in_record (h\<lparr>bCurrentRecordModified := m\<rparr>) f = field_in_record h f"
  "field_in_record (h\<lparr>bUpdated := u\<rparr>) f = field_in_record h f"
  by (simp_all add: field_in_record_def)

lemma nth_memcpy_at:
  "off + length src \<le> length buf \<Longrightarrow> j < length buf \<Longrightarrow>
     memcpy_at buf off src ! j
       = (if off \<le> j \<and> j < off + length src then src ! (j - off) else buf ! j)"
  by (auto simp add: memcpy_at_def nth_append min_def)

lemma nth_memset_at:
  "off + n \<le> length buf \<Longrightarrow> j < length buf \<Longrightarrow>
     memset_at buf off c n ! j = (if off \<le> j \<and> j < off + n then c else buf ! j)"
  by (auto simp add: memset_at_def nth_append min_def)

lemma memcpy_at_single:
  "off < length buf \<Longrightarrow> memcpy_at buf off [c] = buf[off := c]"
  by (simp add: memcpy_at_def upd_conv_take_nth_drop)

lemma store_value_defined:
  "0 \<le> f \<Longrightarrow> f < nFields h \<Longrightarrow>
     (store_value hk pf h f v \<noteq> None) = value_fits (pachFieldType h ! nat f) v"
  by (auto simp add: store_value_def value_fits_def Let_def split: pvalue.splits)

lemma numeric_text_length: "0 \<le> sz \<Longrightarrow> length (numeric_text pf sz dec v) \<le> nat sz"
  by (simp add: numeric_text_def Let_def) arith

lemma store_numeric_eq:
  "snd (store_numeric hk pf h i v)
     = h\<lparr>pszCurrentRecord :=
           memcpy_at (pszCurrentRecord h) (nat (panFieldOffset h ! i))
             (numeric_text pf (panFieldSize h ! i) (panFieldDecimals h ! i) v)\<rparr>"
  by (simp add: store_numeric_def numeric_text_def formatted_def Let_def)

lemma same_outside_memcpy:
  "off + n \<le> length buf \<Longrightarrow> length src \<le> n \<Longrightarrow> same_outside (memcpy_at buf off src) buf off n"
  by (simp add: same_outside_def nth_memcpy_at)

lemma same_outside_memset:
  "off + n \<le> length buf \<Longrightarrow> k \<le> n \<Longrightarrow> same_outside (memset_at buf off c k) buf off n"
  by (simp add: same_outside_def nth_memset_at)

lemma same_outside_trans:
  "same_outside c b off n \<Longrightarrow> same_outside b a off n \<Longrightarrow> same_outside c a off n"
  by (simp add: same_outside_def)

lemma same_outside_refl [simp]: "same_outside a a off n"
  by (simp add: same_outside_def)

lemma field_bounds:
  "field_in_record h f \<Longrightarrow>
     nat (panFieldOffset h ! nat f) + nat (panFieldSize h ! nat f) \<le> length (pszCurrentRecord h)"
  by (simp add: field_in_record_def) linarith

lemma store_value_frame:
  assumes "store_value hk pf h f v = Some x" and "field_in_record h f"
  shows "snd x = h\<lparr>pszCurrentRecord := pszCurrentRecord (snd x)\<rparr> \<and>
         same_outside (pszCurrentRecord (snd x)) (pszCurrentRecord h)
           (nat (panFieldOffset h ! nat f)) (nat (panFieldSize h ! nat f))"
proof -
  let ?off = "nat (panFieldOffset h ! nat f)" and ?n = "nat (panFieldSize h ! nat f)"
  let ?buf = "pszCurrentRecord h"
  have bnd: "?off + ?n \<le> length ?buf" using assms(2) by (rule field_bounds)
  have sz: "0 \<le> panFieldSize h ! nat f" using assms(2) by (simp add: field_in_record_def)
  show ?thesis
  proof (cases v)
    case PNull
    then show ?thesis
      using assms(1) bnd by (auto simp add: store_value_def Let_def same_outside_memset split: if_splits)
  next
    case (PDouble d)
    have "length (numeric_text pf (panFieldSize h ! nat f) (panFieldDecimals h ! nat f) d) \<le> ?n"
      using sz by (rule numeric_text_length)
    then show ?thesis
      using assms(1) bnd PDouble
      by (auto simp add: store_value_def Let_def store_numeric_eq same_outside_memcpy split: if_splits)
  next
    case (PChar c)
    then show ?thesis
      using assms(1) bnd
      by (auto simp add: store_value_def Let_def store_logical_def same_outside_memcpy split: if_splits)
  next
    case (PString s)
    have mm: "length s \<le> ?n \<Longrightarrow>
              same_outside (memcpy_at (memset_at ?buf ?off (CHR '' '') ?n) ?off s) ?buf ?off ?n"
      using bnd by (auto intro!: same_outside_trans[OF same_outside_memcpy same_outside_memset])
    show ?thesis
      using assms(1) bnd PString mm sz
      by (auto simp add: store_value_def Let_def store_logical_def store_string_def
            same_outside_memcpy split: if_splits list.splits)
  qed
qed

lemma write_directly_frame:
  assumes "DBFWriteAttributeDirectly hk h r f s = Some x" and "fst (prepare_record hk h r)"
      and "field_in_record h f"
  shows "snd x = (snd (prepare_record hk h r))
                   \<lparr>pszCurrentRecord := pszCurrentRecord (snd x),
                    bCurrentRecordModified := True, bUpdated := True\<rparr> \<and>
         same_outside (pszCurrentRecord (snd x)) (pszCurrentRecord (snd (prepare_record hk h r)))
           (nat (panFieldOffset h ! nat f)) (nat (panFieldSize h ! nat f))"
proof -
  let ?hp = "snd (prepare_record hk h r)"
  let ?off = "nat (panFieldOffset h ! nat f)" and ?n = "nat (panFieldSize h ! nat f)"
  let ?buf = "pszCurrentRecord ?hp"
  have "field_in_record ?hp f" using assms(3) by simp
  then have bnd: "?off + ?n \<le> length ?buf" using field_bounds[of ?hp f] by simp
  have sz: "0 \<le> panFieldSize h ! nat f" and f0: "0 \<le> f" and fn: "f < nFields h"
    using assms(3) by (simp_all add: field_in_record_def)
  have mm: "length s \<le> ?n \<Longrightarrow>
            same_outside (memcpy_at (memset_at ?buf ?off (CHR '' '') ?n) ?off s) ?buf ?off ?n"
    using bnd by (auto intro!: same_outside_trans[OF same_outside_memcpy same_outside_memset])
  show ?thesis
    using assms(1,2) bnd sz f0 fn mm
    by (auto simp add: DBFWriteAttributeDirectly_def Let_def same_outside_memcpy
          split: if_splits)
qed

lemma same_outside_blank:
  "same_outside new (replicate m c) off n \<Longrightarrow> j < m \<Longrightarrow> j < off \<or> off + n \<le> j \<Longrightarrow>
     new ! j = c"
  by (auto simp add: same_outside_def)

lemma append_prepared:
  assumes "length (pszCurrentRecord h) = nat (nRecordLength h)"
      and "0 \<le> nRecords h" and "nRecords h < 2147483647"
      and "fst (DBFFlushRecord hk (if bNoHeader h then DBFWriteHeader hk h else h))"
  shows "fst (prepare_record hk h (nRecords h))"
    and "nRecords (snd (prepare_record hk h (nRecords h))) = nRecords h + 1"
    and "nCurrentRecord (snd (prepare_record hk h (nRecords h))) = nRecords h"
    and "pszCurrentRecord (snd (prepare_record hk h (nRecords h)))
           = replicate (nat (nRecordLength h)) (CHR '' '')"
proof -
  show ok: "fst (prepare_record hk h (nRecords h))"
    using assms by (simp add: prepare_append)
  show "pszCurrentRecord (snd (prepare_record hk h (nRecords h)))
           = replicate (nat (nRecordLength h)) (CHR '' '')"
    using assms by (simp add: prepare_append)
  have "c_int (nRecords h + 1) = nRecords h + 1"
    using assms(2,3) by (intro c_int_id) simp_all
  then show "nRecords (snd (prepare_record hk h (nRecords h))) = nRecords h + 1"
    using ok by (simp add: prepare_count)
  show "nCurrentRecord (snd (prepare_record hk h (nRecords h))) = nRecords h"
    using ok by simp
qed

lemma appended_frame:
  assumes fr: "nRecords h' = nRecords h + 1" "nCurrentRecord h' = nRecords h"
      and so: "same_outside (pszCurrentRecord h') (replicate (nat (nRecordLength h)) (CHR '' ''))
                 (nat (panFieldOffset h ! nat iField)) (nat (panFieldSize h ! nat iField))"
      and fir: "field_in_record h iField"
  shows "appended h iField (Some (ok, h'))"
proof -
  let ?len = "nat (nRecordLength h)"
  let ?off = "nat (panFieldOffset h ! nat iField)" and ?n = "nat (panFieldSize h ! nat iField)"
  have off1: "1 \<le> ?off" using fir by (auto simp add: field_in_record_def)
  have len0: "0 < ?len" using fir by (auto simp add: field_in_record_def)
  have c: "length (pszCurrentRecord h') = ?len" using so by (simp add: same_outside_def)
  have d: "pszCurrentRecord h' ! 0 = CHR '' ''"
  proof (rule same_outside_blank[OF so])
    show "0 < ?len" by (rule len0)
    show "0 < ?off \<or> ?off + ?n \<le> 0" using off1 by linarith
  qed
  have e: "\<forall>j \<in> {0 ..< ?len}. j < ?off \<or> ?off + ?n \<le> j \<longrightarrow> pszCurrentRecord h' ! j = CHR '' ''"
    using same_outside_blank[OF so] by auto
  show ?thesis using fr c d e by (simp add: appended_def)
qed

lemma write_attribute_appends:
  assumes len: "length (pszCurrentRecord h) = nat (nRecordLength h)"
      and n0: "0 \<le> nRecords h" and nmax: "nRecords h < 2147483647"
      and fl: "fst (DBFFlushRecord hk (if bNoHeader h then DBFWriteHeader hk h else h))"
      and fir: "field_in_record h iField"
      and fit: "value_fits (pachFieldType h ! nat iField) v"
  shows "appended h iField (DBFWriteAttribute hk pf h (nRecords h) iField v)"
proof -
  note ap = append_prepared[OF len n0 nmax fl]
  let ?hp = "snd (prepare_record hk h (nRecords h))"
  let ?h2 = "?hp\<lparr>bCurrentRecordModified := True, bUpdated := True\<rparr>"
  have fir2: "field_in_record ?h2 iField" using fir by simp
  have "store_value hk pf ?h2 iField v \<noteq> None"
    using fir fit store_value_defined[of iField ?h2 hk pf v] by (simp add: field_in_record_def)
  then obtain x where x: "store_value hk pf ?h2 iField v = Some x" by blast
  have fr: "snd x = ?h2\<lparr>pszCurrentRecord := pszCurrentRecord (snd x)\<rparr>"
    and so: "same_outside (pszCurrentRecord (snd x)) (replicate (nat (nRecordLength h)) (CHR '' ''))
               (nat (panFieldOffset h ! nat iField)) (nat (panFieldSize h ! nat iField))"
    using store_value_frame[OF x fir2] ap(4) by simp_all
  have res: "DBFWriteAttribute hk pf h (nRecords h) iField v = Some (fst x, snd x)"
    using ap(1) x by (simp add: DBFWriteAttribute_def Let_def)
  have a: "nRecords (snd x) = nRecords h + 1" using arg_cong[OF fr, of nRecords] ap(2) by simp
  have b: "nCurrentRecord (snd x) = nRecords h"
    using arg_cong[OF fr, of nCurrentRecord] ap(3) by simp
  show ?thesis unfolding res using a b so fir by (rule appended_frame)
qed

lemma write_directly_appends:
  assumes len: "length (pszCurrentRecord h) = nat (nRecordLength h)"
      and n0: "0 \<le> nRecords h" and nmax: "nRecords h < 2147483647"
      and fl: "fst (DBFFlushRecord hk (if bNoHeader h then DBFWriteHeader hk h else h))"
      and fir: "field_in_record h iField"
  shows "appended h iField (DBFWriteAttributeDirectly hk h (nRecords h) iField s)"
proof -
  note ap = append_prepared[OF len n0 nmax fl]
  let ?hp = "snd (prepare_record hk h (nRecords h))"
  have "\<exists>x. DBFWriteAttributeDirectly hk h (nRecords h) iField s = Some (True, x)"
    using ap(1) fir by (simp add: DBFWriteAttributeDirectly_def Let_def field_in_record_def)
  then obtain h' where x: "DBFWriteAttributeDirectly hk h (nRecords h) iField s = Some (True, h')"
    by blast
  have fr: "h' = ?hp\<lparr>pszCurrentRecord := pszCurrentRecord h',
                      bCurrentRecordModified := True, bUpdated := True\<rparr>"
    and so: "same_outside (pszCurrentRecord h') (replicate (nat (nRecordLength h)) (CHR '' ''))
               (nat (panFieldOffset h ! nat iField)) (nat (panFieldSize h ! nat iField))"
    using write_directly_frame[OF x ap(1) fir] ap(4) by simp_all
  have a: "nRecords h' = nRecords h + 1" using arg_cong[OF fr, of nRecords] ap(2) by simp
  have b: "nCurrentRecord h' = nRecords h" using arg_cong[OF fr, of nCurrentRecord] ap(3) by simp
  show ?thesis unfolding x using a b so fir by (rule appended_frame)
qed

lemma write_refused:
  assumes "hEntity < 0 \<or> hEntity > nRecords h"
  shows "DBFWriteAttribute hk pf h hEntity iField v = Some (False, h)"
    and "DBFWriteAttributeDirectly hk h hEntity iField s = Some (False, h)"
    and "DBFWriteTuple hk h hEntity t = Some (False, h)"
  using prepare_out_of_range[OF assms, of hk]
  by (simp_all add: DBFWriteAttribute_def DBFWriteAttributeDirectly_def DBFWriteTuple_def)

lemma write_date_refused:
  assumes "hEntity < 0 \<or> hEntity > nRecords h"
  shows "DBFWriteDateAttribute hk h hEntity iField d = Some (False, h)"
  by (simp add: DBFWriteDateAttribute_def write_refused(2)[OF assms] split: option.splits)


text \<open>
  Claim C4, for a record count below the greatest \<^verbatim>\<open>int\<close>. Let the record buffer have
  the length of a record and let the count \<open>n = nRecords\<close> satisfy \<open>0 \<le> n < 2147483647\<close>.
  A write to an index that is negative or greater than \<open>n\<close> returns failure and leaves
  the handle as it is, for every one of \<^verbatim>\<open>DBFWriteDoubleAttribute\<close>,
  \<^verbatim>\<open>DBFWriteIntegerAttribute\<close>, \<^verbatim>\<open>DBFWriteStringAttribute\<close>, \<^verbatim>\<open>DBFWriteNULLAttribute\<close>,
  \<^verbatim>\<open>DBFWriteLogicalAttribute\<close>, \<^verbatim>\<open>DBFWriteAttributeDirectly\<close>, \<^verbatim>\<open>DBFWriteDateAttribute\<close> and
  \<^verbatim>\<open>DBFWriteTuple\<close>. A write to the index \<open>n\<close>, once the pending record is flushed,
  appends: the count is \<open>n + 1\<close>, record \<open>n\<close> is the cached one, and every byte of its
  buffer outside the written field, the deletion flag at index 0 among them, is a blank
  (\<open>appended\<close>); after \<^verbatim>\<open>DBFWriteTuple\<close> the record is the caller's tuple. Each typed
  write is taken on a field of a type whose value it carries.
\<close>

theorem write_at_record_count_appends:
  assumes len: "length (pszCurrentRecord h) = nat (nRecordLength h)"
      and n0: "0 \<le> nRecords h" and nmax: "nRecords h < 2147483647"
  shows
    "(hEntity < 0 \<or> hEntity > nRecords h \<longrightarrow>
        DBFWriteDoubleAttribute hk pf h hEntity iField dv = Some (False, h) \<and>
        DBFWriteIntegerAttribute hk pf h hEntity iField nv = Some (False, h) \<and>
        DBFWriteStringAttribute hk pf h hEntity iField s = Some (False, h) \<and>
        DBFWriteNULLAttribute hk pf h hEntity iField = Some (False, h) \<and>
        DBFWriteLogicalAttribute hk pf h hEntity iField c = Some (False, h) \<and>
        DBFWriteAttributeDirectly hk h hEntity iField s = Some (False, h) \<and>
        DBFWriteDateAttribute hk h hEntity iField date = Some (False, h) \<and>
        DBFWriteTuple hk h hEntity t = Some (False, h)) \<and>
     (fst (DBFFlushRecord hk (if bNoHeader h then DBFWriteHeader hk h else h)) \<and>
      field_in_record h iField \<longrightarrow>
        (pachFieldType h ! nat iField = CHR ''N'' \<or> pachFieldType h ! nat iField = CHR ''F'' \<or>
         pachFieldType h ! nat iField = CHR ''D'' \<longrightarrow>
           appended h iField (DBFWriteDoubleAttribute hk pf h (nRecords h) iField dv) \<and>
           appended h iField (DBFWriteIntegerAttribute hk pf h (nRecords h) iField nv)) \<and>
        (pachFieldType h ! nat iField \<noteq> CHR ''N'' \<and> pachFieldType h ! nat iField \<noteq> CHR ''F'' \<and>
         pachFieldType h ! nat iField \<noteq> CHR ''D'' \<longrightarrow>
           appended h iField (DBFWriteStringAttribute hk pf h (nRecords h) iField s)) \<and>
        (pachFieldType h ! nat iField = CHR ''L'' \<longrightarrow>
           appended h iField (DBFWriteLogicalAttribute hk pf h (nRecords h) iField c)) \<and>
        appended h iField (DBFWriteNULLAttribute hk pf h (nRecords h) iField) \<and>
        appended h iField (DBFWriteAttributeDirectly hk h (nRecords h) iField s) \<and>
        (0 \<le> year d \<and> year d \<le> 9999 \<and> 0 \<le> month d \<and> month d \<le> 99 \<and>
         0 \<le> day d \<and> day d \<le> 99 \<longrightarrow>
           appended h iField (DBFWriteDateAttribute hk h (nRecords h) iField (Some d)))) \<and>
     (fst (DBFFlushRecord hk (if bNoHeader h then DBFWriteHeader hk h else h)) \<and>
      nat (nRecordLength h) \<le> length t \<longrightarrow>
        (\<exists>h'. DBFWriteTuple hk h (nRecords h) t = Some (True, h') \<and>
           nRecords h' = nRecords h + 1 \<and> nCurrentRecord h' = nRecords h \<and>
           pszCurrentRecord h' = take (nat (nRecordLength h)) t))"
proof (intro conjI impI)
  assume out: "hEntity < 0 \<or> hEntity > nRecords h"
  show "DBFWriteDoubleAttribute hk pf h hEntity iField dv = Some (False, h)"
    and "DBFWriteIntegerAttribute hk pf h hEntity iField nv = Some (False, h)"
    and "DBFWriteStringAttribute hk pf h hEntity iField s = Some (False, h)"
    and "DBFWriteNULLAttribute hk pf h hEntity iField = Some (False, h)"
    and "DBFWriteLogicalAttribute hk pf h hEntity iField c = Some (False, h)"
    by (simp_all add: DBFWriteDoubleAttribute_def DBFWriteIntegerAttribute_def
          DBFWriteStringAttribute_def DBFWriteNULLAttribute_def DBFWriteLogicalAttribute_def
          write_refused(1)[OF out])
  show "DBFWriteAttributeDirectly hk h hEntity iField s = Some (False, h)"
    using out by (rule write_refused(2))
  show "DBFWriteDateAttribute hk h hEntity iField date = Some (False, h)"
    using out by (rule write_date_refused)
  show "DBFWriteTuple hk h hEntity t = Some (False, h)"
    using out by (rule write_refused(3))
next
  assume a: "fst (DBFFlushRecord hk (if bNoHeader h then DBFWriteHeader hk h else h)) \<and>
      field_in_record h iField"
  then have fl: "fst (DBFFlushRecord hk (if bNoHeader h then DBFWriteHeader hk h else h))"
    and fir: "field_in_record h iField" by simp_all
  note wa = write_attribute_appends[OF len n0 nmax fl fir, of _ pf]
  show "appended h iField (DBFWriteNULLAttribute hk pf h (nRecords h) iField)"
    unfolding DBFWriteNULLAttribute_def by (rule wa) (simp add: value_fits_def)
  show "appended h iField (DBFWriteAttributeDirectly hk h (nRecords h) iField s)"
    using len n0 nmax fl fir by (rule write_directly_appends)
  {
    assume ty: "pachFieldType h ! nat iField = CHR ''N'' \<or> pachFieldType h ! nat iField = CHR ''F'' \<or>
         pachFieldType h ! nat iField = CHR ''D''"
    show "appended h iField (DBFWriteDoubleAttribute hk pf h (nRecords h) iField dv)"
      unfolding DBFWriteDoubleAttribute_def using ty by (intro wa) (auto simp add: value_fits_def)
    show "appended h iField (DBFWriteIntegerAttribute hk pf h (nRecords h) iField nv)"
      unfolding DBFWriteIntegerAttribute_def using ty by (intro wa) (auto simp add: value_fits_def)
  }
  {
    assume ty: "pachFieldType h ! nat iField \<noteq> CHR ''N'' \<and> pachFieldType h ! nat iField \<noteq> CHR ''F'' \<and>
         pachFieldType h ! nat iField \<noteq> CHR ''D''"
    show "appended h iField (DBFWriteStringAttribute hk pf h (nRecords h) iField s)"
      unfolding DBFWriteStringAttribute_def using ty by (intro wa) (simp add: value_fits_def)
  }
  {
    assume ty: "pachFieldType h ! nat iField = CHR ''L''"
    show "appended h iField (DBFWriteLogicalAttribute hk pf h (nRecords h) iField c)"
      unfolding DBFWriteLogicalAttribute_def using ty by (intro wa) (simp add: value_fits_def)
  }
  {
    assume "0 \<le> year d \<and> year d \<le> 9999 \<and> 0 \<le> month d \<and> month d \<le> 99 \<and>
         0 \<le> day d \<and> day d \<le> 99"
    then have "DBFWriteDateAttribute hk h (nRecords h) iField (Some d)
                 = DBFWriteAttributeDirectly hk h (nRecords h) iField
                     (take 8 (zero_pad 4 (year d) @ zero_pad 2 (month d) @ zero_pad 2 (day d)))"
      by (simp add: DBFWriteDateAttribute_def)
    then show "appended h iField (DBFWriteDateAttribute hk h (nRecords h) iField (Some d))"
      using write_directly_appends[OF len n0 nmax fl fir] by simp
  }
next
  assume a: "fst (DBFFlushRecord hk (if bNoHeader h then DBFWriteHeader hk h else h)) \<and>
      nat (nRecordLength h) \<le> length t"
  then have fl: "fst (DBFFlushRecord hk (if bNoHeader h then DBFWriteHeader hk h else h))"
    and tl: "nat (nRecordLength h) \<le> length t" by simp_all
  note ap = append_prepared[OF len n0 nmax fl]
  show "\<exists>h'. DBFWriteTuple hk h (nRecords h) t = Some (True, h') \<and>
           nRecords h' = nRecords h + 1 \<and> nCurrentRecord h' = nRecords h \<and>
           pszCurrentRecord h' = take (nat (nRecordLength h)) t"
    using ap tl by (simp add: DBFWriteTuple_def Let_def memcpy_at_def)
qed

theorem write_at_record_count_appends_witness:
  "(length (pszCurrentRecord ex_table) = nat (nRecordLength ex_table) \<and>
    0 \<le> nRecords ex_table \<and> nRecords ex_table < 2147483647 \<and> nRecords ex_table = 2 \<and>
    fst (DBFFlushRecord mem_hooks
           (if bNoHeader ex_table then DBFWriteHeader mem_hooks ex_table else ex_table)) \<and>
    field_in_record ex_table 0) \<and>
   appended ex_table 0 (DBFWriteIntegerAttribute mem_hooks (whole_platform True) ex_table 2 0 7) \<and>
   appended ex_table 0 (DBFWriteNULLAttribute mem_hooks (whole_platform True) ex_table 2 0) \<and>
   DBFWriteIntegerAttribute mem_hooks (whole_platform True) ex_table 3 0 7
     = Some (False, ex_table) \<and>
   DBFWriteTuple mem_hooks ex_table (-1) [] = Some (False, ex_table)"
proof -
  have pre: "length (pszCurrentRecord ex_table) = nat (nRecordLength ex_table)"
    and cnt: "0 \<le> nRecords ex_table" "nRecords ex_table < 2147483647"
    and two: "nRecords ex_table = 2"
    and ty: "pachFieldType ex_table ! nat 0 = CHR ''N''"
    by (simp_all add: ex_table_def)
  have fl: "fst (DBFFlushRecord mem_hooks
           (if bNoHeader ex_table then DBFWriteHeader mem_hooks ex_table else ex_table))"
    and fir: "field_in_record ex_table 0"
    by code_simp+
  note t = write_at_record_count_appends[OF pre cnt, of _ mem_hooks "whole_platform True" 0
             0 7 "[]" "CHR ''T''" None "[]"]
  show ?thesis
    using t[of 2] t[of 3] t[of "-1"] pre cnt two ty fl fir by simp
qed

text \<open>
  Claim C4 at the end of the range of \<^verbatim>\<open>int\<close>. A header can give the record count
  2147483647. The write to that index passes the range check and increments the count,
  which leaves the 32 bits: the count after the write is not \<open>n + 1\<close>.
\<close>

theorem write_at_greatest_count_overflows:
  "nRecords ex_full = 2147483647 \<and>
   map_option (\<lambda>x. (fst x, nRecords (snd x)))
     (DBFWriteIntegerAttribute mem_hooks (whole_platform True) ex_full 2147483647 0 7)
     = Some (True, - 2147483648)"
  by code_simp




section \<open>NULL values\<close>

lemma cstr_no_nul: "NUL \<notin> set s \<Longrightarrow> cstr s = s"
  by (auto simp add: cstr_def takeWhile_eq_all_conv)

lemma trim_ws_blank [simp]: "trim_ws (replicate n (CHR '' '')) = []"
  by (simp add: trim_ws_def)

lemma dropWhile_rev_keep:
  "\<not> P x \<Longrightarrow> rev (dropWhile P (rev (x # xs))) = x # rev (dropWhile P (rev xs))"
  by (simp add: dropWhile_append)

lemma trim_ws_nonblank:
  assumes "dropWhile (\<lambda>c. c = CHR '' '') s \<noteq> []"
  shows "trim_ws s \<noteq> []"
    and "hd (trim_ws s) = hd (dropWhile (\<lambda>c. c = CHR '' '') s)"
    and "hd (trim_ws s) \<noteq> CHR '' ''"
proof -
  let ?P = "\<lambda>c. c = CHR '' ''"
  obtain x xs where u: "dropWhile ?P s = x # xs" using assms by (cases "dropWhile ?P s") auto
  then have nb: "\<not> ?P x" using hd_dropWhile[of ?P s] by auto
  have "trim_ws s = x # rev (dropWhile ?P (rev xs))"
    unfolding trim_ws_def u using nb by (rule dropWhile_rev_keep)
  then show "trim_ws s \<noteq> []" "hd (trim_ws s) = hd (dropWhile ?P s)" "hd (trim_ws s) \<noteq> CHR '' ''"
    using u nb by simp_all
qed

lemma is_null_cached:
  assumes "nCurrentRecord k = r" "0 \<le> r" "r < nRecords k" "0 \<le> f" "f < nFields k"
  shows "fst (DBFIsAttributeNULL hk pf k r f)
           = DBFIsValueNULL (pachFieldType k ! nat f) (Some (read_text pf (field_bytes k f)))
               (panFieldSize k ! nat f)"
  using assms
  by (simp add: DBFIsAttributeNULL_def DBFReadStringAttribute_def DBFReadAttribute_def Let_def
        read_text_def field_bytes_def)

lemma field_bytes_memset:
  "off + n \<le> length buf \<Longrightarrow> take n (drop off (memset_at buf off c n)) = replicate n c"
  by (simp add: memset_at_def)

lemma field_bytes_memcpy:
  "off + n \<le> length buf \<Longrightarrow> length src \<le> n \<Longrightarrow>
     take n (drop off (memcpy_at buf off src))
       = src @ take (n - length src) (drop (off + length src) buf)"
  by (simp add: memcpy_at_def)

lemma dropWhile_replicate_other:
  "\<not> P c \<Longrightarrow> dropWhile P (replicate k c) = replicate k c"
  by (cases k) simp_all

lemma read_text_fill:
  assumes "c \<noteq> NUL" and "c \<noteq> CHR '' ''"
  shows "read_text pf (replicate k c) = replicate k c"
proof -
  have "cstr (replicate k c) = replicate k c"
    using assms(1) by (simp add: cstr_def)
  moreover have "trim_ws (replicate k c) = replicate k c"
    using assms(2) by (simp add: trim_ws_def dropWhile_replicate_other)
  ultimately show ?thesis by (simp add: read_text_def)
qed

lemma null_of_fill:
  assumes "1 \<le> n"
      and "TRIM_DBF_WHITESPACE pf \<or> ty = CHR ''N'' \<or> ty = CHR ''F'' \<or> ty = CHR ''D'' \<or> ty = CHR ''L''"
  shows "DBFIsValueNULL ty (Some (read_text pf (replicate (nat n) (DBFGetNullCharacter ty)))) n"
proof -
  obtain m where m: "nat n = Suc m" using assms(1) by (cases "nat n") auto
  consider (num) "ty = CHR ''N'' \<or> ty = CHR ''F''" | (date) "ty = CHR ''D''"
    | (logical) "ty = CHR ''L''"
    | (other) "ty \<noteq> CHR ''N''" "ty \<noteq> CHR ''F''" "ty \<noteq> CHR ''D''" "ty \<noteq> CHR ''L''"
    by blast
  then show ?thesis
  proof cases
    case num
    have "read_text pf (replicate (nat n) (CHR ''*'')) = replicate (nat n) (CHR ''*'')"
      by (rule read_text_fill) simp_all
    then show ?thesis
      using num by (auto simp add: DBFIsValueNULL_def DBFGetNullCharacter_def m)
  next
    case date
    have rt: "read_text pf (replicate (nat n) (CHR ''0'')) = replicate (nat n) (CHR ''0'')"
      by (rule read_text_fill) simp_all
    have "list_all (\<lambda>c. c = CHR ''0'') (take (nat n) (replicate (nat n) (CHR ''0'') @ [NUL]))"
      by (simp add: list_all_iff)
    then show ?thesis
      using date rt by (simp add: DBFIsValueNULL_def DBFGetNullCharacter_def)
  next
    case logical
    have "read_text pf (replicate (nat n) (CHR ''?'')) = replicate (nat n) (CHR ''?'')"
      by (rule read_text_fill) simp_all
    then show ?thesis
      using logical by (simp add: DBFIsValueNULL_def DBFGetNullCharacter_def m)
  next
    case other
    then have "TRIM_DBF_WHITESPACE pf" using assms(2) by blast
    moreover have "cstr (replicate (nat n) (CHR '' '')) = replicate (nat n) (CHR '' '')"
      by (simp add: cstr_def)
    ultimately have "read_text pf (replicate (nat n) (CHR '' '')) = []"
      by (simp add: read_text_def)
    then show ?thesis
      using other by (simp add: DBFIsValueNULL_def DBFGetNullCharacter_def)
  qed
qed

lemma read_text_facts:
  assumes "NUL \<notin> set fld" and "dropWhile (\<lambda>c. c = CHR '' '') fld \<noteq> []"
  shows "read_text pf fld \<noteq> []"
    and "hd (read_text pf fld) = hd fld \<or>
         hd (read_text pf fld) = hd (dropWhile (\<lambda>c. c = CHR '' '') fld)"
    and "\<exists>c\<in>set (read_text pf fld). c \<noteq> CHR '' ''"
proof -
  let ?P = "\<lambda>c. c = CHR '' ''"
  have cs: "cstr fld = fld" using assms(1) by (rule cstr_no_nul)
  have ne: "fld \<noteq> []" using assms(2) by auto
  have ex: "\<exists>c\<in>set fld. c \<noteq> CHR '' ''"
    using assms(2) by (auto simp add: dropWhile_eq_Nil_conv)
  have t1: "trim_ws fld \<noteq> []" and t2: "hd (trim_ws fld) = hd (dropWhile ?P fld)"
    and t3: "hd (trim_ws fld) \<noteq> CHR '' ''"
    using trim_ws_nonblank[OF assms(2)] by simp_all
  have t4: "\<exists>c\<in>set (trim_ws fld). c \<noteq> CHR '' ''"
    using t1 t3 by (cases "trim_ws fld") auto
  show "read_text pf fld \<noteq> []" using cs ne t1 by (simp add: read_text_def)
  show "hd (read_text pf fld) = hd fld \<or> hd (read_text pf fld) = hd (dropWhile ?P fld)"
    using cs t2 by (simp add: read_text_def)
  show "\<exists>c\<in>set (read_text pf fld). c \<noteq> CHR '' ''"
    using cs ex t4 by (simp add: read_text_def)
qed

lemma not_null_number:
  assumes "ty = CHR ''N'' \<or> ty = CHR ''F''"
      and "x \<noteq> []" and "hd x \<noteq> CHR ''*''" and "\<exists>c\<in>set x. c \<noteq> CHR '' ''"
  shows "\<not> DBFIsValueNULL ty (Some x) n"
  using assms by (cases x) (auto simp add: DBFIsValueNULL_def list_all_iff)

lemma not_null_logical:
  assumes "x \<noteq> []" and "hd x \<noteq> CHR ''?''"
  shows "\<not> DBFIsValueNULL (CHR ''L'') (Some x) n"
  using assms by (cases x) (auto simp add: DBFIsValueNULL_def)

lemma not_null_string:
  assumes "ty \<noteq> CHR ''N''" "ty \<noteq> CHR ''F''" "ty \<noteq> CHR ''D''" "ty \<noteq> CHR ''L''" and "x \<noteq> []"
  shows "\<not> DBFIsValueNULL ty (Some x) n"
  using assms by (auto simp add: DBFIsValueNULL_def)

lemma null_write_result:
  assumes "field_in_record h f" and "fst (prepare_record hk h r)"
  shows "DBFWriteNULLAttribute hk pf h r f
           = Some (True, (snd (prepare_record hk h r))
                \<lparr>bCurrentRecordModified := True, bUpdated := True,
                 pszCurrentRecord :=
                   memset_at (pszCurrentRecord (snd (prepare_record hk h r)))
                     (nat (panFieldOffset h ! nat f))
                     (DBFGetNullCharacter (pachFieldType h ! nat f))
                     (nat (panFieldSize h ! nat f))\<rparr>)"
  using assms
  by (simp add: DBFWriteNULLAttribute_def DBFWriteAttribute_def Let_def store_value_def
        field_in_record_def)

lemma cached_after_prepare:
  assumes "fst (prepare_record hk h r)" and "r < 2147483647"
  shows "0 \<le> r" and "r < nRecords (snd (prepare_record hk h r))"
proof -
  show r0: "0 \<le> r" using prepare_in_range[OF assms(1)] by simp
  have "r = nRecords h \<Longrightarrow> c_int (nRecords h + 1) = nRecords h + 1"
    using r0 assms(2) by (intro c_int_id) simp_all
  then show "r < nRecords (snd (prepare_record hk h r))"
    using prepare_in_range[OF assms(1)] prepare_count[OF assms(1)] by (auto split: if_splits)
qed

lemma field_tail_memset:
  "off + n \<le> length buf \<Longrightarrow> len \<le> n \<Longrightarrow>
     take (n - len) (drop (off + len) (memset_at buf off c n)) = replicate (n - len) c"
  by (simp add: memset_at_def)

lemma read_text_hd:
  assumes "c \<noteq> NUL" and "c \<noteq> CHR '' ''"
  shows "read_text pf (c # rest) \<noteq> []" and "hd (read_text pf (c # rest)) = c"
proof -
  have cs: "cstr (c # rest) = c # cstr rest" using assms(1) by (simp add: cstr_def)
  have dw: "dropWhile (\<lambda>c. c = CHR '' '') (c # cstr rest) \<noteq> []" using assms(2) by simp
  have "trim_ws (c # cstr rest) \<noteq> []" and "hd (trim_ws (c # cstr rest)) = c"
    using trim_ws_nonblank[OF dw] assms(2) by simp_all
  then show "read_text pf (c # rest) \<noteq> []" and "hd (read_text pf (c # rest)) = c"
    using cs by (simp_all add: read_text_def)
qed

lemma nulled_facts:
  assumes fir: "field_in_record h f" and ok: "fst (prepare_record hk h r)"
      and small: "r < 2147483647"
  shows "DBFWriteNULLAttribute hk pf h r f = Some (True, nulled hk h r f)"
    and "schema_of (nulled hk h r f) = schema_of h"
    and "nCurrentRecord (nulled hk h r f) = r"
    and "0 \<le> r" and "r < nRecords (nulled hk h r f)"
    and "\<not> bNoHeader (nulled hk h r f)"
    and "field_in_record (nulled hk h r f) f"
    and "field_bytes (nulled hk h r f) f
           = replicate (nat (panFieldSize h ! nat f))
               (DBFGetNullCharacter (pachFieldType h ! nat f))"
    and "prepare_record hk (nulled hk h r f) r = (True, nulled hk h r f)"
    and "(nulled hk h r f)\<lparr>bCurrentRecordModified := True, bUpdated := True\<rparr> = nulled hk h r f"
proof -
  let ?hp = "snd (prepare_record hk h r)"
  have firp: "field_in_record ?hp f" using fir by simp
  have bnd: "nat (panFieldOffset h ! nat f) + nat (panFieldSize h ! nat f)
               \<le> length (pszCurrentRecord ?hp)"
    using field_bounds[OF firp] by simp
  show "DBFWriteNULLAttribute hk pf h r f = Some (True, nulled hk h r f)"
    unfolding nulled_def using fir ok by (rule null_write_result)
  show s: "schema_of (nulled hk h r f) = schema_of h"
    by (simp add: nulled_def)
  show c: "nCurrentRecord (nulled hk h r f) = r"
    using ok by (simp add: nulled_def)
  show r0: "0 \<le> r" using ok small by (rule cached_after_prepare)
  show rn: "r < nRecords (nulled hk h r f)"
    using cached_after_prepare(2)[OF ok small] by (simp add: nulled_def)
  show nh: "\<not> bNoHeader (nulled hk h r f)"
    using ok by (simp add: nulled_def)
  show "field_in_record (nulled hk h r f) f"
    using firp bnd by (simp add: field_in_record_def nulled_def)
  show "field_bytes (nulled hk h r f) f
           = replicate (nat (panFieldSize h ! nat f))
               (DBFGetNullCharacter (pachFieldType h ! nat f))"
    using bnd by (simp add: field_bytes_def nulled_def field_bytes_memset)
  show "prepare_record hk (nulled hk h r f) r = (True, nulled hk h r f)"
    using nh c r0 rn by (simp add: prepare_again)
  show "(nulled hk h r f)\<lparr>bCurrentRecordModified := True, bUpdated := True\<rparr> = nulled hk h r f"
    by (simp add: nulled_def)
qed

lemma null_after_null_write:
  assumes fir: "field_in_record h f" and ok: "fst (prepare_record hk h r)"
      and small: "r < 2147483647"
      and w: "1 \<le> panFieldSize h ! nat f"
      and t: "TRIM_DBF_WHITESPACE pf \<or> pachFieldType h ! nat f = CHR ''N'' \<or>
              pachFieldType h ! nat f = CHR ''F'' \<or> pachFieldType h ! nat f = CHR ''D'' \<or>
              pachFieldType h ! nat f = CHR ''L''"
  shows "fst (DBFIsAttributeNULL hk pf (nulled hk h r f) r f)"
proof -
  note nf = nulled_facts[OF fir ok small]
  have f0: "0 \<le> f" and fn: "f < nFields (nulled hk h r f)"
    using nf(7) by (simp_all add: field_in_record_def)
  have ty: "pachFieldType (nulled hk h r f) = pachFieldType h"
    and sz: "panFieldSize (nulled hk h r f) = panFieldSize h"
    using schema_fields[OF nf(2)] by simp_all
  show ?thesis
    using is_null_cached[OF nf(3) nf(4) nf(5) f0 fn, of hk pf] null_of_fill[OF w t]
    by (simp add: ty sz nf(8))
qed

lemma is_null_after_store:
  assumes fir: "field_in_record h f" and ok: "fst (prepare_record hk h r)"
      and small: "r < 2147483647"
  shows "fst (DBFIsAttributeNULL hk pf ((nulled hk h r f)\<lparr>pszCurrentRecord := rec\<rparr>) r f)
           = DBFIsValueNULL (pachFieldType h ! nat f)
               (Some (read_text pf (take (nat (panFieldSize h ! nat f))
                                      (drop (nat (panFieldOffset h ! nat f)) rec))))
               (panFieldSize h ! nat f)"
proof -
  note nf = nulled_facts[OF fir ok small]
  let ?k = "(nulled hk h r f)\<lparr>pszCurrentRecord := rec\<rparr>"
  have f0: "0 \<le> f" and fn: "f < nFields ?k"
    using nf(7) by (simp_all add: field_in_record_def)
  have eqs: "pachFieldType ?k = pachFieldType h" "panFieldSize ?k = panFieldSize h"
    "panFieldOffset ?k = panFieldOffset h"
    using schema_fields[OF nf(2)] by simp_all
  have "nCurrentRecord ?k = r" "r < nRecords ?k" using nf(3) nf(5) by simp_all
  then show ?thesis
    using is_null_cached[of ?k r f hk pf] nf(4) f0 fn
    by (simp add: eqs field_bytes_def)
qed

lemma write_on_nulled:
  assumes fir: "field_in_record h f" and ok: "fst (prepare_record hk h r)"
      and small: "r < 2147483647"
  shows "DBFWriteAttribute hk pf (nulled hk h r f) r f v
           = store_value hk pf (nulled hk h r f) f v"
  using nulled_facts(9,10)[OF fir ok small]
  by (simp add: DBFWriteAttribute_def Let_def)

lemma nulled_buffer:
  assumes fir: "field_in_record h f" and ok: "fst (prepare_record hk h r)"
      and small: "r < 2147483647"
  shows "nat (panFieldOffset h ! nat f) + nat (panFieldSize h ! nat f)
           \<le> length (pszCurrentRecord (nulled hk h r f))"
    and "panFieldOffset (nulled hk h r f) = panFieldOffset h"
    and "panFieldSize (nulled hk h r f) = panFieldSize h"
    and "panFieldDecimals (nulled hk h r f) = panFieldDecimals h"
    and "pachFieldType (nulled hk h r f) = pachFieldType h"
    and "0 \<le> f" and "f < nFields (nulled hk h r f)"
    and "len \<le> nat (panFieldSize h ! nat f) \<Longrightarrow>
         take (nat (panFieldSize h ! nat f) - len)
           (drop (nat (panFieldOffset h ! nat f) + len) (pszCurrentRecord (nulled hk h r f)))
         = replicate (nat (panFieldSize h ! nat f) - len)
             (DBFGetNullCharacter (pachFieldType h ! nat f))"
proof -
  note nf = nulled_facts[OF fir ok small]
  let ?hp = "snd (prepare_record hk h r)"
  have firp: "field_in_record ?hp f" using fir by simp
  have bnd: "nat (panFieldOffset h ! nat f) + nat (panFieldSize h ! nat f)
               \<le> length (pszCurrentRecord ?hp)"
    using field_bounds[OF firp] by simp
  show "nat (panFieldOffset h ! nat f) + nat (panFieldSize h ! nat f)
           \<le> length (pszCurrentRecord (nulled hk h r f))"
    using field_bounds[OF nf(7)] schema_fields[OF nf(2)] by simp
  show "panFieldOffset (nulled hk h r f) = panFieldOffset h"
    "panFieldSize (nulled hk h r f) = panFieldSize h"
    "panFieldDecimals (nulled hk h r f) = panFieldDecimals h"
    "pachFieldType (nulled hk h r f) = pachFieldType h"
    using schema_fields[OF nf(2)] by simp_all
  show "0 \<le> f" "f < nFields (nulled hk h r f)"
    using nf(7) by (simp_all add: field_in_record_def)
  show "len \<le> nat (panFieldSize h ! nat f) \<Longrightarrow>
         take (nat (panFieldSize h ! nat f) - len)
           (drop (nat (panFieldOffset h ! nat f) + len) (pszCurrentRecord (nulled hk h r f)))
         = replicate (nat (panFieldSize h ! nat f) - len)
             (DBFGetNullCharacter (pachFieldType h ! nat f))"
    using bnd by (simp add: nulled_def field_tail_memset)
qed

lemma logical_after_null:
  assumes fir: "field_in_record h f" and ok: "fst (prepare_record hk h r)"
      and small: "r < 2147483647"
      and w: "1 \<le> panFieldSize h ! nat f"
      and ty: "pachFieldType h ! nat f = CHR ''L''"
      and c: "c = CHR ''T'' \<or> c = CHR ''F''"
  shows "\<exists>h2. DBFWriteLogicalAttribute hk pf (nulled hk h r f) r f c = Some (True, h2) \<and>
              \<not> fst (DBFIsAttributeNULL hk pf h2 r f)"
proof -
  note nb = nulled_buffer[OF fir ok small]
  let ?k = "nulled hk h r f"
  let ?off = "nat (panFieldOffset h ! nat f)" and ?n = "nat (panFieldSize h ! nat f)"
  let ?rec = "memcpy_at (pszCurrentRecord ?k) ?off [c]"
  have wr: "DBFWriteLogicalAttribute hk pf ?k r f c = Some (True, ?k\<lparr>pszCurrentRecord := ?rec\<rparr>)"
    using write_on_nulled[OF fir ok small, of pf "PChar c"] nb(2,3,5,6,7) ty c w
    by (auto simp add: DBFWriteLogicalAttribute_def store_value_def store_logical_def Let_def)
  have n1: "length [c] \<le> ?n" using w by simp
  have fld: "take ?n (drop ?off ?rec)
               = c # take (?n - 1) (drop (?off + 1) (pszCurrentRecord ?k))"
    using field_bytes_memcpy[OF nb(1) n1] by simp
  have cn: "c \<noteq> NUL" "c \<noteq> CHR '' ''" "c \<noteq> CHR ''?''" using c by auto
  have "\<not> DBFIsValueNULL (CHR ''L'') (Some (read_text pf (take ?n (drop ?off ?rec))))
            (panFieldSize h ! nat f)"
    unfolding fld using read_text_hd[OF cn(1,2), of pf] cn(3)
    by (intro not_null_logical) simp_all
  then have "\<not> fst (DBFIsAttributeNULL hk pf (?k\<lparr>pszCurrentRecord := ?rec\<rparr>) r f)"
    using is_null_after_store[OF fir ok small, of pf ?rec] ty by simp
  then show ?thesis using wr by blast
qed

lemma number_after_null:
  assumes fir: "field_in_record h f" and ok: "fst (prepare_record hk h r)"
      and small: "r < 2147483647"
      and ty: "pachFieldType h ! nat f = CHR ''N'' \<or> pachFieldType h ! nat f = CHR ''F''"
      and nt: "number_text (numeric_text pf (panFieldSize h ! nat f) (panFieldDecimals h ! nat f) v)"
  shows "\<exists>ret h2. DBFWriteDoubleAttribute hk pf (nulled hk h r f) r f v = Some (ret, h2) \<and>
              \<not> fst (DBFIsAttributeNULL hk pf h2 r f)"
proof -
  note nb = nulled_buffer[OF fir ok small]
  let ?k = "nulled hk h r f"
  let ?off = "nat (panFieldOffset h ! nat f)" and ?n = "nat (panFieldSize h ! nat f)"
  let ?t = "numeric_text pf (panFieldSize h ! nat f) (panFieldDecimals h ! nat f) v"
  let ?rec = "memcpy_at (pszCurrentRecord ?k) ?off ?t"
  let ?P = "\<lambda>c. c = CHR '' ''"
  have sz: "0 \<le> panFieldSize h ! nat f" using fir by (simp add: field_in_record_def)
  have len: "length ?t \<le> ?n" using sz by (rule numeric_text_length)
  have wr: "DBFWriteDoubleAttribute hk pf ?k r f v
              = Some (fst (store_numeric hk pf ?k (nat f) v), ?k\<lparr>pszCurrentRecord := ?rec\<rparr>)"
    using write_on_nulled[OF fir ok small, of pf "PDouble v"] nb(2,3,4,5,6,7) ty
      store_numeric_eq[of hk pf ?k "nat f" v]
    by (auto simp add: DBFWriteDoubleAttribute_def store_value_def Let_def
          prod_eq_iff)
  have star: "DBFGetNullCharacter (pachFieldType h ! nat f) = CHR ''*''"
    using ty by (auto simp add: DBFGetNullCharacter_def)
  have fld: "take ?n (drop ?off ?rec) = ?t @ replicate (?n - length ?t) (CHR ''*'')"
    using field_bytes_memcpy[OF nb(1) len] nb(8)[OF len] star by simp
  have nonul: "NUL \<notin> set ?t" and dw: "dropWhile ?P ?t \<noteq> []"
    and hdw: "hd (dropWhile ?P ?t) \<noteq> CHR ''*''"
    using nt by (simp_all add: number_text_def)
  have tne: "?t \<noteq> []" using dw by auto
  have hdt: "hd ?t \<noteq> CHR ''*''"
    using hdw tne by (cases ?t) (auto split: if_splits)
  let ?fld = "?t @ replicate (?n - length ?t) (CHR ''*'')"
  have nb1: "\<not> (\<forall>x\<in>set ?t. ?P x)" using dw by (simp add: dropWhile_eq_Nil_conv)
  have dwf: "dropWhile ?P ?fld = dropWhile ?P ?t @ replicate (?n - length ?t) (CHR ''*'')"
    using nb1 by (simp add: dropWhile_append)
  have f1: "NUL \<notin> set ?fld" using nonul by simp
  have f2: "dropWhile ?P ?fld \<noteq> []" using dwf dw by simp
  have f3: "hd (dropWhile ?P ?fld) \<noteq> CHR ''*''" using dwf dw hdw by simp
  have f4: "hd ?fld \<noteq> CHR ''*''" using tne hdt by simp
  have "\<not> DBFIsValueNULL (pachFieldType h ! nat f) (Some (read_text pf ?fld))
            (panFieldSize h ! nat f)"
    using read_text_facts[OF f1 f2, of pf] f3 f4
    by (intro not_null_number[OF ty]) auto
  then have "\<not> fst (DBFIsAttributeNULL hk pf (?k\<lparr>pszCurrentRecord := ?rec\<rparr>) r f)"
    using is_null_after_store[OF fir ok small, of pf ?rec] fld by simp
  then show ?thesis using wr by blast
qed

lemma string_after_null:
  assumes fir: "field_in_record h f" and ok: "fst (prepare_record hk h r)"
      and small: "r < 2147483647"
      and ty: "pachFieldType h ! nat f \<noteq> CHR ''N''" "pachFieldType h ! nat f \<noteq> CHR ''F''"
              "pachFieldType h ! nat f \<noteq> CHR ''D''" "pachFieldType h ! nat f \<noteq> CHR ''L''"
      and nonul: "NUL \<notin> set s"
      and ink: "\<exists>c\<in>set (take (nat (panFieldSize h ! nat f)) s). c \<noteq> CHR '' ''"
  shows "\<exists>ret h2. DBFWriteStringAttribute hk pf (nulled hk h r f) r f s = Some (ret, h2) \<and>
              \<not> fst (DBFIsAttributeNULL hk pf h2 r f)"
proof -
  note nb = nulled_buffer[OF fir ok small]
  let ?k = "nulled hk h r f"
  let ?off = "nat (panFieldOffset h ! nat f)" and ?n = "nat (panFieldSize h ! nat f)"
  let ?P = "\<lambda>c. c = CHR '' ''"
  have sz: "0 \<le> panFieldSize h ! nat f" using fir by (simp add: field_in_record_def)
  have blank: "DBFGetNullCharacter (pachFieldType h ! nat f) = CHR '' ''"
    using ty by (simp add: DBFGetNullCharacter_def)
  have wr: "DBFWriteStringAttribute hk pf ?k r f s = Some (store_string ?k (nat f) s)"
    using write_on_nulled[OF fir ok small, of pf "PString s"] nb(5,6,7) ty
    by (simp add: DBFWriteStringAttribute_def store_value_def Let_def)
  show ?thesis
  proof (cases "int (length s) > panFieldSize h ! nat f")
    case True
    let ?rec = "memcpy_at (pszCurrentRecord ?k) ?off (take ?n s)"
    have st: "store_string ?k (nat f) s = (False, ?k\<lparr>pszCurrentRecord := ?rec\<rparr>)"
      using True nb(2,3) by (simp add: store_string_def Let_def)
    have len: "length (take ?n s) \<le> ?n" by simp
    have ln: "length (take ?n s) = ?n" using True sz by simp
    have fld: "take ?n (drop ?off ?rec) = take ?n s"
      using field_bytes_memcpy[OF nb(1) len] ln by simp
    have f1: "NUL \<notin> set (take ?n s)" using nonul by (auto dest: in_set_takeD)
    have f2: "dropWhile ?P (take ?n s) \<noteq> []" using ink by (simp add: dropWhile_eq_Nil_conv)
    have "\<not> DBFIsValueNULL (pachFieldType h ! nat f) (Some (read_text pf (take ?n s)))
              (panFieldSize h ! nat f)"
      using read_text_facts(1)[OF f1 f2, of pf] by (intro not_null_string[OF ty])
    then have "\<not> fst (DBFIsAttributeNULL hk pf (?k\<lparr>pszCurrentRecord := ?rec\<rparr>) r f)"
      using is_null_after_store[OF fir ok small, of pf ?rec] fld by simp
    then show ?thesis using wr st by auto
  next
    case False
    let ?mid = "memset_at (pszCurrentRecord ?k) ?off (CHR '' '') ?n"
    let ?rec = "memcpy_at ?mid ?off s"
    have st: "store_string ?k (nat f) s = (True, ?k\<lparr>pszCurrentRecord := ?rec\<rparr>)"
      using False nb(2,3) by (simp add: store_string_def Let_def)
    have len: "length s \<le> ?n" using False by simp
    have bm: "?off + ?n \<le> length ?mid" using nb(1) by simp
    have tail: "take (?n - length s) (drop (?off + length s) ?mid)
                  = replicate (?n - length s) (CHR '' '')"
      using nb(1) len by (rule field_tail_memset)
    have fld: "take ?n (drop ?off ?rec) = s @ replicate (?n - length s) (CHR '' '')"
      using field_bytes_memcpy[OF bm len] tail by simp
    let ?fld = "s @ replicate (?n - length s) (CHR '' '')"
    have f1: "NUL \<notin> set ?fld" using nonul by simp
    have "\<exists>c\<in>set s. c \<noteq> CHR '' ''" using ink by (auto dest: in_set_takeD)
    then have f2: "dropWhile ?P ?fld \<noteq> []" by (auto simp add: dropWhile_eq_Nil_conv)
    have "\<not> DBFIsValueNULL (pachFieldType h ! nat f) (Some (read_text pf ?fld))
              (panFieldSize h ! nat f)"
      using read_text_facts(1)[OF f1 f2, of pf] by (intro not_null_string[OF ty])
    then have "\<not> fst (DBFIsAttributeNULL hk pf (?k\<lparr>pszCurrentRecord := ?rec\<rparr>) r f)"
      using is_null_after_store[OF fir ok small, of pf ?rec] fld by simp
    then show ?thesis using wr st by auto
  qed
qed

lemma not_null_date:
  assumes "x \<noteq> []" and "hd x \<noteq> CHR ''0''" and "\<exists>c\<in>set x. c \<noteq> CHR '' ''" and "1 \<le> n"
  shows "\<not> DBFIsValueNULL (CHR ''D'') (Some x) n"
proof -
  obtain c cs where x: "x = c # cs" using assms(1) by (cases x) auto
  obtain m where m: "nat n = Suc m" using assms(4) by (cases "nat n") auto
  have c0: "c \<noteq> CHR ''0''" using assms(2) x by simp
  have "x \<noteq> '' ''" using assms(3) by auto
  then show ?thesis
    using c0 x m by (simp add: DBFIsValueNULL_def)
qed

lemma not_null_after_null_write:
  assumes fir: "field_in_record h f" and ok: "fst (prepare_record hk h r)"
      and small: "r < 2147483647"
      and w: "1 \<le> panFieldSize h ! nat f"
      and nt: "\<not> TRIM_DBF_WHITESPACE pf"
      and ty: "pachFieldType h ! nat f \<noteq> CHR ''N''" "pachFieldType h ! nat f \<noteq> CHR ''F''"
              "pachFieldType h ! nat f \<noteq> CHR ''D''" "pachFieldType h ! nat f \<noteq> CHR ''L''"
  shows "\<not> fst (DBFIsAttributeNULL hk pf (nulled hk h r f) r f)"
proof -
  note nf = nulled_facts[OF fir ok small]
  have f0: "0 \<le> f" and fn: "f < nFields (nulled hk h r f)"
    using nf(7) by (simp_all add: field_in_record_def)
  have tyq: "pachFieldType (nulled hk h r f) = pachFieldType h"
    and sz: "panFieldSize (nulled hk h r f) = panFieldSize h"
    using schema_fields[OF nf(2)] by simp_all
  have fill: "DBFGetNullCharacter (pachFieldType h ! nat f) = CHR '' ''"
    using ty by (simp add: DBFGetNullCharacter_def)
  obtain m where m: "nat (panFieldSize h ! nat f) = Suc m"
    using w by (cases "nat (panFieldSize h ! nat f)") auto
  have "read_text pf (replicate (nat (panFieldSize h ! nat f)) (CHR '' '')) \<noteq> []"
    using nt m by (simp add: read_text_def cstr_def)
  then have "\<not> DBFIsValueNULL (pachFieldType h ! nat f)
               (Some (read_text pf (replicate (nat (panFieldSize h ! nat f)) (CHR '' ''))))
               (panFieldSize h ! nat f)"
    by (intro not_null_string ty)
  then show ?thesis
    using is_null_cached[OF nf(3) nf(4) nf(5) f0 fn, of hk pf]
    by (simp add: tyq sz nf(8) fill)
qed

lemma date_after_null:
  assumes fir: "field_in_record h f" and ok: "fst (prepare_record hk h r)"
      and small: "r < 2147483647"
      and w: "1 \<le> panFieldSize h ! nat f"
      and ty: "pachFieldType h ! nat f = CHR ''D''"
      and nt: "date_text (numeric_text pf (panFieldSize h ! nat f) (panFieldDecimals h ! nat f) v)"
  shows "\<exists>ret h2. DBFWriteDoubleAttribute hk pf (nulled hk h r f) r f v = Some (ret, h2) \<and>
              \<not> fst (DBFIsAttributeNULL hk pf h2 r f)"
proof -
  note nb = nulled_buffer[OF fir ok small]
  let ?k = "nulled hk h r f"
  let ?off = "nat (panFieldOffset h ! nat f)" and ?n = "nat (panFieldSize h ! nat f)"
  let ?t = "numeric_text pf (panFieldSize h ! nat f) (panFieldDecimals h ! nat f) v"
  let ?rec = "memcpy_at (pszCurrentRecord ?k) ?off ?t"
  let ?P = "\<lambda>c. c = CHR '' ''"
  have sz: "0 \<le> panFieldSize h ! nat f" using fir by (simp add: field_in_record_def)
  have len: "length ?t \<le> ?n" using sz by (rule numeric_text_length)
  have wr: "DBFWriteDoubleAttribute hk pf ?k r f v
              = Some (fst (store_numeric hk pf ?k (nat f) v), ?k\<lparr>pszCurrentRecord := ?rec\<rparr>)"
    using write_on_nulled[OF fir ok small, of pf "PDouble v"] nb(2,3,4,5,6,7) ty
      store_numeric_eq[of hk pf ?k "nat f" v]
    by (auto simp add: DBFWriteDoubleAttribute_def store_value_def Let_def
          prod_eq_iff)
  have zero: "DBFGetNullCharacter (pachFieldType h ! nat f) = CHR ''0''"
    using ty by (auto simp add: DBFGetNullCharacter_def)
  have fld: "take ?n (drop ?off ?rec) = ?t @ replicate (?n - length ?t) (CHR ''0'')"
    using field_bytes_memcpy[OF nb(1) len] nb(8)[OF len] zero by simp
  have nonul: "NUL \<notin> set ?t" and dw: "dropWhile ?P ?t \<noteq> []"
    and hdw: "hd (dropWhile ?P ?t) \<noteq> CHR ''0''"
    using nt by (simp_all add: date_text_def)
  have tne: "?t \<noteq> []" using dw by auto
  have hdt: "hd ?t \<noteq> CHR ''0''"
    using hdw tne by (cases ?t) (auto split: if_splits)
  let ?fld = "?t @ replicate (?n - length ?t) (CHR ''0'')"
  have nb1: "\<not> (\<forall>x\<in>set ?t. ?P x)" using dw by (simp add: dropWhile_eq_Nil_conv)
  have dwf: "dropWhile ?P ?fld = dropWhile ?P ?t @ replicate (?n - length ?t) (CHR ''0'')"
    using nb1 by (simp add: dropWhile_append)
  have f1: "NUL \<notin> set ?fld" using nonul by simp
  have f2: "dropWhile ?P ?fld \<noteq> []" using dwf dw by simp
  have f3: "hd (dropWhile ?P ?fld) \<noteq> CHR ''0''" using dwf dw hdw by simp
  have f4: "hd ?fld \<noteq> CHR ''0''" using tne hdt by simp
  have "\<not> DBFIsValueNULL (CHR ''D'') (Some (read_text pf ?fld)) (panFieldSize h ! nat f)"
    using read_text_facts[OF f1 f2, of pf] f3 f4 w
    by (intro not_null_date) auto
  then have "\<not> fst (DBFIsAttributeNULL hk pf (?k\<lparr>pszCurrentRecord := ?rec\<rparr>) r f)"
    using is_null_after_store[OF fir ok small, of pf ?rec] fld ty by simp
  then show ?thesis using wr by blast
qed

lemma dec_nat_example: "dec_nat 20240307 = ''20240307''"
  apply (simp add: dec_nat.simps)
  apply code_simp
  done




section \<open>Numeric writes\<close>

lemma dec_nat_small: "n < 10 \<Longrightarrow> dec_nat n = [char_of (48 + n)]"
  by (subst dec_nat.simps) (simp only: if_True)

lemma dec_nat_big: "\<not> n < 10 \<Longrightarrow> dec_nat n = dec_nat (n div 10) @ [char_of (48 + n mod 10)]"
  by (subst dec_nat.simps) (simp only: if_False)

lemma is_digit_char_of: "k < 10 \<Longrightarrow> is_digit (char_of (48 + (k::nat)))"
proof -
  assume k: "k < (10::nat)"
  then have "(48 + k) mod 256 = 48 + k" by simp
  then have "of_char (char_of (48 + k) :: char) = 48 + k" by (simp only: of_char_of)
  then show ?thesis using k by (simp only: is_digit_def) linarith
qed

lemma dec_nat_digits: "\<forall>c\<in>set (dec_nat n). is_digit c"
proof (induction n rule: dec_nat.induct)
  case (1 n)
  show ?case
  proof (cases "n < 10")
    case True
    then show ?thesis by (simp only: dec_nat_small) (simp add: is_digit_char_of)
  next
    case False
    have m: "n mod 10 < 10" by simp
    have "\<forall>c\<in>set (dec_nat (n div 10)). is_digit c" using False by (rule 1)
    then show ?thesis
      using is_digit_char_of[OF m] by (simp only: dec_nat_big[OF False]) simp
  qed
qed

lemma dec_nat_long: "10 ^ k \<le> n \<Longrightarrow> k < length (dec_nat n)"
proof (induction k arbitrary: n)
  case 0
  then show ?case by (subst dec_nat.simps) simp
next
  case (Suc k)
  have ten: "10 * 10 ^ k \<le> n" using Suc.prems by simp
  have one: "(1::nat) \<le> 10 ^ k" by simp
  have big: "\<not> n < 10" using ten one by linarith
  have "10 ^ k \<le> n div 10"
    using ten by (simp add: less_eq_div_iff_mult_less_eq mult.commute)
  then have "k < length (dec_nat (n div 10))" by (rule Suc.IH)
  then show ?case using big by (simp only: dec_nat_big[OF big]) simp
qed

lemma digits_val_bound:
  "\<forall>c\<in>set ds. is_digit c \<Longrightarrow> 0 \<le> acc \<Longrightarrow>
     0 \<le> digits_val acc ds \<and> digits_val acc ds < (acc + 1) * 10 ^ length ds"
proof (induction ds arbitrary: acc)
  case Nil
  then show ?case by simp
next
  case (Cons c ds)
  then have c: "(48::nat) \<le> of_char c" "(of_char c :: nat) \<le> 57"
    by (simp_all add: is_digit_def)
  let ?a = "10 * acc + (of_char c - 48)"
  have "int (48::nat) \<le> int (of_char c)" "int (of_char c) \<le> int (57::nat)"
    using c by (simp_all only: of_nat_le_iff)
  then have c': "(48::int) \<le> of_char c" "(of_char c :: int) \<le> 57"
    by (simp_all add: of_nat_of_char)
  have a0: "0 \<le> ?a" and a1: "?a + 1 \<le> (acc + 1) * 10" using Cons.prems(2) c' by simp_all
  have ih: "0 \<le> digits_val ?a ds" "digits_val ?a ds < (?a + 1) * 10 ^ length ds"
    using Cons.IH[OF _ a0] Cons.prems(1) by simp_all
  have le: "(?a + 1) * 10 ^ length ds \<le> ((acc + 1) * 10) * 10 ^ length ds"
    using a1 by (intro mult_right_mono) simp_all
  have eq: "digits_val acc (c # ds) = digits_val ?a ds" using c by simp
  have pw: "(acc + 1) * 10 ^ length (c # ds) = ((acc + 1) * 10) * 10 ^ length ds" by simp
  have "digits_val ?a ds < ((acc + 1) * 10) * 10 ^ length ds" using ih(2) le by linarith
  then show ?case unfolding eq pw using ih(1) by blast
qed

lemma signed_digits_digits:
  assumes "\<forall>c\<in>set ds. is_digit c"
  shows "signed_digits ds = digits_val 0 ds"
proof (cases ds)
  case Nil
  then show ?thesis by (simp add: signed_digits_def)
next
  case (Cons c cs)
  then have "is_digit c" using assms by simp
  then have "\<not> isspace c" "c \<noteq> CHR ''-''" "c \<noteq> CHR ''+''"
    by (auto simp add: is_digit_def isspace_def)
  then show ?thesis using Cons by (simp add: signed_digits_def)
qed


lemma numeric_write_stored:
  assumes fir: "field_in_record h f" and ok: "fst (prepare_record hk h r)"
      and ty: "pachFieldType h ! nat f = CHR ''D'' \<or> pachFieldType h ! nat f = CHR ''N'' \<or>
               pachFieldType h ! nat f = CHR ''F''"
  shows "\<exists>h'. DBFWriteDoubleAttribute hk pf h r f v
                = Some (fst (store_numeric hk pf
                          ((snd (prepare_record hk h r))
                             \<lparr>bCurrentRecordModified := True, bUpdated := True\<rparr>) (nat f) v), h') \<and>
              take (length (numeric_text pf (panFieldSize h ! nat f) (panFieldDecimals h ! nat f) v))
                (field_bytes h' f)
                = numeric_text pf (panFieldSize h ! nat f) (panFieldDecimals h ! nat f) v \<and>
              length (field_bytes h' f) = nat (panFieldSize h ! nat f)"
proof -
  let ?hp = "(snd (prepare_record hk h r))\<lparr>bCurrentRecordModified := True, bUpdated := True\<rparr>"
  let ?t = "numeric_text pf (panFieldSize h ! nat f) (panFieldDecimals h ! nat f) v"
  let ?off = "nat (panFieldOffset h ! nat f)"
  let ?n = "nat (panFieldSize h ! nat f)"
  let ?h' = "?hp\<lparr>pszCurrentRecord := memcpy_at (pszCurrentRecord ?hp) ?off ?t\<rparr>"
  have firp: "field_in_record (snd (prepare_record hk h r)) f" using fir by simp
  have bnd: "?off + ?n \<le> length (pszCurrentRecord ?hp)"
    using field_bounds[OF firp] by simp
  have f0: "0 \<le> f" "f < nFields h" and s0: "0 \<le> panFieldSize h ! nat f"
    using fir by (simp_all add: field_in_record_def)
  have len: "length ?t \<le> ?n" using s0 by (rule numeric_text_length)
  have sn: "snd (store_numeric hk pf ?hp (nat f) v) = ?h'"
    using store_numeric_eq[of hk pf ?hp "nat f" v] by simp
  have res: "DBFWriteDoubleAttribute hk pf h r f v
               = Some (fst (store_numeric hk pf ?hp (nat f) v), ?h')"
    using ok ty f0 sn
    by (auto simp add: DBFWriteDoubleAttribute_def DBFWriteAttribute_def store_value_def Let_def
          prod_eq_iff)
  have "take ?n (drop ?off (memcpy_at (pszCurrentRecord ?hp) ?off ?t))
          = ?t @ take (?n - length ?t) (drop (?off + length ?t) (pszCurrentRecord ?hp))"
    using bnd len by (rule field_bytes_memcpy)
  then have "take (length ?t) (field_bytes ?h' f) = ?t"
    by (simp add: field_bytes_def)
  moreover have "length (memcpy_at (pszCurrentRecord ?hp) ?off ?t) = length (pszCurrentRecord ?hp)"
    using bnd len by (intro length_memcpy_at) linarith
  then have "length (field_bytes ?h' f) = ?n"
    using bnd by (simp add: field_bytes_def min_def) linarith
  ultimately show ?thesis using res by blast
qed


lemma numeric_text_cases:
  "0 \<le> sz \<Longrightarrow> sz \<le> 254 \<Longrightarrow>
     numeric_text pf sz dec v
       = (if sz < int (length (formatted pf sz dec v)) then take (nat sz) (formatted pf sz dec v)
          else formatted pf sz dec v)"
  by (auto simp add: numeric_text_def Let_def XBASE_FLD_MAX_WIDTH_def min_def)

lemma store_numeric_return:
  "0 \<le> panFieldSize h ! i \<Longrightarrow> panFieldSize h ! i \<le> 254 \<Longrightarrow>
     fst (store_numeric hk pf h i v)
       = (if panFieldSize h ! i
               < int (length (formatted pf (panFieldSize h ! i) (panFieldDecimals h ! i) v))
          then dbl_eq pf (Atof hk (take (nat (panFieldSize h ! i))
                 (formatted pf (panFieldSize h ! i) (panFieldDecimals h ! i) v))) v
          else True)"
  by (auto simp add: store_numeric_def formatted_def Let_def XBASE_FLD_MAX_WIDTH_def min_def)

lemma store_numeric_return_max:
  "panFieldSize h ! i = 255 \<Longrightarrow> fst (store_numeric hk pf h i v)"
  by (simp add: store_numeric_def Let_def XBASE_FLD_MAX_WIDTH_def)

lemma numeric_text_max:
  "numeric_text pf 255 dec v = take 255 (formatted pf 255 dec v)"
  by (simp add: numeric_text_def Let_def XBASE_FLD_MAX_WIDTH_def)

lemma numeric_write_below_max:
  assumes fir: "field_in_record h f" and ok: "fst (prepare_record hk h r)"
      and ty: "pachFieldType h ! nat f = CHR ''D'' \<or> pachFieldType h ! nat f = CHR ''N'' \<or>
               pachFieldType h ! nat f = CHR ''F''"
      and w: "panFieldSize h ! nat f \<le> 254"
  shows "\<exists>ret h'. DBFWriteDoubleAttribute hk pf h r f v = Some (ret, h') \<and>
           (let t = formatted pf (panFieldSize h ! nat f) (panFieldDecimals h ! nat f) v
            in if panFieldSize h ! nat f < int (length t)
               then field_bytes h' f = take (nat (panFieldSize h ! nat f)) t \<and>
                    ret = dbl_eq pf (Atof hk (take (nat (panFieldSize h ! nat f)) t)) v
               else take (length t) (field_bytes h' f) = t \<and> ret)"
proof -
  let ?hp = "(snd (prepare_record hk h r))\<lparr>bCurrentRecordModified := True, bUpdated := True\<rparr>"
  let ?sz = "panFieldSize h ! nat f"
  let ?t = "formatted pf ?sz (panFieldDecimals h ! nat f) v"
  have s0: "0 \<le> ?sz" using fir by (simp add: field_in_record_def)
  obtain h' where
    res: "DBFWriteDoubleAttribute hk pf h r f v
            = Some (fst (store_numeric hk pf ?hp (nat f) v), h')" and
    st: "take (length (numeric_text pf ?sz (panFieldDecimals h ! nat f) v)) (field_bytes h' f)
           = numeric_text pf ?sz (panFieldDecimals h ! nat f) v" and
    lf: "length (field_bytes h' f) = nat ?sz"
    using numeric_write_stored[OF fir ok ty, of pf v] by blast
  have ret: "fst (store_numeric hk pf ?hp (nat f) v)
               = (if ?sz < int (length ?t) then dbl_eq pf (Atof hk (take (nat ?sz) ?t)) v else True)"
    using store_numeric_return[of ?hp "nat f" hk pf v] s0 w by simp
  show ?thesis
  proof (cases "?sz < int (length ?t)")
    case True
    then have nt: "numeric_text pf ?sz (panFieldDecimals h ! nat f) v = take (nat ?sz) ?t"
      by (simp only: numeric_text_cases[OF s0 w] if_True)
    have ln: "length (take (nat ?sz) ?t) = nat ?sz" using True by simp
    have "take (nat ?sz) (field_bytes h' f) = take (nat ?sz) ?t"
      using st unfolding nt ln .
    moreover have "take (nat ?sz) (field_bytes h' f) = field_bytes h' f"
      using lf by simp
    ultimately show ?thesis using res ret True by (auto simp add: Let_def)
  next
    case False
    then have nt: "numeric_text pf ?sz (panFieldDecimals h ! nat f) v = ?t"
      by (simp only: numeric_text_cases[OF s0 w] if_False)
    show ?thesis using res ret False st unfolding nt by (auto simp add: Let_def)
  qed
qed


lemma numeric_write_at_max:
  assumes fir: "field_in_record h f" and ok: "fst (prepare_record hk h r)"
      and ty: "pachFieldType h ! nat f = CHR ''D'' \<or> pachFieldType h ! nat f = CHR ''N'' \<or>
               pachFieldType h ! nat f = CHR ''F''"
      and w: "panFieldSize h ! nat f = 255"
      and long: "255 \<le> length (formatted pf 255 (panFieldDecimals h ! nat f) v)"
  shows "\<exists>h'. DBFWriteDoubleAttribute hk pf h r f v = Some (True, h') \<and>
           field_bytes h' f = take 255 (formatted pf 255 (panFieldDecimals h ! nat f) v)"
proof -
  let ?hp = "(snd (prepare_record hk h r))\<lparr>bCurrentRecordModified := True, bUpdated := True\<rparr>"
  let ?t = "take 255 (formatted pf 255 (panFieldDecimals h ! nat f) v)"
  obtain h' where
    res: "DBFWriteDoubleAttribute hk pf h r f v
            = Some (fst (store_numeric hk pf ?hp (nat f) v), h')" and
    st: "take (length (numeric_text pf (panFieldSize h ! nat f) (panFieldDecimals h ! nat f) v))
           (field_bytes h' f)
           = numeric_text pf (panFieldSize h ! nat f) (panFieldDecimals h ! nat f) v" and
    lf: "length (field_bytes h' f) = nat (panFieldSize h ! nat f)"
    using numeric_write_stored[OF fir ok ty, of pf v] by blast
  have ret: "fst (store_numeric hk pf ?hp (nat f) v)"
    using w by (intro store_numeric_return_max) simp
  have lt: "length ?t = 255" using long by simp
  have "take (length ?t) (field_bytes h' f) = ?t"
    using st unfolding w numeric_text_max .
  then have "take 255 (field_bytes h' f) = ?t" unfolding lt .
  moreover have "take 255 (field_bytes h' f) = field_bytes h' f" using lf w by simp
  ultimately show ?thesis using res ret by simp
qed

lemma dec_nat_cut_small:
  assumes "10 ^ k \<le> n"
  shows "k < length (dec_nat n) \<and> signed_digits (take k (dec_nat n)) < int n"
proof -
  have dg: "\<forall>c\<in>set (take k (dec_nat n)). is_digit c"
    using dec_nat_digits[of n] by (meson in_set_takeD)
  have ln: "k < length (dec_nat n)" using assms by (rule dec_nat_long)
  have "digits_val 0 (take k (dec_nat n)) < (0 + 1) * 10 ^ length (take k (dec_nat n))"
    using digits_val_bound[OF dg, of 0] by simp
  then have a: "digits_val 0 (take k (dec_nat n)) < 10 ^ k" using ln by (simp add: min_def)
  have "int (10 ^ k) \<le> int n" using assms by (simp only: of_nat_le_iff)
  then have b: "(10::int) ^ k \<le> int n" by simp
  have "digits_val 0 (take k (dec_nat n)) < int n" using a b by linarith
  then show ?thesis using ln signed_digits_digits[OF dg] by simp
qed

lemma ex_wide_text:
  "formatted (whole_platform True) 255 0 (2 ^ 1000) = dec_nat (2 ^ 1000) \<and>
   255 < length (dec_nat (2 ^ 1000)) \<and>
   signed_digits (take 255 (dec_nat (2 ^ 1000))) < 2 ^ 1000"
proof -
  have le: "(10::nat) ^ 255 \<le> 2 ^ 1000" by simp
  have c: "255 < length (dec_nat (2 ^ 1000))"
          "signed_digits (take 255 (dec_nat (2 ^ 1000))) < int (2 ^ 1000)"
    using dec_nat_cut_small[OF le] by simp_all
  have "formatted (whole_platform True) 255 0 (2 ^ 1000) = dec_nat (2 ^ 1000)"
    using c(1)
    by (simp add: formatted_def whole_platform_def fmt_whole_def showd_def Let_def
          XBASE_FLD_MAX_WIDTH_def nat_power_eq)
  then show ?thesis using c by simp
qed

text \<open>
  Claim C2, at the greatest field width. The table \<open>ex_wide\<close> has one \<open>N\<close> field of width
  255. \<^verbatim>\<open>DBFWriteDoubleAttribute\<close> of \<open>2 ^ 1000\<close> formats more than 255 characters,
  stores the first 255 of them, and returns \<^verbatim>\<open>TRUE\<close>, although \<^verbatim>\<open>Atof\<close> of the stored
  text is a smaller number: the buffer \<^verbatim>\<open>szSField\<close> holds at most 255 characters, so
  the test \<^verbatim>\<open>strlen(szSField) > panFieldSize[iField]\<close> cannot hold at this width.
\<close>

theorem numeric_write_width_255_unnoticed:
  "\<exists>h'. DBFWriteDoubleAttribute mem_hooks (whole_platform True) ex_wide 0 0 (2 ^ 1000)
           = Some (True, h') \<and>
         int (length (formatted (whole_platform True) 255 0 (2 ^ 1000)))
           > panFieldSize ex_wide ! 0 \<and>
         field_bytes h' 0 = take 255 (formatted (whole_platform True) 255 0 (2 ^ 1000)) \<and>
         \<not> dbl_eq (whole_platform True) (Atof mem_hooks (field_bytes h' 0)) (2 ^ 1000)"
proof -
  let ?pf = "whole_platform True"
  have fir: "field_in_record ex_wide 0" by (simp add: field_in_record_def ex_wide_def)
  have ok: "fst (prepare_record mem_hooks ex_wide 0)" by code_simp
  have ty: "pachFieldType ex_wide ! nat 0 = CHR ''D'' \<or> pachFieldType ex_wide ! nat 0 = CHR ''N''
            \<or> pachFieldType ex_wide ! nat 0 = CHR ''F''" by (simp add: ex_wide_def)
  have w: "panFieldSize ex_wide ! nat 0 = 255" by (simp add: ex_wide_def)
  have d: "panFieldDecimals ex_wide ! nat 0 = 0" by (simp add: ex_wide_def)
  note tx = ex_wide_text
  have long: "255 \<le> length (formatted ?pf 255 (panFieldDecimals ex_wide ! nat 0) (2 ^ 1000))"
    unfolding d using tx by simp
  obtain h' where
    res: "DBFWriteDoubleAttribute mem_hooks ?pf ex_wide 0 0 (2 ^ 1000) = Some (True, h')" and
    fb: "field_bytes h' 0 = take 255 (formatted ?pf 255 0 (2 ^ 1000))"
    using numeric_write_at_max[OF fir ok ty w long] unfolding d by blast
  have "Atof mem_hooks (field_bytes h' 0) < 2 ^ 1000"
    unfolding fb using tx by (simp add: mem_hooks_def)
  then have "\<not> dbl_eq ?pf (Atof mem_hooks (field_bytes h' 0)) (2 ^ 1000)"
    by (simp add: whole_platform_def)
  moreover have "int (length (formatted ?pf 255 0 (2 ^ 1000))) > panFieldSize ex_wide ! 0"
    using tx w by simp
  ultimately show ?thesis using res fb by blast
qed

end
